theory Spec2Isabelle
  imports Complex_Main "HOL-Library.Word"
begin

unbundle bit_operations_syntax

section \<open>Machine integers, status codes and byte streams\<close>

type_synonym u8 = "8 word"
type_synonym u16 = "16 word"
type_synonym u32 = "32 word"
type_synonym u64 = "64 word"

text \<open>
  Modelled from the spec: \<^verbatim>\<open>format_status.h\<close> (class FormatStatus, enum FormatErrorCode
  and the macro RETURN_IF_FORMAT_ERROR) is not among the sources; the error kinds are the
  ones the specification's error taxonomy lists. A status-returning C++ function becomes
  a function into \<open>FormatErrorCode + 'a\<close> (\<open>Inl\<close> the error, \<open>Inr\<close> the OK result), and
  RETURN_IF_FORMAT_ERROR is the \<open>case\<close> on the result. The extra value
  \<open>UNDEFINED_BEHAVIOR\<close> is not a code of the program: it marks the executions in which the
  C++ program reads out of range, reads an uninitialised member or throws.
\<close>

datatype FormatErrorCode =
  FILE_FORMAT_ERROR | FILE_UNEXPECTED_EOF | FILE_WRITE_ERROR | UNEXPECTED_ERROR
  | UNDEFINED_BEHAVIOR

text \<open>
  A stream is its sequence of chars (\<^verbatim>\<open>std::string\<close>, a file opened in binary mode).
  Integers are written in network byte order (binary_writer_impl.cc: ghtons, ghtonl,
  ghtonll, and ghton24 on a little-endian host): \<open>be_chars k n\<close> is the k-byte big-endian
  form of n, \<open>be_nat\<close> decodes it.
\<close>

primrec be_chars :: "nat \<Rightarrow> nat \<Rightarrow> string" where
  "be_chars 0 n = []"
| "be_chars (Suc k) n = be_chars k (n div 256) @ [char_of n]"

definition be_nat :: "string \<Rightarrow> nat" where
  "be_nat s = foldl (\<lambda>a c. a * 256 + of_char c) 0 s"

definition PutUInt8 :: "u8 \<Rightarrow> string" where
  "PutUInt8 v = be_chars 1 (unat v)"

definition PutUInt16 :: "u16 \<Rightarrow> string" where
  "PutUInt16 v = be_chars 2 (unat v)"

definition PutUInt24 :: "u32 \<Rightarrow> string" where
  "PutUInt24 v = be_chars 3 (unat v)"

definition PutUInt32 :: "u32 \<Rightarrow> string" where
  "PutUInt32 v = be_chars 4 (unat v)"

definition PutUInt64 :: "u64 \<Rightarrow> string" where
  "PutUInt64 v = be_chars 8 (unat v)"

text \<open>
  binary_reader_impl.cc: every read seeks to the reader's own position first, reads, and
  reports FILE_UNEXPECTED_EOF when the stream failed. The stream classes are the C++
  library's; the model takes a seek beyond the end of the stream and a short read as
  failures (as \<^verbatim>\<open>std::istringstream\<close> behaves). A read returns the value and the new
  position.
\<close>

definition ReadString :: "string \<Rightarrow> nat \<Rightarrow> nat \<Rightarrow> FormatErrorCode + (string \<times> nat)" where
  "ReadString s pos n =
     (if pos + n \<le> length s then Inr (take n (drop pos s), pos + n)
      else Inl FILE_UNEXPECTED_EOF)"

definition ReadUInt8 :: "string \<Rightarrow> nat \<Rightarrow> FormatErrorCode + (u8 \<times> nat)" where
  "ReadUInt8 s pos =
     (case ReadString s pos 1 of Inl e \<Rightarrow> Inl e
      | Inr (cs, pos') \<Rightarrow> Inr (word_of_nat (be_nat cs), pos'))"

definition ReadUInt16 :: "string \<Rightarrow> nat \<Rightarrow> FormatErrorCode + (u16 \<times> nat)" where
  "ReadUInt16 s pos =
     (case ReadString s pos 2 of Inl e \<Rightarrow> Inl e
      | Inr (cs, pos') \<Rightarrow> Inr (word_of_nat (be_nat cs), pos'))"

definition ReadUInt24 :: "string \<Rightarrow> nat \<Rightarrow> FormatErrorCode + (u32 \<times> nat)" where
  "ReadUInt24 s pos =
     (case ReadString s pos 3 of Inl e \<Rightarrow> Inl e
      | Inr (cs, pos') \<Rightarrow> Inr (word_of_nat (be_nat cs), pos'))"

definition ReadUInt32 :: "string \<Rightarrow> nat \<Rightarrow> FormatErrorCode + (u32 \<times> nat)" where
  "ReadUInt32 s pos =
     (case ReadString s pos 4 of Inl e \<Rightarrow> Inl e
      | Inr (cs, pos') \<Rightarrow> Inr (word_of_nat (be_nat cs), pos'))"

definition ReadUInt64 :: "string \<Rightarrow> nat \<Rightarrow> FormatErrorCode + (u64 \<times> nat)" where
  "ReadUInt64 s pos =
     (case ReadString s pos 8 of Inl e \<Rightarrow> Inl e
      | Inr (cs, pos') \<Rightarrow> Inr (word_of_nat (be_nat cs), pos'))"

text \<open>
  A BinaryReader object (BinaryReaderImpl): the stream it shares with its clones and its
  own position. \<open>reader_stream_id\<close> names the shared stream, so that the sticky failure state of
  a stream can be told to the readers cloned from it.
\<close>

datatype BinaryReader =
  BinaryReader (reader_stream_id: nat) (reader_stream: string) (reader_pos: nat)

section \<open>The atom tree\<close>

text \<open>
  atom.h, full_atom.h and the atom classes under atoms/. The dynamic class of an atom and
  the members its class adds are the \<open>atom_data\<close>; the members of the base class Atom are
  the arguments of the constructor \<open>Atom\<close>. The back pointer \<^verbatim>\<open>parent_\<close> is not stored:
  a tree value has each child inside its one parent, and the functions that change a
  child recompute the sizes of its ancestors as \<^verbatim>\<open>Atom::Update\<close> does through the pointer.
\<close>

record Entry =
  segment_duration :: u64
  media_time :: u64
  media_rate_integer :: u16
  media_rate_fraction :: u16

record TKHD_members =
  created_date :: u64
  modified_date :: u64
  track_id :: u32
  reserved32_1 :: u32
  duration :: u64
  reserved32_2 :: u32
  reserved32_3 :: u32
  layer :: u16
  group :: u16
  volume :: u16
  reserved16 :: u16
  matrix :: "u32 list"
  tkhd_width :: u32
  tkhd_height :: u32

record HDLR_members =
  component_type :: string
  component_subtype :: string
  component_manufacturer :: string
  component_flags :: u32
  component_flags_mask :: u32
  component_name :: string

record VisualSampleEntry_members =
  reserved_32 :: u32
  reserved_16 :: u16
  data_reference_index :: u16
  visual_version :: u16
  revision :: u16
  vendor :: string
  temporal_quality :: u32
  spatial_quality :: u32
  vse_width :: u16
  vse_height :: u16
  horizontal_res :: u32
  vertical_res :: u32
  entry_data_size :: u32
  frames_per_sample :: u16
  encoder_name_size :: u8
  encoder_name :: string
  bit_depth :: u16
  color_table_id :: u16

datatype container_class =
  AtomMOOV | AtomTRAK | AtomMDIA | AtomMINF | AtomSTBL | AtomEDTS | AtomSV3D

datatype full_atom_data =
    AtomSTCO (chunk_offsets: "u64 list") (moov_size_delta: u64) (max_chunk_offset: u64)
  | AtomELST (entries: "Entry list")
  | AtomSDTP (frame_description: "u8 list")
  | AtomSTSD
  | AtomSTSS (key_frame_indices: "u32 list")
  | AtomST3D (stereo_mode: u8)
  | AtomHDLR HDLR_members
  | AtomTKHD TKHD_members

datatype atom_data =
    AtomDefault (payload_reader: "BinaryReader option")
  | Container container_class
  | FullAtom (version: u8) (flags: u32) (members: full_atom_data)
  | AtomUUID (uuid: string) (uuid_value: string)
  | AtomCAMM (reserved: string) (camm_data_reference_index: u16)
  | VisualSampleEntry VisualSampleEntry_members

datatype atom =
  Atom (atom_type: string) (header_size: u64) (data_size: u64)
       (children: "atom list") (has_null_terminator: bool) (data: atom_data)

definition set_children :: "atom list \<Rightarrow> atom \<Rightarrow> atom" where
  "set_children cs a =
     Atom (atom_type a) (header_size a) (data_size a) cs (has_null_terminator a) (data a)"

definition set_data :: "atom_data \<Rightarrow> atom \<Rightarrow> atom" where
  "set_data d a =
     Atom (atom_type a) (header_size a) (data_size a) (children a) (has_null_terminator a) d"

definition set_atom_type :: "string \<Rightarrow> atom \<Rightarrow> atom" where
  "set_atom_type t a =
     Atom t (header_size a) (data_size a) (children a) (has_null_terminator a) (data a)"

text \<open>\<^verbatim>\<open>Atom::size\<close>: header_size() + data_size(), in uint64_t.\<close>

definition size_of :: "atom \<Rightarrow> u64" where
  "size_of a = header_size a + data_size a"

definition NumChildren :: "atom \<Rightarrow> int" where
  "NumChildren a = int (length (children a))"

definition kType32 :: string where "kType32 = ''stco''"
definition kType64 :: string where "kType64 = ''co64''"

text \<open>
  The virtual \<^verbatim>\<open>GetDataSizeWithoutChildren\<close> of each class (atom.h for the containers,
  which do not override it, atom_registry.cc for AtomDefault, and the class files).
  AtomELST multiplies the 32-bit \<^verbatim>\<open>NumEntries()\<close> by the 64-bit entry size; AtomHDLR
  adds up in a uint32_t.
\<close>

definition EntrySize :: "u8 \<Rightarrow> u64" where
  "EntrySize v = (if v = 1 then 20 else 12)"

definition NumEntries :: "Entry list \<Rightarrow> u32" where
  "NumEntries es = word_of_nat (length es)"

fun GetDataSizeWithoutChildren :: "atom \<Rightarrow> u64" where
  "GetDataSizeWithoutChildren (Atom t hs ds cs nt d) =
     (case d of
        AtomDefault r \<Rightarrow> ds
      | Container c \<Rightarrow> 0
      | FullAtom v f m \<Rightarrow>
          (case m of
             AtomSTCO offs delta mx \<Rightarrow>
               8 + word_of_nat (length offs) * (if t = kType32 then 4 else 8)
           | AtomELST es \<Rightarrow> 8 + ucast (NumEntries es) * EntrySize v
           | AtomSDTP fd \<Rightarrow> word_of_nat (length fd) + 4
           | AtomSTSD \<Rightarrow> 8
           | AtomSTSS ks \<Rightarrow> ds
           | AtomST3D sm \<Rightarrow> 5
           | AtomHDLR h \<Rightarrow>
               ucast ((12 :: u32) + word_of_nat (length (component_type h))
                      + word_of_nat (length (component_subtype h))
                      + word_of_nat (length (component_manufacturer h))
                      + word_of_nat (length (component_name h)))
           | AtomTKHD k \<Rightarrow> (if v = 1 then 96 else 84))
      | AtomUUID u val \<Rightarrow> word_of_nat (length u) + word_of_nat (length val)
      | AtomCAMM r i \<Rightarrow> word_of_nat (length r) + 2
      | VisualSampleEntry e \<Rightarrow> 78)"

text \<open>
  \<^verbatim>\<open>Atom::ComputeHeaderSize\<close> and \<^verbatim>\<open>Atom::UpdateSize\<close> (atom.cc). All sums are uint64_t
  and wrap; the comparison with UINT32_MAX is unsigned.
\<close>

definition ComputeHeaderSize :: "u64 \<Rightarrow> u64" where
  "ComputeHeaderSize ds = (if (8 :: u64) + ds > 0xFFFFFFFF then 8 + 8 else 8)"

definition children_size :: "atom list \<Rightarrow> u64" where
  "children_size cs = foldl (\<lambda>s c. s + size_of c) 0 cs"

definition UpdateSize :: "atom \<Rightarrow> atom" where
  "UpdateSize a =
     (let terminator_size = (if has_null_terminator a then 4 else 0);
          ds = GetDataSizeWithoutChildren a + children_size (children a) + terminator_size
      in Atom (atom_type a) (ComputeHeaderSize ds) ds (children a)
              (has_null_terminator a) (data a))"

text \<open>
  \<^verbatim>\<open>Atom::AddChildAt\<close>: the index check, then the loop that swaps the new child down from
  \<open>index\<close> to the end, \<^verbatim>\<open>push_back\<close> of what the loop carries out, and Update. The result
  is the atom itself; \<^verbatim>\<open>Update\<close> of the ancestors is done by the caller that holds them.
  \<^verbatim>\<open>Atom::DeleteChild\<close> returns the removed child (\<open>None\<close> for \<^verbatim>\<open>nullptr\<close>) and the atom.
\<close>

definition swap_down :: "atom list \<times> atom \<Rightarrow> nat \<Rightarrow> atom list \<times> atom" where
  "swap_down st i = (case st of (cs, child) \<Rightarrow> (cs[i := child], cs ! i))"

definition AddChildAt :: "atom \<Rightarrow> int \<Rightarrow> atom \<Rightarrow> atom" where
  "AddChildAt child index a =
     (let size = NumChildren a in
      if index < 0 \<or> index > size then a
      else (case foldl swap_down (children a, child) [nat index ..< nat size] of
              (cs, carried) \<Rightarrow> UpdateSize (set_children (cs @ [carried]) a)))"

definition AddChild :: "atom \<Rightarrow> atom \<Rightarrow> atom" where
  "AddChild child a = AddChildAt child (NumChildren a) a"

definition DeleteChild :: "int \<Rightarrow> atom \<Rightarrow> atom option \<times> atom" where
  "DeleteChild i a =
     (if i < 0 \<or> i \<ge> NumChildren a then (None, a)
      else (Some (children a ! nat i),
            UpdateSize (set_children (take (nat i) (children a) @ drop (Suc (nat i)) (children a)) a)))"

section \<open>AtomSDTP (atom_sdtp.cc)\<close>

definition kIFrameDescription :: u8 where "kIFrameDescription = 32"
definition kPFrameDescription :: u8 where "kPFrameDescription = 24"

text \<open>
  The loop of \<^verbatim>\<open>PopulateFromKeyFrameIndices\<close>. The counters \<open>i\<close> and
  \<open>next_key_frame_index\<close> are uint32_t in the source; both stay below \<open>last_index\<close>, so
  they are natural numbers here, and \<open>i\<close> is compared as the 32-bit value it is with
  \<^verbatim>\<open>indices[next_key_frame_index] - 1\<close>, a 32-bit subtraction that wraps. Reading
  \<open>indices\<close> out of range, and \<^verbatim>\<open>back()\<close> of an empty vector, have no defined behaviour:
  the result is \<open>None\<close>.
\<close>

function PopulateLoop :: "u32 list \<Rightarrow> nat \<Rightarrow> nat \<Rightarrow> nat \<Rightarrow> u8 list \<Rightarrow> u8 list option" where
  "PopulateLoop indices last_index i next_key_frame_index fd =
     (if i < last_index then
        (if next_key_frame_index < length indices then
           (if (word_of_nat i :: u32) = indices ! next_key_frame_index - 1
            then PopulateLoop indices last_index (Suc i) (Suc next_key_frame_index)
                   (fd @ [kIFrameDescription])
            else PopulateLoop indices last_index (Suc i) next_key_frame_index
                   (fd @ [kPFrameDescription]))
         else None)
      else Some fd)"
  by pat_completeness auto
termination
  by (relation "measure (\<lambda>(indices, last_index, i, k, fd). last_index - i)") auto

definition PopulateFromKeyFrameIndices :: "u32 list \<Rightarrow> atom \<Rightarrow> atom option" where
  "PopulateFromKeyFrameIndices indices a =
     (case data a of
        FullAtom v f (AtomSDTP old) \<Rightarrow>
          (if indices = [] then None
           else (case PopulateLoop indices (unat (last indices)) 0 0 [] of
                   None \<Rightarrow> None
                 | Some fd \<Rightarrow> Some (UpdateSize (set_data (FullAtom v f (AtomSDTP fd)) a))))
      | _ \<Rightarrow> None)"

text \<open>The default constructor \<^verbatim>\<open>AtomSDTP()\<close>: FullAtom(8, 0, "sdtp"), no Update.\<close>

definition new_AtomSDTP :: atom where
  "new_AtomSDTP = Atom ''sdtp'' 8 0 [] False (FullAtom 0 0 (AtomSDTP []))"

section \<open>Properties of the atom tree and of AtomSDTP\<close>

declare PopulateLoop.simps [simp del]

lemma UpdateSize_sel [simp]:
  "atom_type (UpdateSize a) = atom_type a"
  "children (UpdateSize a) = children a"
  "has_null_terminator (UpdateSize a) = has_null_terminator a"
  "data (UpdateSize a) = data a"
  by (simp_all add: UpdateSize_def Let_def)

lemma set_data_sel [simp]:
  "atom_type (set_data d a) = atom_type a"
  "header_size (set_data d a) = header_size a"
  "data_size (set_data d a) = data_size a"
  "children (set_data d a) = children a"
  "has_null_terminator (set_data d a) = has_null_terminator a"
  "data (set_data d a) = d"
  by (simp_all add: set_data_def)

lemma PopulateLoop_invariant:
  assumes sorted: "sorted_wrt (<) indices"
    and nonzero: "\<forall>x \<in> set indices. x \<noteq> 0"
    and ne: "indices \<noteq> []"
    and i_le: "i \<le> unat (last indices)"
    and k_le: "k \<le> length indices"
    and below: "\<forall>j < k. unat (indices ! j) \<le> i"
    and above: "\<forall>j. k \<le> j \<and> j < length indices \<longrightarrow> i < unat (indices ! j)"
  shows "PopulateLoop indices (unat (last indices)) i k fd =
           Some (fd @ map (\<lambda>j. if word_of_nat (Suc j) \<in> set indices
                               then kIFrameDescription else kPFrameDescription)
                          [i ..< unat (last indices)])"
  using i_le k_le below above
proof (induction "unat (last indices) - i" arbitrary: i k fd)
  case 0
  then have "i = unat (last indices)" by simp
  then show ?case by (subst PopulateLoop.simps) simp
next
  case (Suc d)
  let ?n = "unat (last indices)"
  from Suc.hyps have i_lt: "i < ?n" by simp
  have n_lt: "?n < 2 ^ 32" using unsigned_less [of "last indices", where 'a = nat] by simp
  have k_lt: "k < length indices"
  proof (rule ccontr)
    assume "\<not> k < length indices"
    with Suc.prems have "k = length indices" by simp
    with ne Suc.prems(3) have "unat (indices ! (length indices - 1)) \<le> i" by simp
    with ne have "?n \<le> i" by (simp add: last_conv_nth)
    with i_lt show False by simp
  qed
  let ?x = "indices ! k"
  have x_in: "?x \<in> set indices" using k_lt by simp
  then have x_nz: "?x \<noteq> 0" using nonzero by blast
  then have x_pos: "0 < unat ?x" by (simp add: unat_gt_0)
  have unat_x1: "unat (?x - 1) = unat ?x - 1" using x_nz by (simp add: unat_minus_one)
  have unat_i: "unat (word_of_nat i :: u32) = i" using i_lt n_lt by (simp add: unat_of_nat)
  have unat_Si: "unat (word_of_nat (Suc i) :: u32) = Suc i"
    using i_lt n_lt by (simp add: unat_of_nat del: of_nat_Suc)
  have test: "((word_of_nat i :: u32) = ?x - 1) = (unat ?x = Suc i)"
  proof
    assume "(word_of_nat i :: u32) = ?x - 1"
    then have "unat (word_of_nat i :: u32) = unat (?x - 1)" by simp
    then show "unat ?x = Suc i" using unat_i unat_x1 x_pos by simp
  next
    assume "unat ?x = Suc i"
    then have "unat (?x - 1) = unat (word_of_nat i :: u32)" using unat_i unat_x1 by simp
    then show "(word_of_nat i :: u32) = ?x - 1" by (metis word_unat_eq_iff)
  qed
  have mono: "\<And>j. k < j \<Longrightarrow> j < length indices \<Longrightarrow> unat ?x < unat (indices ! j)"
    using sorted by (simp add: sorted_wrt_iff_nth_less word_less_nat_alt)
  have upt: "[i ..< ?n] = i # [Suc i ..< ?n]" using i_lt by (simp add: upt_conv_Cons)
  show ?case
  proof (cases "unat ?x = Suc i")
    case True
    have mem: "word_of_nat (Suc i) \<in> set indices"
    proof -
      have "(word_of_nat (Suc i) :: u32) = ?x" using True unat_Si by (metis word_unat_eq_iff)
      then show ?thesis using x_in by simp
    qed
    have IH: "PopulateLoop indices ?n (Suc i) (Suc k) (fd @ [kIFrameDescription]) =
      Some ((fd @ [kIFrameDescription]) @ map (\<lambda>j. if word_of_nat (Suc j) \<in> set indices
                               then kIFrameDescription else kPFrameDescription) [Suc i ..< ?n])"
    proof (rule Suc.hyps(1))
      show "d = ?n - Suc i" using Suc.hyps(2) by simp
      show "Suc i \<le> ?n" using i_lt by simp
      show "Suc k \<le> length indices" using k_lt by simp
      show "\<forall>j<Suc k. unat (indices ! j) \<le> Suc i"
        using Suc.prems(3) True by (auto simp: less_Suc_eq le_SucI)
      show "\<forall>j. Suc k \<le> j \<and> j < length indices \<longrightarrow> Suc i < unat (indices ! j)"
        using mono True by auto
    qed
    show ?thesis
      using i_lt k_lt test True mem IH upt
      by (simp add: PopulateLoop.simps [of indices ?n i])
  next
    case False
    have gt: "Suc i < unat ?x" using Suc.prems(4) k_lt False by (metis Suc_lessI le_refl)
    have notmem: "word_of_nat (Suc i) \<notin> set indices"
    proof
      assume "word_of_nat (Suc i) \<in> set indices"
      then obtain j where j: "j < length indices" "indices ! j = word_of_nat (Suc i)"
        by (auto simp: in_set_conv_nth)
      then have uj: "unat (indices ! j) = Suc i" using unat_Si by simp
      show False
      proof (cases "j < k")
        case True
        with Suc.prems(3) uj show False by auto
      next
        case False
        then have "j = k \<or> k < j" by auto
        then show False using mono [of j] j(1) uj gt by auto
      qed
    qed
    have IH: "PopulateLoop indices ?n (Suc i) k (fd @ [kPFrameDescription]) =
      Some ((fd @ [kPFrameDescription]) @ map (\<lambda>j. if word_of_nat (Suc j) \<in> set indices
                               then kIFrameDescription else kPFrameDescription) [Suc i ..< ?n])"
    proof (rule Suc.hyps(1))
      show "d = ?n - Suc i" using Suc.hyps(2) by simp
      show "Suc i \<le> ?n" using i_lt by simp
      show "k \<le> length indices" using k_lt by simp
      show "\<forall>j<k. unat (indices ! j) \<le> Suc i"
        using Suc.prems(3) by (auto simp: le_SucI)
      show "\<forall>j. k \<le> j \<and> j < length indices \<longrightarrow> Suc i < unat (indices ! j)"
      proof (intro allI impI)
        fix j assume "k \<le> j \<and> j < length indices"
        then have "j = k \<or> (k < j \<and> j < length indices)" by auto
        then show "Suc i < unat (indices ! j)" using gt mono [of j] by auto
      qed
    qed
    show ?thesis
      using i_lt k_lt test False notmem IH upt
      by (simp add: PopulateLoop.simps [of indices ?n i])
  qed
qed


definition frame_description_of :: "atom \<Rightarrow> u8 list" where
  "frame_description_of a =
     (case data a of FullAtom v f (AtomSDTP fd) \<Rightarrow> fd | _ \<Rightarrow> [])"

lemma PopulateLoop_result:
  assumes "indices \<noteq> []" and "sorted_wrt (<) indices" and "0 < hd indices"
  shows "PopulateLoop indices (unat (last indices)) 0 0 [] =
           Some (map (\<lambda>j. if word_of_nat (Suc j) \<in> set indices
                            then kIFrameDescription else kPFrameDescription)
                     [0 ..< unat (last indices)])"
proof -
  have nonzero: "\<forall>x \<in> set indices. x \<noteq> 0"
  proof
    fix x assume "x \<in> set indices"
    then obtain j where j: "j < length indices" "indices ! j = x"
      by (auto simp: in_set_conv_nth)
    have "hd indices \<le> indices ! j"
    proof (cases j)
      case 0
      then show ?thesis using assms(1) by (simp add: hd_conv_nth)
    next
      case (Suc m)
      then have "indices ! 0 < indices ! j"
        using assms(2) j(1) by (simp add: sorted_wrt_iff_nth_less)
      then show ?thesis using assms(1) by (simp add: hd_conv_nth)
    qed
    with assms(3) j(2) show "x \<noteq> 0" by auto
  qed
  have pos: "\<forall>j. 0 \<le> j \<and> j < length indices \<longrightarrow> 0 < unat (indices ! j)"
    using nonzero by (auto simp: unat_gt_0)
  show ?thesis
    using PopulateLoop_invariant [OF assms(2) nonzero assms(1), of 0 0 "[]"] pos
    by simp
qed

text \<open>
  Claim C9. For every non-empty, strictly increasing list of 1-based key-frame indices
  with last element n, \<^verbatim>\<open>AtomSDTP::PopulateFromKeyFrameIndices\<close> returns and leaves
  exactly n frame-description bytes, of which the 0-based byte i is 0x20 if i+1 is in
  the list and 0x18 otherwise. The instance at the list [1, 13, 25] evaluates the
  function: 25 bytes, 0x20 at positions 0, 12 and 24, 0x18 elsewhere.
\<close>

theorem C9_sdtp_from_key_frames:
  assumes "indices \<noteq> []" and "sorted_wrt (<) indices" and "0 < hd indices"
    and "data a = FullAtom v f (AtomSDTP old)"
  shows "\<exists>a'. PopulateFromKeyFrameIndices indices a = Some a'
           \<and> length (frame_description_of a') = unat (last indices)
           \<and> (\<forall>i < unat (last indices).
                 frame_description_of a' ! i =
                   (if word_of_nat (i + 1) \<in> set indices then 0x20 else 0x18))"
proof -
  let ?fd = "map (\<lambda>j. if word_of_nat (Suc j) \<in> set indices
                       then kIFrameDescription else kPFrameDescription)
                 [0 ..< unat (last indices)]"
  let ?a' = "UpdateSize (set_data (FullAtom v f (AtomSDTP ?fd)) a)"
  have run: "PopulateFromKeyFrameIndices indices a = Some ?a'"
    using assms(1,4) PopulateLoop_result [OF assms(1-3)]
    by (simp add: PopulateFromKeyFrameIndices_def)
  have fd: "frame_description_of ?a' = ?fd"
    by (simp add: frame_description_of_def)
  have len: "length ?fd = unat (last indices)" by simp
  have nth: "\<forall>i < unat (last indices).
               ?fd ! i = (if word_of_nat (i + 1) \<in> set indices then 0x20 else 0x18)"
    by (simp add: kIFrameDescription_def kPFrameDescription_def del: of_nat_Suc)
  show ?thesis using run fd len nth by (metis (no_types, lifting))
qed

lemma sdtp_1_13_25:
  "PopulateLoop [1, 13, 25] 25 0 0 [] =
     Some [32, 24, 24, 24, 24, 24, 24, 24, 24, 24, 24, 24,
           32, 24, 24, 24, 24, 24, 24, 24, 24, 24, 24, 24, 32]"
  by code_simp

theorem C9_witness:
  "[1, 13, 25 :: u32] \<noteq> [] \<and> sorted_wrt (<) [1, 13, 25 :: u32] \<and> 0 < hd [1, 13, 25 :: u32]
   \<and> (\<exists>a'. PopulateFromKeyFrameIndices [1, 13, 25] new_AtomSDTP = Some a'
         \<and> length (frame_description_of a') = 25
         \<and> frame_description_of a' =
             [0x20, 0x18, 0x18, 0x18, 0x18, 0x18, 0x18, 0x18, 0x18, 0x18, 0x18, 0x18,
              0x20, 0x18, 0x18, 0x18, 0x18, 0x18, 0x18, 0x18, 0x18, 0x18, 0x18, 0x18, 0x20])"
  using C9_sdtp_from_key_frames [of "[1, 13, 25]" new_AtomSDTP 0 0 "[]"] sdtp_1_13_25
  by (simp add: new_AtomSDTP_def PopulateFromKeyFrameIndices_def frame_description_of_def)

definition example_parent :: atom where
  "example_parent =
     Atom ''moov'' 8 8 [Atom ''free'' 8 0 [] False (AtomDefault None)] False (Container AtomMOOV)"

definition example_child :: atom where
  "example_child = Atom ''trak'' 8 0 [] False (Container AtomTRAK)"

text \<open>
  Claim C10. \<^verbatim>\<open>AddChildAt\<close> with an index outside [0, NumChildren()] and
  \<^verbatim>\<open>DeleteChild\<close> with an index outside [0, NumChildren()) leave the atom as it was:
  children, data_size, header_size and every other member. The new child is dropped,
  DeleteChild returns nullptr (\<open>None\<close>), and neither result carries a status.
\<close>

theorem C10_child_index_out_of_range:
  assumes "index < 0 \<or> index > NumChildren a" and "i < 0 \<or> i \<ge> NumChildren a"
  shows "AddChildAt child index a = a \<and> DeleteChild i a = (None, a)"
  using assms by (auto simp: AddChildAt_def DeleteChild_def Let_def)

theorem C10_witness:
  "((2 :: int) < 0 \<or> 2 > NumChildren example_parent)
   \<and> ((- 1 :: int) < 0 \<or> - 1 \<ge> NumChildren example_parent)
   \<and> AddChildAt example_child 2 example_parent = example_parent
   \<and> DeleteChild (- 1) example_parent = (None, example_parent)"
  using C10_child_index_out_of_range [of 2 example_parent "- 1" example_child]
  by (simp add: NumChildren_def example_parent_def)

section \<open>Payload codecs of the atom classes\<close>

text \<open>
  \<^verbatim>\<open>FullAtom::VersionAndFlags\<close> and \<^verbatim>\<open>FullAtom::ReadVersionAndFlags\<close> (full_atom.h): one
  byte of version, three bytes of flags.
\<close>

definition VersionAndFlags :: "u8 \<Rightarrow> u32 \<Rightarrow> string" where
  "VersionAndFlags v f = PutUInt8 v @ PutUInt24 f"

definition ReadVersionAndFlags :: "string \<Rightarrow> nat \<Rightarrow> FormatErrorCode + ((u8 \<times> u32) \<times> nat)" where
  "ReadVersionAndFlags s p =
     (case ReadUInt8 s p of Inl e \<Rightarrow> Inl e
      | Inr (v, p1) \<Rightarrow>
          (case ReadUInt24 s p1 of Inl e \<Rightarrow> Inl e
           | Inr (f, p2) \<Rightarrow> Inr ((v, f), p2)))"

text \<open>A counted loop of reads that stops at the first error.\<close>

primrec read_list ::
  "(string \<Rightarrow> nat \<Rightarrow> FormatErrorCode + ('a \<times> nat)) \<Rightarrow> nat \<Rightarrow> string \<Rightarrow> nat
     \<Rightarrow> FormatErrorCode + ('a list \<times> nat)" where
  "read_list rd 0 s p = Inr ([], p)"
| "read_list rd (Suc n) s p =
     (case rd s p of Inl e \<Rightarrow> Inl e
      | Inr (x, p1) \<Rightarrow>
          (case read_list rd n s p1 of Inl e \<Rightarrow> Inl e
           | Inr (xs, p2) \<Rightarrow> Inr (x # xs, p2)))"

subsection \<open>AtomSTCO (atom_stco.cc)\<close>

text \<open>
  \<^verbatim>\<open>moov_size_delta_\<close> and \<^verbatim>\<open>max_chunk_offset_\<close> are int64_t: they are kept as the 64 bits
  they are, added with wrap-around (where the source would overflow a signed integer it
  has no defined behaviour; the model wraps) and compared as signed numbers
  (\<open><s\<close>) with UINT32_MAX. A chunk offset is uint64_t; adding the delta to it is an
  unsigned addition, and \<^verbatim>\<open>PutUInt32\<close> takes the low 32 bits of the sum.
\<close>

definition ReviewAtomType :: "atom \<Rightarrow> atom" where
  "ReviewAtomType a =
     (case data a of
        FullAtom v f (AtomSTCO offs delta mx) \<Rightarrow>
          (if (0xFFFFFFFF :: u64) <s mx + delta then UpdateSize (set_atom_type kType64 a) else a)
      | _ \<Rightarrow> a)"

definition AdjustChunkOffsets :: "u64 \<Rightarrow> atom \<Rightarrow> atom" where
  "AdjustChunkOffsets adjustment a =
     (case data a of
        FullAtom v f (AtomSTCO offs delta mx) \<Rightarrow>
          UpdateSize (ReviewAtomType (set_data (FullAtom v f (AtomSTCO offs (delta + adjustment) mx)) a))
      | _ \<Rightarrow> a)"

definition WriteSTCO :: "string \<Rightarrow> u8 \<Rightarrow> u32 \<Rightarrow> u64 list \<Rightarrow> u64 \<Rightarrow> string" where
  "WriteSTCO t v f offs delta =
     VersionAndFlags v f @ PutUInt32 (word_of_nat (length offs))
     @ (if t = kType32 then concat (map (\<lambda>off. PutUInt32 (ucast (off + delta))) offs)
        else concat (map (\<lambda>off. PutUInt64 (off + delta)) offs))"

definition CheckNumberOfChunks :: "string \<Rightarrow> u64 \<Rightarrow> u32 \<Rightarrow> bool" where
  "CheckNumberOfChunks t ds num =
     (let chunk_offset_size = (if t = kType32 then 4 else 8) :: u64;
          sum_chunk_offset_size = ucast num * chunk_offset_size
      in ds \<ge> 8 + sum_chunk_offset_size)"

definition read_chunk_offset :: "string \<Rightarrow> string \<Rightarrow> nat \<Rightarrow> FormatErrorCode + (u64 \<times> nat)" where
  "read_chunk_offset t s p =
     (if t = kType32 then
        (case ReadUInt32 s p of Inl e \<Rightarrow> Inl e | Inr (o32, p1) \<Rightarrow> Inr (ucast o32, p1))
      else ReadUInt64 s p)"

definition max_element :: "u64 list \<Rightarrow> u64" where
  "max_element xs = foldl max (hd xs) (tl xs)"

definition ReadSTCO ::
  "string \<Rightarrow> u64 \<Rightarrow> u64 \<Rightarrow> u64 \<Rightarrow> string \<Rightarrow> nat
     \<Rightarrow> FormatErrorCode + (atom_data \<times> nat)" where
  "ReadSTCO t ds delta0 mx0 s p =
     (case ReadVersionAndFlags s p of Inl e \<Rightarrow> Inl e
      | Inr ((v, f), p1) \<Rightarrow>
          (case ReadUInt32 s p1 of Inl e \<Rightarrow> Inl e
           | Inr (num_chunks, p2) \<Rightarrow>
               (if \<not> CheckNumberOfChunks t ds num_chunks then Inl FILE_FORMAT_ERROR
                else (case read_list (read_chunk_offset t) (unat num_chunks) s p2 of
                        Inl e \<Rightarrow> Inl e
                      | Inr (offs, p3) \<Rightarrow>
                          Inr (FullAtom v f (AtomSTCO offs delta0
                                 (if offs \<noteq> [] then max_element offs else mx0)), p3)))))"

subsection \<open>AtomELST (atom_elst.cc)\<close>

text \<open>
  \<^verbatim>\<open>media_time\<close> is int64_t and the two rates int16_t; the casts to and from the unsigned
  types keep the bits, so the members are kept as bits and compared as signed numbers
  where the source does. \<^verbatim>\<open>set_version\<close> (full_atom.h) stores the version and calls
  Update.
\<close>

definition set_version :: "u8 \<Rightarrow> atom \<Rightarrow> atom" where
  "set_version v a =
     (case data a of
        FullAtom v0 f m \<Rightarrow> UpdateSize (set_data (FullAtom v f m) a)
      | _ \<Rightarrow> a)"

definition AddEntry :: "Entry \<Rightarrow> atom \<Rightarrow> atom" where
  "AddEntry entry a =
     (let a1 = (if segment_duration entry > 0xFFFFFFFF
                   \<or> (0x7FFFFFFF :: u64) <s media_time entry
                   \<or> media_time entry <s (- 0x80000000 :: u64)
                then set_version 1 a else a)
      in (case data a1 of
            FullAtom v f (AtomELST es) \<Rightarrow>
              UpdateSize (set_data (FullAtom v f (AtomELST (es @ [entry]))) a1)
          | _ \<Rightarrow> a1))"

definition WriteEntry :: "u8 \<Rightarrow> Entry \<Rightarrow> string" where
  "WriteEntry v entry =
     (if v = 1 then PutUInt64 (segment_duration entry) @ PutUInt64 (media_time entry)
      else PutUInt32 (ucast (segment_duration entry AND 0xFFFFFFFF))
           @ PutUInt32 (ucast (media_time entry AND 0xFFFFFFFF)))
     @ PutUInt16 (media_rate_integer entry) @ PutUInt16 (media_rate_fraction entry)"

text \<open>
  The write loop runs \<open>i\<close> from 0 to the 32-bit \<^verbatim>\<open>NumEntries()\<close>: it writes the first
  \<open>unat (NumEntries es)\<close> entries.
\<close>

definition WriteELST :: "u8 \<Rightarrow> u32 \<Rightarrow> Entry list \<Rightarrow> string" where
  "WriteELST v f es =
     VersionAndFlags v f @ PutUInt32 (NumEntries es)
     @ concat (map (WriteEntry v) (take (unat (NumEntries es)) es))"

definition CheckNumEntries :: "u8 \<Rightarrow> u64 \<Rightarrow> u32 \<Rightarrow> bool" where
  "CheckNumEntries v ds num = (\<not> ds < 8 + ucast num * EntrySize v)"

definition ReadEntry :: "u8 \<Rightarrow> string \<Rightarrow> nat \<Rightarrow> FormatErrorCode + (Entry \<times> nat)" where
  "ReadEntry v s p =
     (case (if v = 1 then
              (case ReadUInt64 s p of Inl e \<Rightarrow> Inl e
               | Inr (d, p1) \<Rightarrow>
                   (case ReadUInt64 s p1 of Inl e \<Rightarrow> Inl e
                    | Inr (t, p2) \<Rightarrow> Inr ((d, t), p2)))
            else
              (case ReadUInt32 s p of Inl e \<Rightarrow> Inl e
               | Inr (d, p1) \<Rightarrow>
                   (case ReadUInt32 s p1 of Inl e \<Rightarrow> Inl e
                    | Inr (t, p2) \<Rightarrow> Inr ((ucast d, ucast t), p2)))) of
        Inl e \<Rightarrow> Inl e
      | Inr ((d, t), p2) \<Rightarrow>
          (case ReadUInt16 s p2 of Inl e \<Rightarrow> Inl e
           | Inr (ri, p3) \<Rightarrow>
               (case ReadUInt16 s p3 of Inl e \<Rightarrow> Inl e
                | Inr (rf, p4) \<Rightarrow>
                    Inr (\<lparr>segment_duration = d, media_time = t,
                          media_rate_integer = ri, media_rate_fraction = rf\<rparr>, p4))))"

definition ReadELST ::
  "u64 \<Rightarrow> Entry list \<Rightarrow> string \<Rightarrow> nat \<Rightarrow> FormatErrorCode + (atom_data \<times> nat)" where
  "ReadELST ds es0 s p =
     (case ReadVersionAndFlags s p of Inl e \<Rightarrow> Inl e
      | Inr ((v, f), p1) \<Rightarrow>
          (case ReadUInt32 s p1 of Inl e \<Rightarrow> Inl e
           | Inr (count, p2) \<Rightarrow>
               (if \<not> CheckNumEntries v ds count then Inl FILE_FORMAT_ERROR
                else (case read_list (ReadEntry v) (unat count) s p2 of
                        Inl e \<Rightarrow> Inl e
                      | Inr (es, p3) \<Rightarrow> Inr (FullAtom v f (AtomELST (es0 @ es)), p3)))))"

text \<open>The default constructors \<^verbatim>\<open>AtomELST()\<close> and \<^verbatim>\<open>AtomSTCO()\<close>: (0, 0, type), then Update.\<close>

definition new_AtomELST :: atom where
  "new_AtomELST = UpdateSize (Atom ''elst'' 0 0 [] False (FullAtom 0 0 (AtomELST [])))"

definition new_AtomSTCO :: atom where
  "new_AtomSTCO = UpdateSize (Atom kType32 0 0 [] False (FullAtom 0 0 (AtomSTCO [] 0 0)))"


subsection \<open>The other classes\<close>

text \<open>
  \<^verbatim>\<open>BinaryWriterImpl::PutData\<close> reads \<open>size\<close> bytes through the reader, in pieces of one
  megabyte, and fails when a read fails; nothing is read for size 0. A reader whose
  stream has failed before (\<open>failed\<close> holds the ids of such streams: the failure state of
  a C++ stream is sticky and shared by the clones) fails at once. Reading moves the
  reader, which the atom owns: the model gives the bytes of the first write of an atom.
\<close>

definition PutData :: "nat set \<Rightarrow> BinaryReader \<Rightarrow> u64 \<Rightarrow> FormatErrorCode + string" where
  "PutData failed r n =
     (if n = 0 then Inr []
      else if reader_stream_id r \<in> failed then Inl FILE_UNEXPECTED_EOF
      else (case ReadString (reader_stream r) (reader_pos r) (unat n) of
              Inl e \<Rightarrow> Inl e | Inr (cs, p) \<Rightarrow> Inr cs))"

text \<open>
  atom_hdlr.cc, \<^verbatim>\<open>CapSize(value, int max_size)\<close>: the int is converted to size_t for the
  comparison and for \<^verbatim>\<open>substr\<close>, so a negative bound is a huge one.
\<close>

definition CapSize :: "string \<Rightarrow> u32 \<Rightarrow> string" where
  "CapSize val max_size = take (unat (scast max_size :: u64)) val"

definition WriteHDLR :: "u64 \<Rightarrow> u8 \<Rightarrow> u32 \<Rightarrow> HDLR_members \<Rightarrow> string" where
  "WriteHDLR ds v f h =
     (let head = VersionAndFlags v f @ CapSize (component_type h) 4
                 @ CapSize (component_subtype h) 4 @ CapSize (component_manufacturer h) 4
                 @ PutUInt32 (component_flags h) @ PutUInt32 (component_flags_mask h);
          max_size = ds - word_of_nat (length head)
      in head @ CapSize (component_name h) (ucast max_size))"

definition ReadHDLR :: "u64 \<Rightarrow> string \<Rightarrow> nat \<Rightarrow> FormatErrorCode + (atom_data \<times> nat)" where
  "ReadHDLR ds s p =
     (case ReadVersionAndFlags s p of Inl e \<Rightarrow> Inl e
      | Inr ((v, f), p1) \<Rightarrow>
     (case ReadString s p1 4 of Inl e \<Rightarrow> Inl e
      | Inr (ct, p2) \<Rightarrow>
     (case ReadString s p2 4 of Inl e \<Rightarrow> Inl e
      | Inr (cst, p3) \<Rightarrow>
     (case ReadString s p3 4 of Inl e \<Rightarrow> Inl e
      | Inr (cm, p4) \<Rightarrow>
     (case ReadUInt32 s p4 of Inl e \<Rightarrow> Inl e
      | Inr (cf, p5) \<Rightarrow>
     (case ReadUInt32 s p5 of Inl e \<Rightarrow> Inl e
      | Inr (cfm, p6) \<Rightarrow>
     (if ds < word_of_nat (p6 - p) then Inl UNDEFINED_BEHAVIOR
      else (case ReadString s p6 (unat (ds - word_of_nat (p6 - p))) of Inl e \<Rightarrow> Inl e
            | Inr (cn, p7) \<Rightarrow>
                Inr (FullAtom v f (AtomHDLR
                       \<lparr>component_type = ct, component_subtype = cst,
                        component_manufacturer = cm, component_flags = cf,
                        component_flags_mask = cfm, component_name = cn\<rparr>), p7)))))))))"

definition WriteTKHD :: "u8 \<Rightarrow> u32 \<Rightarrow> TKHD_members \<Rightarrow> string" where
  "WriteTKHD v f k =
     VersionAndFlags v f
     @ (if v = 1 then
          PutUInt64 (created_date k) @ PutUInt64 (modified_date k) @ PutUInt32 (track_id k)
          @ PutUInt32 (reserved32_1 k) @ PutUInt64 (duration k)
        else
          PutUInt32 (ucast (created_date k AND 0xFFFFFFFF))
          @ PutUInt32 (ucast (modified_date k AND 0xFFFFFFFF)) @ PutUInt32 (track_id k)
          @ PutUInt32 (reserved32_1 k) @ PutUInt32 (ucast (duration k AND 0xFFFFFFFF)))
     @ PutUInt32 (reserved32_2 k) @ PutUInt32 (reserved32_3 k)
     @ PutUInt16 (layer k) @ PutUInt16 (group k) @ PutUInt16 (volume k)
     @ PutUInt16 (reserved16 k)
     @ concat (map PutUInt32 (take 9 (matrix k)))
     @ PutUInt32 (push_bit 16 (tkhd_width k)) @ PutUInt32 (push_bit 16 (tkhd_height k))"

definition ReadTKHD :: "string \<Rightarrow> nat \<Rightarrow> FormatErrorCode + (atom_data \<times> nat)" where
  "ReadTKHD s p =
     (case ReadVersionAndFlags s p of Inl e \<Rightarrow> Inl e
      | Inr ((v, f), p1) \<Rightarrow>
     (case (if v = 1 then
              (case ReadUInt64 s p1 of Inl e \<Rightarrow> Inl e
               | Inr (cd, q1) \<Rightarrow>
              (case ReadUInt64 s q1 of Inl e \<Rightarrow> Inl e
               | Inr (md, q2) \<Rightarrow>
              (case ReadUInt32 s q2 of Inl e \<Rightarrow> Inl e
               | Inr (ti, q3) \<Rightarrow>
              (case ReadUInt32 s q3 of Inl e \<Rightarrow> Inl e
               | Inr (r1, q4) \<Rightarrow>
              (case ReadUInt64 s q4 of Inl e \<Rightarrow> Inl e
               | Inr (du, q5) \<Rightarrow> Inr ((cd, md, ti, r1, du), q5))))))
            else
              (case ReadUInt32 s p1 of Inl e \<Rightarrow> Inl e
               | Inr (cd, q1) \<Rightarrow>
              (case ReadUInt32 s q1 of Inl e \<Rightarrow> Inl e
               | Inr (md, q2) \<Rightarrow>
              (case ReadUInt32 s q2 of Inl e \<Rightarrow> Inl e
               | Inr (ti, q3) \<Rightarrow>
              (case ReadUInt32 s q3 of Inl e \<Rightarrow> Inl e
               | Inr (r1, q4) \<Rightarrow>
              (case ReadUInt32 s q4 of Inl e \<Rightarrow> Inl e
               | Inr (du, q5) \<Rightarrow> Inr ((ucast cd, ucast md, ti, r1, ucast du), q5))))))) of
        Inl e \<Rightarrow> Inl e
      | Inr ((cd, md, ti, r1, du), p2) \<Rightarrow>
     (case ReadUInt32 s p2 of Inl e \<Rightarrow> Inl e
      | Inr (r2, p3) \<Rightarrow>
     (case ReadUInt32 s p3 of Inl e \<Rightarrow> Inl e
      | Inr (r3, p4) \<Rightarrow>
     (case ReadUInt16 s p4 of Inl e \<Rightarrow> Inl e
      | Inr (la, p5) \<Rightarrow>
     (case ReadUInt16 s p5 of Inl e \<Rightarrow> Inl e
      | Inr (gr, p6) \<Rightarrow>
     (case ReadUInt16 s p6 of Inl e \<Rightarrow> Inl e
      | Inr (vo, p7) \<Rightarrow>
     (case ReadUInt16 s p7 of Inl e \<Rightarrow> Inl e
      | Inr (r16, p8) \<Rightarrow>
     (case read_list ReadUInt32 9 s p8 of Inl e \<Rightarrow> Inl e
      | Inr (mat, p9) \<Rightarrow>
     (case ReadUInt32 s p9 of Inl e \<Rightarrow> Inl e
      | Inr (w, p10) \<Rightarrow>
     (case ReadUInt32 s p10 of Inl e \<Rightarrow> Inl e
      | Inr (h, p11) \<Rightarrow>
          Inr (FullAtom v f (AtomTKHD
                 \<lparr>created_date = cd, modified_date = md, track_id = ti, reserved32_1 = r1,
                  duration = du, reserved32_2 = r2, reserved32_3 = r3, layer = la,
                  group = gr, volume = vo, reserved16 = r16, matrix = mat,
                  tkhd_width = drop_bit 16 w, tkhd_height = drop_bit 16 h\<rparr>), p11))))))))))))"

definition WriteVisualSampleEntry :: "VisualSampleEntry_members \<Rightarrow> string" where
  "WriteVisualSampleEntry e =
     PutUInt32 (reserved_32 e) @ PutUInt16 (reserved_16 e) @ PutUInt16 (data_reference_index e)
     @ PutUInt16 (visual_version e) @ PutUInt16 (revision e) @ vendor e
     @ PutUInt32 (temporal_quality e) @ PutUInt32 (spatial_quality e)
     @ PutUInt16 (vse_width e) @ PutUInt16 (vse_height e)
     @ PutUInt32 (push_bit 16 (horizontal_res e)) @ PutUInt32 (push_bit 16 (vertical_res e))
     @ PutUInt32 (entry_data_size e) @ PutUInt16 (frames_per_sample e)
     @ PutUInt8 (encoder_name_size e) @ encoder_name e
     @ PutUInt16 (bit_depth e) @ PutUInt16 (color_table_id e)"

definition ReadVisualSampleEntry :: "string \<Rightarrow> nat \<Rightarrow> FormatErrorCode + (atom_data \<times> nat)" where
  "ReadVisualSampleEntry s p =
     (case ReadUInt32 s p of Inl e \<Rightarrow> Inl e
      | Inr (r32, p1) \<Rightarrow>
     (case ReadUInt16 s p1 of Inl e \<Rightarrow> Inl e
      | Inr (r16, p2) \<Rightarrow>
     (case ReadUInt16 s p2 of Inl e \<Rightarrow> Inl e
      | Inr (dri, p3) \<Rightarrow>
     (case ReadUInt16 s p3 of Inl e \<Rightarrow> Inl e
      | Inr (vv, p4) \<Rightarrow>
     (case ReadUInt16 s p4 of Inl e \<Rightarrow> Inl e
      | Inr (rvn, p5) \<Rightarrow>
     (case ReadString s p5 4 of Inl e \<Rightarrow> Inl e
      | Inr (ven, p6) \<Rightarrow>
     (case ReadUInt32 s p6 of Inl e \<Rightarrow> Inl e
      | Inr (tq, p7) \<Rightarrow>
     (case ReadUInt32 s p7 of Inl e \<Rightarrow> Inl e
      | Inr (sq, p8) \<Rightarrow>
     (case ReadUInt16 s p8 of Inl e \<Rightarrow> Inl e
      | Inr (w, p9) \<Rightarrow>
     (case ReadUInt16 s p9 of Inl e \<Rightarrow> Inl e
      | Inr (h, p10) \<Rightarrow>
     (case ReadUInt32 s p10 of Inl e \<Rightarrow> Inl e
      | Inr (hr, p11) \<Rightarrow>
     (case ReadUInt32 s p11 of Inl e \<Rightarrow> Inl e
      | Inr (vr, p12) \<Rightarrow>
     (case ReadUInt32 s p12 of Inl e \<Rightarrow> Inl e
      | Inr (eds, p13) \<Rightarrow>
     (case ReadUInt16 s p13 of Inl e \<Rightarrow> Inl e
      | Inr (fps, p14) \<Rightarrow>
     (case ReadUInt8 s p14 of Inl e \<Rightarrow> Inl e
      | Inr (ens, p15) \<Rightarrow>
     (case ReadString s p15 31 of Inl e \<Rightarrow> Inl e
      | Inr (en, p16) \<Rightarrow>
     (case ReadUInt16 s p16 of Inl e \<Rightarrow> Inl e
      | Inr (bd, p17) \<Rightarrow>
     (case ReadUInt16 s p17 of Inl e \<Rightarrow> Inl e
      | Inr (cti, p18) \<Rightarrow>
          Inr (VisualSampleEntry
                 \<lparr>reserved_32 = r32, reserved_16 = r16, data_reference_index = dri,
                  visual_version = vv, revision = rvn, vendor = ven, temporal_quality = tq,
                  spatial_quality = sq, vse_width = w, vse_height = h,
                  horizontal_res = drop_bit 16 hr, vertical_res = drop_bit 16 vr,
                  entry_data_size = eds, frames_per_sample = fps, encoder_name_size = ens,
                  encoder_name = en, bit_depth = bd, color_table_id = cti\<rparr>,
               p18)))))))))))))))))))"

text \<open>
  The virtual \<^verbatim>\<open>WriteDataWithoutChildren\<close>. The write loops of AtomSTCO, AtomSDTP and
  AtomSTSS count in 32 bits, the ones that put the entry count put its low 32 bits;
  the model writes every element, as the source does for vectors of fewer than \<open>2^32\<close>
  elements. Failures of the output stream are not modelled.
\<close>

definition WriteDataWithoutChildren :: "nat set \<Rightarrow> atom \<Rightarrow> FormatErrorCode + string" where
  "WriteDataWithoutChildren failed a =
     (case data a of
        AtomDefault r \<Rightarrow>
          (case r of None \<Rightarrow> Inr [] | Some rd \<Rightarrow> PutData failed rd (data_size a))
      | Container c \<Rightarrow> Inr []
      | FullAtom v f m \<Rightarrow>
          (case m of
             AtomSTCO offs delta mx \<Rightarrow> Inr (WriteSTCO (atom_type a) v f offs delta)
           | AtomELST es \<Rightarrow> Inr (WriteELST v f es)
           | AtomSDTP fd \<Rightarrow> Inr (VersionAndFlags v f @ concat (map PutUInt8 fd))
           | AtomSTSD \<Rightarrow> Inr (VersionAndFlags v f @ PutUInt32 (word_of_int (NumChildren a)))
           | AtomSTSS ks \<Rightarrow>
               Inr (VersionAndFlags v f @ PutUInt32 (word_of_nat (length ks))
                    @ concat (map PutUInt32 ks))
           | AtomST3D sm \<Rightarrow> Inr (VersionAndFlags v f @ PutUInt8 sm)
           | AtomHDLR h \<Rightarrow> Inr (WriteHDLR (data_size a) v f h)
           | AtomTKHD k \<Rightarrow> Inr (WriteTKHD v f k))
      | AtomUUID u val \<Rightarrow>
          (if length u \<noteq> 16 then Inl FILE_FORMAT_ERROR else Inr (u @ val))
      | AtomCAMM r i \<Rightarrow> Inr (r @ PutUInt16 i)
      | VisualSampleEntry e \<Rightarrow> Inr (WriteVisualSampleEntry e))"

text \<open>
  The virtual \<^verbatim>\<open>ReadDataWithoutChildren\<close>, on the atom the registry has constructed: the
  stream (its id and contents) and the position, to the atom with its members read and
  the new position. \<^verbatim>\<open>AtomDefault\<close> clones the reader and seeks over the payload;
  \<^verbatim>\<open>Tell() + data_size()\<close> is a uint64_t sum. Where the source asks for a string or a
  vector of \<open>data_size() - k\<close> elements with \<open>data_size() < k\<close>, the unsigned difference
  is beyond \<^verbatim>\<open>max_size()\<close> and the allocation throws: \<open>UNDEFINED_BEHAVIOR\<close>.
  \<open>Seek\<close> is that of a memory stream, which fails beyond the end of its contents; a file
  stream accepts such a position, so the model is that of a file only on the runs where
  no seek fails.
\<close>

definition Seek :: "string \<Rightarrow> nat \<Rightarrow> FormatErrorCode + nat" where
  "Seek s p = (if p \<le> length s then Inr p else Inl FILE_UNEXPECTED_EOF)"

definition with_data :: "atom \<Rightarrow> FormatErrorCode + (atom_data \<times> nat) \<Rightarrow> FormatErrorCode + (atom \<times> nat)" where
  "with_data a r = (case r of Inl e \<Rightarrow> Inl e | Inr (d, p) \<Rightarrow> Inr (set_data d a, p))"

definition ReadDataWithoutChildren ::
  "nat \<Rightarrow> string \<Rightarrow> nat \<Rightarrow> atom \<Rightarrow> FormatErrorCode + (atom \<times> nat)" where
  "ReadDataWithoutChildren sid s p a =
     (case data a of
        AtomDefault r \<Rightarrow>
          (case Seek s (unat (word_of_nat p + data_size a :: u64)) of Inl e \<Rightarrow> Inl e
           | Inr p1 \<Rightarrow> Inr (set_data (AtomDefault (Some (BinaryReader sid s p))) a, p1))
      | Container c \<Rightarrow> Inr (a, p)
      | FullAtom v0 f0 m \<Rightarrow>
          (case m of
             AtomSTCO offs delta mx \<Rightarrow> with_data a (ReadSTCO (atom_type a) (data_size a) delta mx s p)
           | AtomELST es \<Rightarrow> with_data a (ReadELST (data_size a) es s p)
           | AtomSDTP fd \<Rightarrow>
               (case ReadVersionAndFlags s p of Inl e \<Rightarrow> Inl e
                | Inr ((v, f), p1) \<Rightarrow>
                    (if data_size a < 4 then Inl UNDEFINED_BEHAVIOR
                     else (case read_list ReadUInt8 (unat (data_size a - 4)) s p1 of
                             Inl e \<Rightarrow> Inl e
                           | Inr (fd', p2) \<Rightarrow>
                               Inr (set_data (FullAtom v f (AtomSDTP fd')) a, p2))))
           | AtomSTSD \<Rightarrow>
               (case ReadVersionAndFlags s p of Inl e \<Rightarrow> Inl e
                | Inr ((v, f), p1) \<Rightarrow>
                    (case ReadUInt32 s p1 of Inl e \<Rightarrow> Inl e
                     | Inr (descriptor_count, p2) \<Rightarrow>
                         Inr (set_data (FullAtom v f AtomSTSD) a, p2)))
           | AtomSTSS ks \<Rightarrow>
               (case ReadVersionAndFlags s p of Inl e \<Rightarrow> Inl e
                | Inr ((v, f), p1) \<Rightarrow>
                    (case ReadUInt32 s p1 of Inl e \<Rightarrow> Inl e
                     | Inr (num_key_frames, p2) \<Rightarrow>
                         (case read_list ReadUInt32 (unat num_key_frames) s p2 of
                            Inl e \<Rightarrow> Inl e
                          | Inr (ks', p3) \<Rightarrow>
                              Inr (set_data (FullAtom v f (AtomSTSS (ks @ ks'))) a, p3))))
           | AtomST3D sm \<Rightarrow>
               (case ReadVersionAndFlags s p of Inl e \<Rightarrow> Inl e
                | Inr ((v, f), p1) \<Rightarrow>
                    (case ReadUInt8 s p1 of Inl e \<Rightarrow> Inl e
                     | Inr (mode, p2) \<Rightarrow>
                         Inr (set_data (FullAtom v f (AtomST3D mode)) a, p2)))
           | AtomHDLR h \<Rightarrow> with_data a (ReadHDLR (data_size a) s p)
           | AtomTKHD k \<Rightarrow> with_data a (ReadTKHD s p))
      | AtomUUID u val \<Rightarrow>
          (case ReadString s p 16 of Inl e \<Rightarrow> Inl e
           | Inr (u', p1) \<Rightarrow>
               (if data_size a < 16 then Inl UNDEFINED_BEHAVIOR
                else (case ReadString s p1 (unat (data_size a - 16)) of Inl e \<Rightarrow> Inl e
                      | Inr (val', p2) \<Rightarrow> Inr (set_data (AtomUUID u' val') a, p2))))
      | AtomCAMM r i \<Rightarrow>
          (case ReadString s p 6 of Inl e \<Rightarrow> Inl e
           | Inr (r', p1) \<Rightarrow>
               (case ReadUInt16 s p1 of Inl e \<Rightarrow> Inl e
                | Inr (i', p2) \<Rightarrow> Inr (set_data (AtomCAMM r' i') a, p2)))
      | VisualSampleEntry e \<Rightarrow> with_data a (ReadVisualSampleEntry s p))"

section \<open>Evaluating the byte codecs\<close>

lemma char_of_eq_iff_mod: "(char_of (n :: nat) = c) = (n mod 256 = of_char c)"
  by (metis of_char_of char_of_char)

lemma be_chars_1: "be_chars 1 n = [char_of n]"
  by simp

lemma be_chars_2: "be_chars 2 n = [char_of (n div 256), char_of n]"
proof -
  have "be_chars (Suc (Suc 0)) n = [char_of (n div 256), char_of n]" by simp
  moreover have "(2 :: nat) = Suc (Suc 0)" by simp
  ultimately show ?thesis by metis
qed

lemma be_chars_3:
  "be_chars 3 n = [char_of (n div 256 div 256), char_of (n div 256), char_of n]"
proof -
  have "be_chars (Suc (Suc (Suc 0))) n =
          [char_of (n div 256 div 256), char_of (n div 256), char_of n]" by simp
  moreover have "(3 :: nat) = Suc (Suc (Suc 0))" by simp
  ultimately show ?thesis by metis
qed

lemma be_chars_4:
  "be_chars 4 n = [char_of (n div 256 div 256 div 256), char_of (n div 256 div 256),
                   char_of (n div 256), char_of n]"
proof -
  have "be_chars (Suc (Suc (Suc (Suc 0)))) n =
          [char_of (n div 256 div 256 div 256), char_of (n div 256 div 256),
           char_of (n div 256), char_of n]" by simp
  moreover have "(4 :: nat) = Suc (Suc (Suc (Suc 0)))" by simp
  ultimately show ?thesis by metis
qed

lemma be_chars_8:
  "be_chars 8 n =
     [char_of (n div 256 div 256 div 256 div 256 div 256 div 256 div 256),
      char_of (n div 256 div 256 div 256 div 256 div 256 div 256),
      char_of (n div 256 div 256 div 256 div 256 div 256),
      char_of (n div 256 div 256 div 256 div 256),
      char_of (n div 256 div 256 div 256), char_of (n div 256 div 256),
      char_of (n div 256), char_of n]"
proof -
  have "be_chars (Suc (Suc (Suc (Suc (Suc (Suc (Suc (Suc 0)))))))) n =
     [char_of (n div 256 div 256 div 256 div 256 div 256 div 256 div 256),
      char_of (n div 256 div 256 div 256 div 256 div 256 div 256),
      char_of (n div 256 div 256 div 256 div 256 div 256),
      char_of (n div 256 div 256 div 256 div 256),
      char_of (n div 256 div 256 div 256), char_of (n div 256 div 256),
      char_of (n div 256), char_of n]" by simp
  moreover have "(8 :: nat) = Suc (Suc (Suc (Suc (Suc (Suc (Suc (Suc 0)))))))" by simp
  ultimately show ?thesis by metis
qed

lemmas Put_simps =
  PutUInt8_def PutUInt16_def PutUInt24_def PutUInt32_def PutUInt64_def
  be_chars_1 be_chars_2 be_chars_3 be_chars_4 be_chars_8 char_of_eq_iff_mod
  VersionAndFlags_def

lemmas Read_simps =
  ReadVersionAndFlags_def ReadUInt8_def ReadUInt16_def ReadUInt24_def ReadUInt32_def
  ReadUInt64_def ReadString_def be_nat_def

section \<open>AtomSTCO: chunk offset adjustment\<close>

lemma set_atom_type_sel [simp]:
  "atom_type (set_atom_type t a) = t"
  "header_size (set_atom_type t a) = header_size a"
  "data_size (set_atom_type t a) = data_size a"
  "children (set_atom_type t a) = children a"
  "has_null_terminator (set_atom_type t a) = has_null_terminator a"
  "data (set_atom_type t a) = data a"
  by (simp_all add: set_atom_type_def)

lemma set_children_sel [simp]:
  "atom_type (set_children cs a) = atom_type a"
  "header_size (set_children cs a) = header_size a"
  "data_size (set_children cs a) = data_size a"
  "children (set_children cs a) = cs"
  "has_null_terminator (set_children cs a) = has_null_terminator a"
  "data (set_children cs a) = data a"
  by (simp_all add: set_children_def)

text \<open>A run of \<^verbatim>\<open>AdjustChunkOffsets\<close> calls, in the order of the list.\<close>

definition adjust_all :: "u64 list \<Rightarrow> atom \<Rightarrow> atom" where
  "adjust_all adjs a = foldl (\<lambda>b adj. AdjustChunkOffsets adj b) a adjs"

text \<open>
  \<open>crossed mx d adjs\<close>: starting from the delta \<open>d\<close>, after one of the calls the signed sum
  \<^verbatim>\<open>max_chunk_offset_ + moov_size_delta_\<close> was above UINT32_MAX.
\<close>

fun crossed :: "u64 \<Rightarrow> u64 \<Rightarrow> u64 list \<Rightarrow> bool" where
  "crossed mx d [] = False"
| "crossed mx d (adj # adjs) = ((0xFFFFFFFF :: u64) <s mx + (d + adj) \<or> crossed mx (d + adj) adjs)"

lemma AdjustChunkOffsets_STCO:
  assumes "data a = FullAtom v f (AtomSTCO offs d mx)"
  shows "data (AdjustChunkOffsets adj a) = FullAtom v f (AtomSTCO offs (d + adj) mx)"
    and "atom_type (AdjustChunkOffsets adj a) =
           (if (0xFFFFFFFF :: u64) <s mx + (d + adj) then kType64 else atom_type a)"
    and "children (AdjustChunkOffsets adj a) = children a"
    and "has_null_terminator (AdjustChunkOffsets adj a) = has_null_terminator a"
  using assms by (simp_all add: AdjustChunkOffsets_def ReviewAtomType_def)

lemma adjust_all_STCO:
  assumes "data a = FullAtom v f (AtomSTCO offs d mx)"
  shows "data (adjust_all adjs a) = FullAtom v f (AtomSTCO offs (d + sum_list adjs) mx)
       \<and> atom_type (adjust_all adjs a) = (if crossed mx d adjs then kType64 else atom_type a)"
  using assms
proof (induction adjs arbitrary: a d)
  case Nil
  then show ?case by (simp add: adjust_all_def)
next
  case (Cons adj adjs)
  let ?a1 = "AdjustChunkOffsets adj a"
  have step: "adjust_all (adj # adjs) a = adjust_all adjs ?a1"
    by (simp add: adjust_all_def)
  have d1: "data ?a1 = FullAtom v f (AtomSTCO offs (d + adj) mx)"
    by (rule AdjustChunkOffsets_STCO(1) [OF Cons.prems])
  have t1: "atom_type ?a1 = (if (0xFFFFFFFF :: u64) <s mx + (d + adj) then kType64 else atom_type a)"
    by (rule AdjustChunkOffsets_STCO(2) [OF Cons.prems])
  from Cons.IH [OF d1] t1 show ?case
    by (simp add: step add.assoc)
qed

lemma crossed_at_end:
  "adjs \<noteq> [] \<Longrightarrow> (0xFFFFFFFF :: u64) <s mx + (d + sum_list adjs) \<Longrightarrow> crossed mx d adjs"
proof (induction adjs arbitrary: d)
  case Nil
  then show ?case by simp
next
  case (Cons adj adjs)
  show ?case
  proof (cases "adjs = []")
    case True
    with Cons.prems show ?thesis by simp
  next
    case False
    from Cons.prems(2) have "(0xFFFFFFFF :: u64) <s mx + ((d + adj) + sum_list adjs)"
      by (simp add: add.assoc)
    with Cons.IH [OF False] show ?thesis by simp
  qed
qed

definition stco_example :: atom where
  "stco_example = Atom ''stco'' 8 12 [] False (FullAtom 0 0 (AtomSTCO [0xFFFFFFF0] 0 0xFFFFFFF0))"

definition co64_example :: atom where
  "co64_example = Atom ''co64'' 8 16 [] False (FullAtom 0 0 (AtomSTCO [16] 0 16))"

lemma co64_example_is_read:
  "ReadDataWithoutChildren 0
     (map char_of [0, 0, 0, 0, 0, 0, 0, 1, 0, 0, 0, 0, 0, 0, 0, 16 :: nat]) 0
     (Atom ''co64'' 8 16 [] False (FullAtom 0 0 (AtomSTCO [] 0 0))) = Inr (co64_example, 16)"
  by (simp add: ReadDataWithoutChildren_def ReadSTCO_def ReadVersionAndFlags_def ReadUInt8_def
      ReadUInt24_def ReadUInt32_def ReadUInt64_def ReadString_def be_nat_def with_data_def
      CheckNumberOfChunks_def read_chunk_offset_def kType32_def max_element_def
      co64_example_def set_data_def)

text \<open>
  Claim C5 says that the type of an AtomSTCO is "co64" exactly when
  max_chunk_offset + delta exceeds \<open>2^32 - 1\<close>. An atom read from a co64 box whose one
  offset is 16 (\<open>co64_example\<close>, the result of \<^verbatim>\<open>ReadDataWithoutChildren\<close> on such a box)
  keeps the type "co64" after \<^verbatim>\<open>AdjustChunkOffsets(8)\<close>, while max_chunk_offset + delta
  is 24: \<^verbatim>\<open>ReviewAtomType\<close> only ever sets the type to "co64".
\<close>

theorem C5_counterexample:
  "atom_type (adjust_all [8] co64_example) = ''co64''
   \<and> data (adjust_all [8] co64_example) = FullAtom 0 0 (AtomSTCO [16] 8 16)
   \<and> \<not> ((0xFFFFFFFF :: u64) <s 16 + 8)"
  by (simp add: adjust_all_def AdjustChunkOffsets_def ReviewAtomType_def co64_example_def
      word_sless_alt)

text \<open>
  Claim C5, amended. After any sequence of \<^verbatim>\<open>AdjustChunkOffsets\<close> calls on an AtomSTCO
  the accumulated delta is the 64-bit sum of the adjustments; the type is "co64" if and
  only if it was "co64" before or max_chunk_offset + delta was above \<open>2^32 - 1\<close> after one
  of the calls (in particular when it is above it after the last call), and otherwise
  the type is unchanged; \<^verbatim>\<open>WriteDataWithoutChildren\<close> emits version and flags, the number
  of entries, and for each stored chunk offset the sum of offset and delta: its low 32
  bits under type "stco", all 64 bits otherwise.
\<close>

theorem C5_adjusted_offsets:
  assumes "data a = FullAtom v f (AtomSTCO offs d mx)"
  shows "data (adjust_all adjs a) = FullAtom v f (AtomSTCO offs (d + sum_list adjs) mx)
       \<and> (atom_type (adjust_all adjs a) = kType64 \<longleftrightarrow> atom_type a = kType64 \<or> crossed mx d adjs)
       \<and> (\<not> crossed mx d adjs \<longrightarrow> atom_type (adjust_all adjs a) = atom_type a)
       \<and> (adjs \<noteq> [] \<and> (0xFFFFFFFF :: u64) <s mx + (d + sum_list adjs)
            \<longrightarrow> atom_type (adjust_all adjs a) = kType64)
       \<and> WriteDataWithoutChildren failed (adjust_all adjs a) =
           Inr (VersionAndFlags v f @ PutUInt32 (word_of_nat (length offs))
                @ concat (map (\<lambda>off. if atom_type (adjust_all adjs a) = kType32
                                      then PutUInt32 (ucast (off + (d + sum_list adjs)))
                                      else PutUInt64 (off + (d + sum_list adjs))) offs))"
proof -
  note r = adjust_all_STCO [OF assms, of adjs]
  have w: "WriteDataWithoutChildren failed (adjust_all adjs a) =
           Inr (VersionAndFlags v f @ PutUInt32 (word_of_nat (length offs))
                @ concat (map (\<lambda>off. if atom_type (adjust_all adjs a) = kType32
                                      then PutUInt32 (ucast (off + (d + sum_list adjs)))
                                      else PutUInt64 (off + (d + sum_list adjs))) offs))"
    using r by (simp add: WriteDataWithoutChildren_def WriteSTCO_def)
  have e: "adjs \<noteq> [] \<and> (0xFFFFFFFF :: u64) <s mx + (d + sum_list adjs)
            \<longrightarrow> atom_type (adjust_all adjs a) = kType64"
    using r crossed_at_end [of adjs mx d] by simp
  show ?thesis using r w e by simp
qed


theorem C5_witness:
  "data stco_example = FullAtom 0 0 (AtomSTCO [0xFFFFFFF0] 0 0xFFFFFFF0)
   \<and> crossed 0xFFFFFFF0 0 [0x20]
   \<and> atom_type (adjust_all [0x20] stco_example) = ''co64''
   \<and> WriteDataWithoutChildren {} (adjust_all [0x20] stco_example) =
       Inr (map char_of [0, 0, 0, 0, 0, 0, 0, 1, 0, 0, 0, 1, 0, 0, 0, 0x10 :: nat])"
  using C5_adjusted_offsets [of stco_example 0 0 "[0xFFFFFFF0]" 0 "0xFFFFFFF0" "[0x20]" "{}"]
  by (simp add: stco_example_def kType64_def kType32_def word_sless_alt Put_simps)

section \<open>Reading back what was written\<close>

lemma length_be_chars [simp]: "length (be_chars k n) = k"
  by (induction k arbitrary: n) simp_all

lemma be_nat_snoc: "be_nat (xs @ [c]) = be_nat xs * 256 + of_char c"
  by (simp add: be_nat_def)

lemma be_nat_be_chars: "be_nat (be_chars k n) = n mod 256 ^ k"
proof (induction k arbitrary: n)
  case 0
  show ?case by (simp add: be_nat_def)
next
  case (Suc k)
  have "n mod (256 * 256 ^ k) = 256 * (n div 256 mod 256 ^ k) + n mod 256"
    by (rule mod_mult2_eq)
  then show ?case
    by (simp add: be_nat_snoc Suc.IH)
qed

lemma length_Put [simp]:
  "length (PutUInt8 a) = 1" "length (PutUInt16 b) = 2" "length (PutUInt24 c) = 3"
  "length (PutUInt32 c) = 4" "length (PutUInt64 d) = 8"
  by (simp_all add: PutUInt8_def PutUInt16_def PutUInt24_def PutUInt32_def PutUInt64_def)

lemma length_VersionAndFlags [simp]: "length (VersionAndFlags v f) = 4"
  by (simp add: VersionAndFlags_def)

text \<open>
  The reads are stated on a stream \<open>s\<close> at a position \<open>p\<close> from which the stream goes on
  with the written bytes: \<open>drop p s = bytes @ rest\<close>.
\<close>

lemma ReadString_at:
  assumes "drop p s = x @ rest" and "p \<le> length s"
  shows "ReadString s p (length x) = Inr (x, p + length x)"
proof -
  have "length (drop p s) = length x + length rest" using assms(1) by simp
  then have "p + length x \<le> length s" using assms(2) by simp
  moreover have "take (length x) (drop p s) = x" using assms(1) by simp
  ultimately show ?thesis by (simp add: ReadString_def)
qed

lemma drop_after:
  assumes "drop p s = x @ rest"
  shows "drop (p + length x) s = rest"
proof -
  have "drop (length x) (drop p s) = rest" using assms by simp
  then show ?thesis by (simp add: add.commute)
qed

lemma le_after:
  assumes "drop p s = x @ rest" and "p \<le> length s"
  shows "p + length x \<le> length s"
proof -
  have "length (drop p s) = length x + length rest" using assms(1) by simp
  then show ?thesis using assms(2) by simp
qed

lemma ReadUInt8_at:
  assumes "drop p s = PutUInt8 v @ rest" and "p \<le> length s"
  shows "ReadUInt8 s p = Inr (v, p + 1)"
proof -
  have "unat v < 2 ^ 8" using unsigned_less [of v, where 'a = nat] by simp
  then have "unat v mod 256 ^ 1 = unat v" by simp
  then have "(word_of_nat (be_nat (PutUInt8 v)) :: u8) = v"
    by (simp add: PutUInt8_def be_nat_be_chars del: be_chars.simps)
  then show ?thesis
    using ReadString_at [OF assms] by (simp add: ReadUInt8_def)
qed

lemma ReadUInt16_at:
  assumes "drop p s = PutUInt16 v @ rest" and "p \<le> length s"
  shows "ReadUInt16 s p = Inr (v, p + 2)"
proof -
  have "unat v < 2 ^ 16" using unsigned_less [of v, where 'a = nat] by simp
  then have "unat v mod 256 ^ 2 = unat v" by simp
  then have "(word_of_nat (be_nat (PutUInt16 v)) :: u16) = v"
    by (simp add: PutUInt16_def be_nat_be_chars del: be_chars.simps)
  then show ?thesis
    using ReadString_at [OF assms] by (simp add: ReadUInt16_def)
qed

lemma ReadUInt24_at:
  assumes "drop p s = PutUInt24 v @ rest" and "p \<le> length s"
  shows "ReadUInt24 s p = Inr (take_bit 24 v, p + 3)"
proof -
  have "(word_of_nat (unat v mod 256 ^ 3) :: u32) = take_bit 24 v"
    by (simp add: take_bit_eq_mod unat_mod_distrib word_unat_eq_iff unat_of_nat)
  then have "(word_of_nat (be_nat (PutUInt24 v)) :: u32) = take_bit 24 v"
    by (simp add: PutUInt24_def be_nat_be_chars del: be_chars.simps)
  then show ?thesis
    using ReadString_at [OF assms] by (simp add: ReadUInt24_def)
qed

lemma ReadUInt32_at:
  assumes "drop p s = PutUInt32 v @ rest" and "p \<le> length s"
  shows "ReadUInt32 s p = Inr (v, p + 4)"
proof -
  have "unat v < 2 ^ 32" using unsigned_less [of v, where 'a = nat] by simp
  then have "unat v mod 256 ^ 4 = unat v" by simp
  then have "(word_of_nat (be_nat (PutUInt32 v)) :: u32) = v"
    by (simp add: PutUInt32_def be_nat_be_chars del: be_chars.simps)
  then show ?thesis
    using ReadString_at [OF assms] by (simp add: ReadUInt32_def)
qed

lemma ReadUInt64_at:
  assumes "drop p s = PutUInt64 v @ rest" and "p \<le> length s"
  shows "ReadUInt64 s p = Inr (v, p + 8)"
proof -
  have "unat v < 2 ^ 64" using unsigned_less [of v, where 'a = nat] by simp
  then have "unat v mod 256 ^ 8 = unat v" by simp
  then have "(word_of_nat (be_nat (PutUInt64 v)) :: u64) = v"
    by (simp add: PutUInt64_def be_nat_be_chars del: be_chars.simps)
  then show ?thesis
    using ReadString_at [OF assms] by (simp add: ReadUInt64_def)
qed

lemma ReadVersionAndFlags_at:
  assumes "drop p s = VersionAndFlags v f @ rest" and "p \<le> length s"
  shows "ReadVersionAndFlags s p = Inr ((v, take_bit 24 f), p + 4)"
proof -
  have d1: "drop p s = PutUInt8 v @ (PutUInt24 f @ rest)"
    using assms(1) by (simp add: VersionAndFlags_def)
  have r1: "ReadUInt8 s p = Inr (v, p + 1)" by (rule ReadUInt8_at [OF d1 assms(2)])
  have d2: "drop (p + 1) s = PutUInt24 f @ rest" using drop_after [OF d1] by simp
  have l2: "p + 1 \<le> length s" using le_after [OF d1 assms(2)] by simp
  have r2: "ReadUInt24 s (p + 1) = Inr (take_bit 24 f, p + 1 + 3)"
    by (rule ReadUInt24_at [OF d2 l2])
  show ?thesis using r1 r2 by (simp add: ReadVersionAndFlags_def)
qed

lemma read_list_at:
  assumes rd: "\<And>x p' rest'. drop p' s = enc x @ rest' \<Longrightarrow> p' \<le> length s
                 \<Longrightarrow> rd s p' = Inr (x, p' + length (enc x))"
    and "drop p s = concat (map enc xs) @ rest" and "p \<le> length s"
  shows "read_list rd (length xs) s p = Inr (xs, p + length (concat (map enc xs)))"
  using assms(2,3)
proof (induction xs arbitrary: p)
  case Nil
  then show ?case by simp
next
  case (Cons x xs)
  have d1: "drop p s = enc x @ (concat (map enc xs) @ rest)" using Cons.prems(1) by simp
  have r1: "rd s p = Inr (x, p + length (enc x))" by (rule rd [OF d1 Cons.prems(2)])
  have d2: "drop (p + length (enc x)) s = concat (map enc xs) @ rest" by (rule drop_after [OF d1])
  have l2: "p + length (enc x) \<le> length s" by (rule le_after [OF d1 Cons.prems(2)])
  show ?case using r1 Cons.IH [OF d2 l2] by (simp add: add.assoc)
qed

section \<open>AtomRegistry (atom_registry.cc and the REGISTER_ATOM lines of the class files)\<close>

text \<open>
  The constructor \<^verbatim>\<open>Atom::Atom(header_size, data_size, atom_type)\<close> computes the header
  size when it is given 0 with a non-zero data size.
\<close>

definition new_Atom :: "u64 \<Rightarrow> u64 \<Rightarrow> string \<Rightarrow> atom_data \<Rightarrow> atom" where
  "new_Atom hs ds t d =
     Atom t (if hs = 0 \<and> ds \<noteq> 0 then ComputeHeaderSize ds else hs) ds [] False d"

text \<open>visual_sample_entry.cc: the types registered with REGISTER_SAMPLE.\<close>

definition visual_sample_types :: "string list" where
  "visual_sample_types =
     [''AVDJ'', ''AVdh'', ''AVdn'', ''CFHD'', ''DIVX'', ''WMV1'', ''WMV2'', ''WMV3'', ''XVID'',
      ''ai12'', ''ai13'', ''ai15'', ''ai16'', ''ai1p'', ''ai1q'', ''ai52'', ''ai53'', ''ai55'',
      ''ai56'', ''ai5q'', ''ap4h'', ''ap4x'', ''apch'', ''apcn'', ''apco'', ''apcs'', ''av01'',
      ''avc1'', ''dmb1'', ''h263'', ''hev1'', ''hvc1'', ''jpeg'', ''mjp2'', ''mjpa'', ''mjpb'',
      ''mp4v'', ''s263'', ''vp09'']"

definition new_VisualSampleEntry_members :: VisualSampleEntry_members where
  "new_VisualSampleEntry_members =
     \<lparr>reserved_32 = 0, reserved_16 = 0, data_reference_index = 1, visual_version = 0,
      revision = 0, vendor = replicate 4 (CHR 0x00), temporal_quality = 0,
      spatial_quality = 0, vse_width = 0, vse_height = 0, horizontal_res = 0x48,
      vertical_res = 0x48, entry_data_size = 0, frames_per_sample = 1,
      encoder_name_size = 31, encoder_name = replicate 31 (CHR 0x00), bit_depth = 0x18,
      color_table_id = 0xFFFF\<rparr>"

definition new_TKHD_members :: TKHD_members where
  "new_TKHD_members =
     \<lparr>created_date = 0, modified_date = 0, track_id = 0, reserved32_1 = 0, duration = 0,
      reserved32_2 = 0, reserved32_3 = 0, layer = 0, group = 0, volume = 0, reserved16 = 0,
      matrix = [0x00010000, 0, 0, 0, 0x00010000, 0, 0, 0, 0x40000000],
      tkhd_width = 0, tkhd_height = 0\<rparr>"

definition new_HDLR_members :: HDLR_members where
  "new_HDLR_members =
     \<lparr>component_type = [], component_subtype = [], component_manufacturer = [],
      component_flags = 0, component_flags_mask = 0, component_name = []\<rparr>"

text \<open>
  \<^verbatim>\<open>AtomRegistry::CreateAtom\<close> after static initialisation. atom_moov.cc registers the
  class AtomTRAK under the type "moov" (\<^verbatim>\<open>REGISTER_ATOM(AtomTRAK, kType)\<close> with kType =
  "moov"), so an atom of type "moov" that is read from a stream has the class AtomTRAK;
  ModifyMoov casts the pointer to AtomMOOV all the same. atom_camm.cc leaves
  \<^verbatim>\<open>data_reference_index_\<close> uninitialised in the registry's constructor; it is read
  before any use and is 0 here.

  Modelled from the spec: the files that register "mdia", "minf", "stbl", "edts" and
  "sv3d" (atom_mdia.cc, atom_minf.cc, atom_stbl.cc, atom_edts.cc, atom_sv3d.cc) are not
  among the sources; the specification lists these types as typed containers, and the
  headers at hand declare their classes without members or overrides.
\<close>

definition CreateAtom :: "u64 \<Rightarrow> u64 \<Rightarrow> string \<Rightarrow> atom" where
  "CreateAtom hs ds t =
     new_Atom hs ds t
       (if t = ''moov'' then Container AtomTRAK
        else if t = ''trak'' then Container AtomTRAK
        else if t = ''mdia'' then Container AtomMDIA
        else if t = ''minf'' then Container AtomMINF
        else if t = ''stbl'' then Container AtomSTBL
        else if t = ''edts'' then Container AtomEDTS
        else if t = ''sv3d'' then Container AtomSV3D
        else if t = kType32 \<or> t = kType64 then FullAtom 0 0 (AtomSTCO [] 0 0)
        else if t = ''elst'' then FullAtom 0 0 (AtomELST [])
        else if t = ''sdtp'' then FullAtom 0 0 (AtomSDTP [])
        else if t = ''stsd'' then FullAtom 0 0 AtomSTSD
        else if t = ''stss'' then FullAtom 0 0 (AtomSTSS [])
        else if t = ''st3d'' then FullAtom 0 0 (AtomST3D 0)
        else if t = ''hdlr'' then FullAtom 0 0 (AtomHDLR new_HDLR_members)
        else if t = ''tkhd'' then FullAtom 0 0 (AtomTKHD new_TKHD_members)
        else if t = ''uuid'' then AtomUUID [] []
        else if t = ''camm'' then AtomCAMM [] 0
        else if t \<in> set visual_sample_types then VisualSampleEntry new_VisualSampleEntry_members
        else AtomDefault None)"

section \<open>AtomELST: version promotion and round trip\<close>

text \<open>A run of \<^verbatim>\<open>AddEntry\<close> calls, in the order of the list.\<close>

definition add_all :: "Entry list \<Rightarrow> atom \<Rightarrow> atom" where
  "add_all new a = foldl (\<lambda>b e. AddEntry e b) a new"

text \<open>The condition under which \<^verbatim>\<open>AddEntry\<close> calls \<^verbatim>\<open>set_version(1)\<close>.\<close>

definition needs_v1 :: "Entry \<Rightarrow> bool" where
  "needs_v1 e = (segment_duration e > 0xFFFFFFFF
                 \<or> (0x7FFFFFFF :: u64) <s media_time e
                 \<or> media_time e <s (- 0x80000000 :: u64))"

definition entries_of :: "atom \<Rightarrow> Entry list" where
  "entries_of a = (case data a of FullAtom v f (AtomELST es) \<Rightarrow> es | _ \<Rightarrow> [])"

definition version_of :: "atom \<Rightarrow> u8" where
  "version_of a = (case data a of FullAtom v f m \<Rightarrow> v | _ \<Rightarrow> 0)"

lemma GetDataSizeWithoutChildren_ELST:
  "data a = FullAtom v f (AtomELST es)
     \<Longrightarrow> GetDataSizeWithoutChildren a = 8 + ucast (NumEntries es) * EntrySize v"
  by (cases a) simp

lemma UpdateSize_data_size_leaf:
  "children a = [] \<Longrightarrow> \<not> has_null_terminator a
     \<Longrightarrow> data_size (UpdateSize a) = GetDataSizeWithoutChildren a"
  by (simp add: UpdateSize_def Let_def children_size_def)

lemma AddEntry_ELST:
  assumes "data a = FullAtom v f (AtomELST es)"
  shows "data (AddEntry e a) = FullAtom (if needs_v1 e then 1 else v) f (AtomELST (es @ [e]))"
    and "children (AddEntry e a) = children a"
    and "has_null_terminator (AddEntry e a) = has_null_terminator a"
  using assms by (simp_all add: AddEntry_def needs_v1_def set_version_def Let_def)

lemma AddEntry_data_size:
  assumes "data a = FullAtom v f (AtomELST es)" and "children a = []"
    and "\<not> has_null_terminator a"
  shows "data_size (AddEntry e a) =
           8 + ucast (NumEntries (es @ [e])) * EntrySize (if needs_v1 e then 1 else v)"
proof -
  let ?a1 = "if needs_v1 e then set_version 1 a else a"
  let ?v1 = "if needs_v1 e then 1 else v"
  let ?a2 = "set_data (FullAtom ?v1 f (AtomELST (es @ [e]))) ?a1"
  have d1: "data ?a1 = FullAtom ?v1 f (AtomELST es)"
    using assms(1) by (simp add: set_version_def)
  have c1: "children ?a1 = []" "\<not> has_null_terminator ?a1"
    using assms by (simp_all add: set_version_def)
  have eq: "AddEntry e a = UpdateSize ?a2"
    using d1 by (simp add: AddEntry_def needs_v1_def Let_def)
  have "data_size (UpdateSize ?a2) = GetDataSizeWithoutChildren ?a2"
    using c1 by (intro UpdateSize_data_size_leaf) simp_all
  also have "\<dots> = 8 + ucast (NumEntries (es @ [e])) * EntrySize ?v1"
    by (rule GetDataSizeWithoutChildren_ELST) simp
  finally show ?thesis using eq by simp
qed

lemma add_all_ELST:
  assumes "data a = FullAtom v f (AtomELST es)" and "children a = []"
    and "\<not> has_null_terminator a"
  shows "data (add_all new a) =
           FullAtom (if \<exists>e \<in> set new. needs_v1 e then 1 else v) f (AtomELST (es @ new))
       \<and> children (add_all new a) = []
       \<and> \<not> has_null_terminator (add_all new a)
       \<and> (new \<noteq> [] \<longrightarrow> data_size (add_all new a) =
             8 + ucast (NumEntries (es @ new))
                 * EntrySize (if \<exists>e \<in> set new. needs_v1 e then 1 else v))"
  using assms
proof (induction new arbitrary: a v es rule: rev_induct)
  case Nil
  then show ?case by (simp add: add_all_def)
next
  case (snoc e new)
  let ?b = "add_all new a"
  let ?vb = "if \<exists>x \<in> set new. needs_v1 x then 1 else v"
  from snoc.IH [OF snoc.prems]
  have db: "data ?b = FullAtom ?vb f (AtomELST (es @ new))"
    and cb: "children ?b = []" and tb: "\<not> has_null_terminator ?b" by simp_all
  have step: "add_all (new @ [e]) a = AddEntry e ?b" by (simp add: add_all_def)
  have v: "(if needs_v1 e then 1 else ?vb) = (if \<exists>x \<in> set (new @ [e]). needs_v1 x then 1 else v)"
    by auto
  show ?case
    using AddEntry_ELST [OF db, of e] AddEntry_data_size [OF db cb tb, of e] cb tb v
    by (simp add: step)
qed

lemma length_WriteEntry_v1 [simp]: "length (WriteEntry 1 e) = 20"
  by (simp add: WriteEntry_def)

lemma ReadEntry_v1_at:
  assumes "drop p s = WriteEntry 1 e @ rest" and "p \<le> length s"
  shows "ReadEntry 1 s p = Inr (e, p + length (WriteEntry 1 e))"
proof -
  have d1: "drop p s = PutUInt64 (segment_duration e) @ (PutUInt64 (media_time e)
              @ PutUInt16 (media_rate_integer e) @ PutUInt16 (media_rate_fraction e) @ rest)"
    using assms(1) by (simp add: WriteEntry_def)
  have r1: "ReadUInt64 s p = Inr (segment_duration e, p + 8)"
    by (rule ReadUInt64_at [OF d1 assms(2)])
  have d2: "drop (p + 8) s = PutUInt64 (media_time e)
              @ (PutUInt16 (media_rate_integer e) @ PutUInt16 (media_rate_fraction e) @ rest)"
    using drop_after [OF d1] by simp
  have l2: "p + 8 \<le> length s" using le_after [OF d1 assms(2)] by simp
  have r2: "ReadUInt64 s (p + 8) = Inr (media_time e, p + 8 + 8)"
    by (rule ReadUInt64_at [OF d2 l2])
  have d3: "drop (p + 8 + 8) s = PutUInt16 (media_rate_integer e)
              @ (PutUInt16 (media_rate_fraction e) @ rest)"
    using drop_after [OF d2] by simp
  have l3: "p + 8 + 8 \<le> length s" using le_after [OF d2 l2] by simp
  have r3: "ReadUInt16 s (p + 8 + 8) = Inr (media_rate_integer e, p + 8 + 8 + 2)"
    by (rule ReadUInt16_at [OF d3 l3])
  have d4: "drop (p + 8 + 8 + 2) s = PutUInt16 (media_rate_fraction e) @ rest"
    using drop_after [OF d3] by simp
  have l4: "p + 8 + 8 + 2 \<le> length s" using le_after [OF d3 l3] by simp
  have r4: "ReadUInt16 s (p + 8 + 8 + 2) = Inr (media_rate_fraction e, p + 8 + 8 + 2 + 2)"
    by (rule ReadUInt16_at [OF d4 l4])
  show ?thesis using r1 r2 r3 r4 by (simp add: ReadEntry_def)
qed

lemma unat_NumEntries: "length es < 2 ^ 32 \<Longrightarrow> unat (NumEntries es) = length es"
  by (simp add: NumEntries_def unat_of_nat)

lemma ELST_v1_round_trip:
  assumes len: "length es < 2 ^ 32"
    and ds: "ds = 8 + ucast (NumEntries es) * EntrySize 1"
  shows "ReadELST ds [] (WriteELST 1 f es) 0 =
           Inr (FullAtom 1 (take_bit 24 f) (AtomELST es), length (WriteELST 1 f es))"
proof -
  let ?s = "WriteELST 1 f es"
  let ?body = "concat (map (WriteEntry 1) es)"
  have s: "?s = VersionAndFlags 1 f @ PutUInt32 (NumEntries es) @ ?body"
    using unat_NumEntries [OF len] by (simp add: WriteELST_def)
  have d0: "drop 0 ?s = VersionAndFlags 1 f @ (PutUInt32 (NumEntries es) @ ?body)"
    using s by simp
  have r0: "ReadVersionAndFlags ?s 0 = Inr ((1, take_bit 24 f), 0 + 4)"
    by (rule ReadVersionAndFlags_at [OF d0]) simp
  have d1: "drop (0 + 4) ?s = PutUInt32 (NumEntries es) @ (?body @ [])"
    using drop_after [OF d0] by simp
  have l1: "0 + 4 \<le> length ?s" using le_after [OF d0] by simp
  have r1: "ReadUInt32 ?s (0 + 4) = Inr (NumEntries es, 0 + 4 + 4)"
    by (rule ReadUInt32_at [OF d1 l1])
  have d2: "drop (0 + 4 + 4) ?s = ?body @ []" using drop_after [OF d1] by simp
  have l2: "0 + 4 + 4 \<le> length ?s" using le_after [OF d1 l1] by simp
  have r2: "read_list (ReadEntry 1) (length es) ?s (0 + 4 + 4) =
              Inr (es, 0 + 4 + 4 + length ?body)"
    by (rule read_list_at [where enc = "WriteEntry 1", OF ReadEntry_v1_at d2 l2])
  have chk: "CheckNumEntries 1 ds (NumEntries es)"
    by (simp add: CheckNumEntries_def ds)
  have total: "length ?s = 8 + length ?body" using s by simp
  show ?thesis
    using r0 r1 r2 chk unat_NumEntries [OF len] total
    by (simp add: ReadELST_def)
qed

text \<open>
  Claim C8. \<^verbatim>\<open>AtomELST::AddEntry\<close> sets the version to 1 whenever the entry's
  segment_duration exceeds \<open>2^32 - 1\<close> or its media_time lies outside
  \<open>[-2^31, 2^31 - 1]\<close>; and when entries are added this way, one of them with media_time
  above \<open>2^31 - 1\<close>, the atom has version 1 and what \<^verbatim>\<open>WriteDataWithoutChildren\<close> writes is
  read back by \<^verbatim>\<open>ReadDataWithoutChildren\<close>, on the atom the registry constructs for the
  written data size, to the same list of entries. The atom is an edit list as the class
  builds it (no children, no null terminator) with fewer than \<open>2^32\<close> entries, the most
  the 32-bit entry count of the format can hold.
\<close>

theorem C8_elst_version_and_round_trip:
  assumes "data a = FullAtom v f (AtomELST es)" and "children a = []"
    and "\<not> has_null_terminator a"
  shows "(segment_duration e > 0xFFFFFFFF \<or> (0x7FFFFFFF :: u64) <s media_time e
            \<or> media_time e <s (- 0x80000000 :: u64)
          \<longrightarrow> version_of (AddEntry e a) = 1)
       \<and> ((\<exists>x \<in> set new. (0x7FFFFFFF :: u64) <s media_time x) \<and> length (es @ new) < 2 ^ 32
          \<longrightarrow> version_of (add_all new a) = 1
            \<and> entries_of (add_all new a) = es @ new
            \<and> (\<exists>w a'. WriteDataWithoutChildren failed (add_all new a) = Inr w
                  \<and> ReadDataWithoutChildren sid w 0
                       (CreateAtom hs (data_size (add_all new a)) ''elst'') = Inr (a', length w)
                  \<and> version_of a' = 1
                  \<and> entries_of a' = entries_of (add_all new a)))"
proof (intro conjI impI)
  assume "segment_duration e > 0xFFFFFFFF \<or> (0x7FFFFFFF :: u64) <s media_time e
            \<or> media_time e <s (- 0x80000000 :: u64)"
  then have "needs_v1 e" by (simp add: needs_v1_def)
  then show "version_of (AddEntry e a) = 1"
    using AddEntry_ELST(1) [OF assms(1), of e] by (simp add: version_of_def)
next
  assume h: "(\<exists>x \<in> set new. (0x7FFFFFFF :: u64) <s media_time x) \<and> length (es @ new) < 2 ^ 32"
  then have ex: "\<exists>x \<in> set new. needs_v1 x" by (auto simp: needs_v1_def)
  then have ne: "new \<noteq> []" by auto
  let ?b = "add_all new a"
  from add_all_ELST [OF assms, of new] ex ne
  have db: "data ?b = FullAtom 1 f (AtomELST (es @ new))"
    and dsb: "data_size ?b = 8 + ucast (NumEntries (es @ new)) * EntrySize 1"
    by simp_all
  show "version_of ?b = 1" using db by (simp add: version_of_def)
  show "entries_of ?b = es @ new" using db by (simp add: entries_of_def)
  let ?w = "WriteELST 1 f (es @ new)"
  have w: "WriteDataWithoutChildren failed ?b = Inr ?w"
    using db by (simp add: WriteDataWithoutChildren_def)
  have rt: "ReadELST (data_size ?b) [] ?w 0 =
              Inr (FullAtom 1 (take_bit 24 f) (AtomELST (es @ new)), length ?w)"
    using h by (intro ELST_v1_round_trip dsb) simp
  let ?fresh = "CreateAtom hs (data_size ?b) ''elst''"
  have fresh: "data ?fresh = FullAtom 0 0 (AtomELST [])" "data_size ?fresh = data_size ?b"
    by (simp_all add: CreateAtom_def new_Atom_def kType32_def kType64_def)
  have rd: "ReadDataWithoutChildren sid ?w 0 ?fresh =
              Inr (set_data (FullAtom 1 (take_bit 24 f) (AtomELST (es @ new))) ?fresh, length ?w)"
    using fresh rt by (simp add: ReadDataWithoutChildren_def with_data_def)
  show "\<exists>w a'. WriteDataWithoutChildren failed ?b = Inr w
           \<and> ReadDataWithoutChildren sid w 0 ?fresh = Inr (a', length w)
           \<and> version_of a' = 1 \<and> entries_of a' = entries_of ?b"
    using w rd db by (auto simp: version_of_def entries_of_def)
qed


definition example_entry :: Entry where
  "example_entry = \<lparr>segment_duration = 5, media_time = 0x80000000,
                     media_rate_integer = 1, media_rate_fraction = 0\<rparr>"

theorem C8_witness:
  "data new_AtomELST = FullAtom 0 0 (AtomELST []) \<and> children new_AtomELST = []
   \<and> \<not> has_null_terminator new_AtomELST
   \<and> (0x7FFFFFFF :: u64) <s media_time example_entry
   \<and> length ([] @ [example_entry]) < (2 :: nat) ^ 32
   \<and> version_of (AddEntry example_entry new_AtomELST) = 1
   \<and> version_of (add_all [example_entry] new_AtomELST) = 1
   \<and> (\<exists>w a'. WriteDataWithoutChildren {} (add_all [example_entry] new_AtomELST) = Inr w
         \<and> ReadDataWithoutChildren 0 w 0
              (CreateAtom 8 (data_size (add_all [example_entry] new_AtomELST)) ''elst'')
            = Inr (a', length w)
         \<and> version_of a' = 1
         \<and> entries_of a' = [example_entry])"
proof -
  have h: "data new_AtomELST = FullAtom 0 0 (AtomELST [])" "children new_AtomELST = []"
    "\<not> has_null_terminator new_AtomELST"
    by (simp_all add: new_AtomELST_def)
  have m: "(0x7FFFFFFF :: u64) <s media_time example_entry"
    by (simp add: example_entry_def word_sless_alt)
  show ?thesis
    using C8_elst_version_and_round_trip [OF h, of example_entry "[example_entry]" "{}" 0 8] h m
    by auto
qed

section \<open>AtomWriter (atom_writer.cc)\<close>

text \<open>\<open>concat_status\<close>: the results of a sequence of writes, up to the first error.\<close>

fun concat_status :: "(FormatErrorCode + string) list \<Rightarrow> FormatErrorCode + string" where
  "concat_status [] = Inr []"
| "concat_status (Inl e # rs) = Inl e"
| "concat_status (Inr x # rs) =
     (case concat_status rs of Inl e \<Rightarrow> Inl e | Inr y \<Rightarrow> Inr (x @ y))"

definition WriteAtomHeader :: "atom \<Rightarrow> FormatErrorCode + string" where
  "WriteAtomHeader a =
     (let size_length = header_size a - 4 in
      if size_length = 4 then
        Inr (PutUInt32 (ucast (size_of a)) @ atom_type a)
      else if size_length = 4 + 8 then
        Inr (PutUInt32 1 @ atom_type a @ PutUInt64 (size_of a))
      else Inl FILE_FORMAT_ERROR)"

fun WriteAtom :: "nat set \<Rightarrow> atom \<Rightarrow> FormatErrorCode + string" where
  "WriteAtom failed (Atom t hs ds cs nt d) =
     (case WriteAtomHeader (Atom t hs ds cs nt d) of Inl e \<Rightarrow> Inl e
      | Inr header \<Rightarrow>
          (case WriteDataWithoutChildren failed (Atom t hs ds cs nt d) of Inl e \<Rightarrow> Inl e
           | Inr payload \<Rightarrow>
               (case concat_status (map (WriteAtom failed) cs) of Inl e \<Rightarrow> Inl e
                | Inr body \<Rightarrow>
                    Inr (header @ payload @ body @ (if nt then PutUInt32 0 else [])))))"

definition WriteAtoms :: "nat set \<Rightarrow> atom list \<Rightarrow> FormatErrorCode + string" where
  "WriteAtoms failed atoms = concat_status (map (WriteAtom failed) atoms)"

section \<open>AtomReader (atom_reader.cc)\<close>

definition safe_add :: "u64 \<Rightarrow> u64 \<Rightarrow> u64" where
  "safe_add a b = (let sum = a + b in if sum < a then 0xFFFFFFFFFFFFFFFF else sum)"

definition safe_sub :: "u64 \<Rightarrow> u64 \<Rightarrow> u64" where
  "safe_sub a b = (if a < b then 0 else a - b)"

definition safe_convert_uint64_t_to_int64_t :: "u64 \<Rightarrow> u64" where
  "safe_convert_uint64_t_to_int64_t a = (if a > 0x7FFFFFFFFFFFFFFF then 0x7FFFFFFFFFFFFFFF else a)"

text \<open>
  \<^verbatim>\<open>ReadHeader\<close>: the 32-bit size, the type, the 64-bit size when the 32-bit one is 1, the
  rest of the stream when it is 0. The result is (header_size, data_size, atom_type) and
  the position after the header.
\<close>

definition ReadHeader ::
  "string \<Rightarrow> nat \<Rightarrow> FormatErrorCode + ((u64 \<times> u64 \<times> string) \<times> nat)" where
  "ReadHeader s p =
     (case ReadUInt32 s p of Inl e \<Rightarrow> Inl e
      | Inr (size32, p1) \<Rightarrow>
          (case ReadString s p1 4 of Inl e \<Rightarrow> Inl e
           | Inr (ty, p2) \<Rightarrow>
               (case (if size32 = 1 then
                        (case ReadUInt64 s p2 of Inl e \<Rightarrow> Inl e
                         | Inr (size64, p3) \<Rightarrow> Inr ((8 + 8, size64), p3))
                      else if size32 = 0 then
                        Inr ((8, word_of_nat (length s) - word_of_nat p2 + 8), p2)
                      else Inr ((8, ucast size32), p2)) of
                  Inl e \<Rightarrow> Inl e
                | Inr ((header_bytes, size64), p3) \<Rightarrow>
                    (if size64 < header_bytes then Inl FILE_FORMAT_ERROR
                     else Inr ((header_bytes, size64 - header_bytes, ty), p3)))))"

definition set_has_null_terminator :: "bool \<Rightarrow> atom \<Rightarrow> atom" where
  "set_has_null_terminator b a =
     (if has_null_terminator a \<noteq> b
      then UpdateSize (Atom (atom_type a) (header_size a) (data_size a) (children a) b (data a))
      else a)"

text \<open>
  \<^verbatim>\<open>ReadAtom\<close> and \<^verbatim>\<open>ReadChildAtoms\<close> call each other; the first argument bounds the
  depth of the calls, and \<open>None\<close> is the answer of a call that was given too little of
  it. The result of \<^verbatim>\<open>ReadAtom\<close> is the atom and the position of the reader, or
  (\<^verbatim>\<open>nullptr\<close>) the kind of failure: FILE_UNEXPECTED_EOF when the stream has failed,
  FILE_FORMAT_ERROR when the atom is rejected and the stream is still good. After a
  failed read of the null terminator the reader's position is \<^verbatim>\<open>tellg()\<close> of a failed
  stream, -1, which is not the expected position.
\<close>

fun ReadAtom :: "nat \<Rightarrow> nat \<Rightarrow> string \<Rightarrow> nat \<Rightarrow> (FormatErrorCode + (atom \<times> nat)) option"
  and ReadChildAtoms ::
    "nat \<Rightarrow> nat \<Rightarrow> string \<Rightarrow> nat \<Rightarrow> u64 \<Rightarrow> u64 \<Rightarrow> atom \<Rightarrow> (FormatErrorCode + (atom \<times> nat)) option"
  where
  "ReadAtom 0 sid s initial_pos = None"
| "ReadAtom (Suc n) sid s initial_pos =
     (case ReadHeader s initial_pos of Inl e \<Rightarrow> Some (Inl e)
      | Inr ((hs, ds, t), p1) \<Rightarrow>
          (let atom_size = hs + ds;
               expected_pos = safe_convert_uint64_t_to_int64_t
                                (safe_add (word_of_nat initial_pos) atom_size)
           in case ReadDataWithoutChildren sid s p1 (CreateAtom hs ds t) of
                Inl e \<Rightarrow> Some (Inl e)
              | Inr (a1, p2) \<Rightarrow>
                  (case ReadChildAtoms n sid s p2 0
                          (safe_sub (data_size a1) (GetDataSizeWithoutChildren a1)) a1 of
                     None \<Rightarrow> None
                   | Some (Inl e) \<Rightarrow> Some (Inl e)
                   | Some (Inr (a2, p3)) \<Rightarrow>
                       (if atom_size - word_of_nat p3 + word_of_nat initial_pos = 4 then
                          (case ReadUInt32 s p3 of
                             Inl e \<Rightarrow> Some (Inl FILE_UNEXPECTED_EOF)
                           | Inr (terminator, p4) \<Rightarrow>
                               (if word_of_nat p4 \<noteq> expected_pos then Some (Inl FILE_FORMAT_ERROR)
                                else Some (Inr (set_has_null_terminator True a2, p4))))
                        else if word_of_nat p3 \<noteq> expected_pos then Some (Inl FILE_FORMAT_ERROR)
                        else Some (Inr (a2, p3))))))"
| "ReadChildAtoms 0 sid s p sum_sizes children_sz parent = None"
| "ReadChildAtoms (Suc n) sid s p sum_sizes children_sz parent =
     (if sum_sizes + 8 \<le> children_sz then
        (case ReadAtom n sid s p of
           None \<Rightarrow> None
         | Some (Inl e) \<Rightarrow> Some (Inl e)
         | Some (Inr (child, p1)) \<Rightarrow>
             ReadChildAtoms n sid s p1 (sum_sizes + size_of child) children_sz
               (AddChild child parent))
      else Some (Inr (parent, p)))"

section \<open>ModifyMoov (modify_moov.cc)\<close>

text \<open>
  \<^verbatim>\<open>ReadAtoms\<close>: atoms are read while the position is before the end of the stream; the
  loop stops at the first \<^verbatim>\<open>nullptr\<close>. The result is the atoms read and, when the loop
  stopped at a failure, its kind. The depth given to the reader, the length of the
  stream and three, is more than the reader can use.
\<close>

fun ReadAtomsLoop ::
  "nat \<Rightarrow> nat \<Rightarrow> string \<Rightarrow> nat \<Rightarrow> (atom list \<times> FormatErrorCode option) option" where
  "ReadAtomsLoop 0 sid s p = None"
| "ReadAtomsLoop (Suc n) sid s p =
     (if p < length s then
        (case ReadAtom n sid s p of
           None \<Rightarrow> None
         | Some (Inl e) \<Rightarrow> Some ([], Some e)
         | Some (Inr (a, p1)) \<Rightarrow>
             (case ReadAtomsLoop n sid s p1 of
                None \<Rightarrow> None
              | Some (atoms, err) \<Rightarrow> Some (a # atoms, err)))
      else Some ([], None))"

definition ReadAtoms :: "nat \<Rightarrow> string \<Rightarrow> atom list \<times> FormatErrorCode option" where
  "ReadAtoms sid s =
     (case ReadAtomsLoop (length s + 3) sid s 0 of
        Some r \<Rightarrow> r
      | None \<Rightarrow> ([], Some UNDEFINED_BEHAVIOR))"

text \<open>The streams that have failed after \<^verbatim>\<open>ReadAtoms\<close> on the stream \<open>sid\<close>.\<close>

definition failed_after :: "nat \<Rightarrow> FormatErrorCode option \<Rightarrow> nat set" where
  "failed_after sid err = (if err = Some FILE_UNEXPECTED_EOF then {sid} else {})"

definition kMoovType :: string where "kMoovType = ''moov''"
definition kMdatType :: string where "kMdatType = ''mdat''"
definition kFreeType :: string where "kFreeType = ''free''"
definition kFreeAtomHeaderSize :: u64 where "kFreeAtomHeaderSize = 8"

fun GetAtomPosition :: "atom list \<Rightarrow> string \<Rightarrow> u64" where
  "GetAtomPosition [] t = 0"
| "GetAtomPosition (a # atoms) t =
     (if atom_type a = t then 0 else size_of a + GetAtomPosition atoms t)"

fun GetAtomIndex :: "atom list \<Rightarrow> string \<Rightarrow> int" where
  "GetAtomIndex [] t = - 1"
| "GetAtomIndex (a # atoms) t =
     (if atom_type a = t then 0
      else (let i = GetAtomIndex atoms t in if i = - 1 then - 1 else i + 1))"

definition WriteFreeSpace :: "u32 \<Rightarrow> string" where
  "WriteFreeSpace sz = PutUInt32 sz @ kFreeType"

text \<open>
  atom_helpers.h, \<^verbatim>\<open>FindChild<ATOM>\<close>: the first child whose dynamic class is ATOM
  (\<^verbatim>\<open>typeid\<close> equality), here its index. The classes that ModifyMoov looks for:
\<close>

fun first_index :: "('a \<Rightarrow> bool) \<Rightarrow> 'a list \<Rightarrow> nat option" where
  "first_index P [] = None"
| "first_index P (x # xs) =
     (if P x then Some 0 else (case first_index P xs of None \<Rightarrow> None | Some i \<Rightarrow> Some (Suc i)))"

definition is_container :: "container_class \<Rightarrow> atom \<Rightarrow> bool" where
  "is_container c a = (data a = Container c)"

definition is_AtomSTCO :: "atom \<Rightarrow> bool" where
  "is_AtomSTCO a = (case data a of FullAtom v f (AtomSTCO offs delta mx) \<Rightarrow> True | _ \<Rightarrow> False)"

definition replace_child :: "nat \<Rightarrow> atom \<Rightarrow> atom \<Rightarrow> atom" where
  "replace_child i c a = UpdateSize (set_children ((children a)[i := c]) a)"

text \<open>
  \<^verbatim>\<open>AdjustTrackOffsets\<close> for one track: \<^verbatim>\<open>AtomTRAK::atom_stbl\<close> (FindNamedChildren: the
  first AtomMDIA child, its first AtomMINF child, its first AtomSTBL child), then the
  first AtomSTCO child of the stbl and \<^verbatim>\<open>AdjustChunkOffsets\<close>, whose Update recomputes
  the sizes of stco, stbl, minf, mdia and trak in turn. When mdia or minf is missing,
  FindNamedChildren returns before it assigns \<^verbatim>\<open>stbl_\<close>, a member the constructor does
  not initialise: the pointer that \<^verbatim>\<open>atom_stbl\<close> returns is indeterminate.
\<close>

definition AdjustTrackOffsets_trak :: "u64 \<Rightarrow> atom \<Rightarrow> FormatErrorCode + atom" where
  "AdjustTrackOffsets_trak delta trak =
     (case first_index (is_container AtomMDIA) (children trak) of
        None \<Rightarrow> Inl UNDEFINED_BEHAVIOR
      | Some i \<Rightarrow>
          (let mdia = children trak ! i in
           case first_index (is_container AtomMINF) (children mdia) of
             None \<Rightarrow> Inl UNDEFINED_BEHAVIOR
           | Some j \<Rightarrow>
               (let minf = children mdia ! j in
                case first_index (is_container AtomSTBL) (children minf) of
                  None \<Rightarrow> Inl FILE_FORMAT_ERROR
                | Some k \<Rightarrow>
                    (let stbl = children minf ! k in
                     case first_index is_AtomSTCO (children stbl) of
                       None \<Rightarrow> Inl FILE_FORMAT_ERROR
                     | Some l \<Rightarrow>
                         (let stco = AdjustChunkOffsets delta (children stbl ! l)
                          in Inr (replace_child i
                                   (replace_child j
                                     (replace_child k (replace_child l stco stbl) minf)
                                     mdia)
                                   trak))))))"

text \<open>
  The loop over \<^verbatim>\<open>moov->tracks()\<close>, the children of class AtomTRAK in their order. The
  first track that fails ends the loop with its error. The moov itself is updated by
  the Update of every adjusted track.
\<close>

fun AdjustTrackOffsets_loop :: "u64 \<Rightarrow> atom list \<Rightarrow> FormatErrorCode + atom list" where
  "AdjustTrackOffsets_loop delta [] = Inr []"
| "AdjustTrackOffsets_loop delta (c # cs) =
     (if is_container AtomTRAK c then
        (case AdjustTrackOffsets_trak delta c of Inl e \<Rightarrow> Inl e
         | Inr c' \<Rightarrow>
             (case AdjustTrackOffsets_loop delta cs of Inl e \<Rightarrow> Inl e
              | Inr cs' \<Rightarrow> Inr (c' # cs')))
      else (case AdjustTrackOffsets_loop delta cs of Inl e \<Rightarrow> Inl e
            | Inr cs' \<Rightarrow> Inr (c # cs')))"

definition AdjustTrackOffsets :: "atom \<Rightarrow> u64 \<Rightarrow> FormatErrorCode + atom" where
  "AdjustTrackOffsets moov delta =
     (case AdjustTrackOffsets_loop delta (children moov) of Inl e \<Rightarrow> Inl e
      | Inr cs' \<Rightarrow>
          (if \<exists>c \<in> set (children moov). is_container AtomTRAK c
           then Inr (UpdateSize (set_children cs' moov)) else Inr moov))"

text \<open>
  \<^verbatim>\<open>ModifyMoov(modifier, input, output)\<close>, the rewrite path. \<open>ModifyMoov_tree\<close> is its
  work on the atoms between \<^verbatim>\<open>ReadAtoms\<close> and the loop that writes them: the result is
  the list \<^verbatim>\<open>top_level_atoms\<close> as that loop finds it. A modifier is a function on the
  moov atom that fails or returns the atom as it has changed it.
\<close>

type_synonym MoovModifier = "atom \<Rightarrow> FormatErrorCode + atom"

definition swap_atoms :: "nat \<Rightarrow> nat \<Rightarrow> atom list \<Rightarrow> atom list" where
  "swap_atoms i j atoms = atoms[i := atoms ! j, j := atoms ! i]"

definition ModifyMoov_tree :: "MoovModifier \<Rightarrow> atom list \<Rightarrow> FormatErrorCode + atom list" where
  "ModifyMoov_tree modifier top_level_atoms =
     (let moov_index = GetAtomIndex top_level_atoms kMoovType;
          mdat_index = GetAtomIndex top_level_atoms kMdatType
      in if moov_index = - 1 \<or> mdat_index = - 1 then Inl FILE_FORMAT_ERROR
         else
           (let mdat_position_before_update = GetAtomPosition top_level_atoms kMdatType
            in case modifier (top_level_atoms ! nat moov_index) of Inl e \<Rightarrow> Inl e
               | Inr moov \<Rightarrow>
                   (let atoms1 = top_level_atoms[nat moov_index := moov];
                        atoms2 = (if moov_index > mdat_index
                                  then swap_atoms (nat moov_index) (nat mdat_index) atoms1
                                  else atoms1);
                        moov_at = (if moov_index > mdat_index then nat mdat_index
                                   else nat moov_index);
                        mdat_position_after_update = GetAtomPosition atoms2 kMdatType;
                        delta = mdat_position_after_update - mdat_position_before_update
                    in if delta \<noteq> 0 then
                         (case AdjustTrackOffsets moov delta of Inl e \<Rightarrow> Inl e
                          | Inr moov' \<Rightarrow> Inr (atoms2[moov_at := moov']))
                       else Inr atoms2)))"

definition ModifyMoov :: "MoovModifier \<Rightarrow> string \<Rightarrow> FormatErrorCode + string" where
  "ModifyMoov modifier input =
     (case ReadAtoms 0 input of
        (top_level_atoms, err) \<Rightarrow>
          (if err = Some UNDEFINED_BEHAVIOR then Inl UNDEFINED_BEHAVIOR
           else (case ModifyMoov_tree modifier top_level_atoms of Inl e \<Rightarrow> Inl e
                 | Inr atoms \<Rightarrow> WriteAtoms (failed_after 0 err) atoms)))"

text \<open>
  The in-place path works on one file through a reader and a writer that share its
  stream. \<open>write_at f p bytes\<close> is the file after \<^verbatim>\<open>Seek(p)\<close> and the writes of \<open>bytes\<close>
  (a position beyond the end leaves a gap of zero bytes, as a file does).
\<close>

definition write_at :: "string \<Rightarrow> nat \<Rightarrow> string \<Rightarrow> string" where
  "write_at f p bytes =
     take p f @ replicate (p - length f) (CHR 0x00) @ bytes @ drop (p + length bytes) f"

text \<open>
  \<^verbatim>\<open>WriteAtomsInPlace\<close>: the atoms from \<open>input_start\<close> to \<open>input_end\<close> are written to a
  memory stream (\<^verbatim>\<open>CHECK_NE\<close> aborts the program at an atom of type "mdat"), read back
  from it as stream 1, and the atoms read are written at \<open>output_position\<close>.
  \<open>through_memory\<close> is the bytes that reach the output. The output is the file, stream
  0, whose failure state the reader and the writer share: after a failed read every
  write fails. The result is the file and the position of the writer.
\<close>

fun write_to_memory :: "nat set \<Rightarrow> atom list \<Rightarrow> FormatErrorCode + string" where
  "write_to_memory failed [] = Inr []"
| "write_to_memory failed (a # atoms) =
     (if atom_type a = kMdatType then Inl UNDEFINED_BEHAVIOR
      else (case WriteAtom failed a of Inl e \<Rightarrow> Inl e
            | Inr x \<Rightarrow>
                (case write_to_memory failed atoms of Inl e \<Rightarrow> Inl e
                 | Inr y \<Rightarrow> Inr (x @ y))))"

definition through_memory :: "nat set \<Rightarrow> atom list \<Rightarrow> FormatErrorCode + string" where
  "through_memory failed atoms =
     (case write_to_memory failed atoms of
        Inl e \<Rightarrow> Inl e
      | Inr content \<Rightarrow>
          (case ReadAtoms 1 content of
             (memory_atoms, err) \<Rightarrow>
               (if err = Some UNDEFINED_BEHAVIOR then Inl UNDEFINED_BEHAVIOR
                else if length memory_atoms \<noteq> length atoms then Inl UNEXPECTED_ERROR
                else if 0 \<in> failed then Inl FILE_WRITE_ERROR
                else WriteAtoms (failed \<union> failed_after 1 err) memory_atoms)))"

definition WriteAtomsInPlace ::
  "nat set \<Rightarrow> atom list \<Rightarrow> nat \<Rightarrow> nat \<Rightarrow> nat \<Rightarrow> string \<Rightarrow> FormatErrorCode + (string \<times> nat)" where
  "WriteAtomsInPlace failed input_atoms input_start input_end output_position f =
     (case through_memory failed
             (take (input_end - input_start) (drop input_start input_atoms)) of
        Inl e \<Rightarrow> Inl e
      | Inr bytes \<Rightarrow>
          Inr (write_at f output_position bytes, output_position + length bytes))"

text \<open>
  \<^verbatim>\<open>ModifyMoovInPlace\<close>, on the file \<open>f\<close>; the result is the file as the call leaves it.
  \<open>delta\<close> and \<open>free_space_after_moov\<close> are int64_t: their comparisons are signed, and
  \<^verbatim>\<open>WriteFreeSpace\<close> takes the low 32 bits of its argument. When moov precedes mdat,
  \<open>next\<close> is the atom after moov.
\<close>

definition smax :: "u64 \<Rightarrow> u64 \<Rightarrow> u64" where
  "smax a b = (if a <s b then b else a)"

definition ModifyMoovInPlace :: "MoovModifier \<Rightarrow> string \<Rightarrow> FormatErrorCode + string" where
  "ModifyMoovInPlace modifier f =
     (case ReadAtoms 0 f of
        (top_level_atoms, err) \<Rightarrow>
     (if err = Some UNDEFINED_BEHAVIOR then Inl UNDEFINED_BEHAVIOR else
      let failed = failed_after 0 err;
          moov_index = GetAtomIndex top_level_atoms kMoovType;
          mdat_index = GetAtomIndex top_level_atoms kMdatType
      in if moov_index = - 1 \<or> mdat_index = - 1 then Inl FILE_FORMAT_ERROR
         else
     (let size_before_update = length f;
          moov_position_before_update = unat (GetAtomPosition top_level_atoms kMoovType);
          moov_size_before_update = size_of (top_level_atoms ! nat moov_index)
      in case modifier (top_level_atoms ! nat moov_index) of Inl e \<Rightarrow> Inl e
         | Inr moov \<Rightarrow>
     (let atoms = top_level_atoms[nat moov_index := moov];
          moov_size_after_update = size_of moov;
          delta = moov_size_after_update - moov_size_before_update
      in if moov_index > mdat_index then
           (case WriteAtomsInPlace failed atoms (nat moov_index) (length atoms)
                   moov_position_before_update f of
              Inl e \<Rightarrow> Inl e
            | Inr (f1, p1) \<Rightarrow>
                (if delta <s 0
                 then Inr (write_at f1 p1
                             (WriteFreeSpace (ucast (smax (- delta) kFreeAtomHeaderSize))))
                 else Inr f1))
         else
     (let next = atoms ! (nat moov_index + 1);
          free_space_after_moov = (if atom_type next = kFreeType then size_of next else 0)
      in if delta = free_space_after_moov then
           (case WriteAtomsInPlace failed atoms (nat moov_index) (nat moov_index + 1)
                   moov_position_before_update f of
              Inl e \<Rightarrow> Inl e
            | Inr (f1, p1) \<Rightarrow> Inr f1)
         else if delta + kFreeAtomHeaderSize \<le>s free_space_after_moov then
           (case WriteAtomsInPlace failed atoms (nat moov_index) (nat moov_index + 1)
                   moov_position_before_update f of
              Inl e \<Rightarrow> Inl e
            | Inr (f1, p1) \<Rightarrow>
                Inr (write_at f1 p1 (WriteFreeSpace (ucast (free_space_after_moov - delta)))))
         else
           (case WriteAtomsInPlace failed atoms (nat moov_index) (nat moov_index + 1)
                   size_before_update f of
              Inl e \<Rightarrow> Inl e
            | Inr (f1, p1) \<Rightarrow>
                Inr (write_at f1 moov_position_before_update
                       (WriteFreeSpace (ucast moov_size_before_update)))))))))"

section \<open>ModifyMoovInPlace: the moov that no longer fits\<close>

lemma GetAtomIndex_range:
  "GetAtomIndex atoms t = i \<Longrightarrow> 0 \<le> i \<Longrightarrow>
     nat i < length atoms \<and> atom_type (atoms ! nat i) = t"
proof (induction atoms arbitrary: i)
  case Nil
  then show ?case by simp
next
  case (Cons a atoms)
  show ?case
  proof (cases "atom_type a = t")
    case True
    with Cons.prems show ?thesis by simp
  next
    case False
    define j where "j = GetAtomIndex atoms t"
    from False Cons.prems have i: "i = j + 1" and j: "j \<noteq> - 1"
      by (auto simp: j_def Let_def split: if_splits)
    with Cons.prems have j0: "0 \<le> j" by simp
    from Cons.IH [OF j_def [symmetric] j0] i j0 show ?thesis
      by (simp add: nat_add_distrib)
  qed
qed

lemma write_at_end: "write_at f (length f) bytes = f @ bytes"
  by (simp add: write_at_def)

lemma write_at_inside:
  "p + length bytes \<le> length f \<Longrightarrow>
     write_at (f @ tl2) p bytes = take p f @ bytes @ drop (p + length bytes) f @ tl2"
  by (simp add: write_at_def)

lemma length_WriteFreeSpace: "length (WriteFreeSpace sz) = 8"
  by (simp add: WriteFreeSpace_def kFreeType_def)

definition example_file :: string where
  "example_file = map char_of [0,0,0,8::nat] @ ''moov''
                @ map char_of [0,0,0,12::nat] @ ''mdat'' @ map char_of [1,2,3,4::nat]"

definition example_modifier :: MoovModifier where
  "example_modifier moov = Inr (AddChild (CreateAtom 8 0 ''free'') moov)"

lemma example_file_atoms:
  "ReadAtoms 0 example_file =
     ([Atom ''moov'' 8 0 [] False (Container AtomTRAK),
       Atom ''mdat'' 8 4 [] False (AtomDefault (Some (BinaryReader 0 example_file 16)))], None)"
  by code_simp

lemma example_through_memory:
  "through_memory {} [Atom ''moov'' 8 8 [Atom ''free'' 8 0 [] False (AtomDefault None)] False
                        (Container AtomTRAK)] =
     Inr (map char_of [0,0,0,16::nat] @ ''moov'' @ map char_of [0,0,0,8::nat] @ ''free'')"
  by code_simp

lemma example_modified:
  "example_modifier (Atom ''moov'' 8 0 [] False (Container AtomTRAK)) =
     Inr (Atom ''moov'' 8 8 [Atom ''free'' 8 0 [] False (AtomDefault None)] False
            (Container AtomTRAK))"
  by code_simp

text \<open>
  Claim C6. In ModifyMoovInPlace on a file that was read to its end, with moov before
  mdat: when the size change \<open>S1 - S0\<close> of the moov is neither the size \<open>F\<close> of the free
  atom that follows it (0 when none follows) nor at most \<open>F - 8\<close>, the moov, as the
  modifier left it and written through memory, is written at the end of the file, and
  the eight bytes at the position of the old moov are overwritten with the header of
  a free atom of size \<open>S0\<close> (its low 32 bits). No other byte of the file changes, so
  none of mdat, and no chunk offset is adjusted: the bytes appended are those of the
  modifier's moov. A failure of the write through memory is the result of the call.
\<close>

theorem C6_moov_moved_to_end_of_file:
  assumes parse: "ReadAtoms 0 f = (atoms, None)"
    and mi: "GetAtomIndex atoms kMoovType = mi"
    and di: "GetAtomIndex atoms kMdatType = di"
    and order: "0 \<le> mi" "mi < di"
    and modified: "modifier (atoms ! nat mi) = Inr moov'"
    and S0: "S0 = size_of (atoms ! nat mi)"
    and S1: "S1 = size_of moov'"
    and F: "F = (if atom_type (atoms ! (nat mi + 1)) = kFreeType
                 then size_of (atoms ! (nat mi + 1)) else 0)"
    and nofit: "S1 - S0 \<noteq> F" "\<not> S1 - S0 + 8 \<le>s F"
    and mp: "mp = unat (GetAtomPosition atoms kMoovType)"
  shows "ModifyMoovInPlace modifier f =
           (case through_memory {} [moov'] of
              Inl e \<Rightarrow> Inl e
            | Inr bytes \<Rightarrow> Inr (write_at (f @ bytes) mp (PutUInt32 (ucast S0) @ ''free'')))
         \<and> (\<forall>bytes. through_memory {} [moov'] = Inr bytes \<and> mp + 8 \<le> length f \<longrightarrow>
               ModifyMoovInPlace modifier f =
                 Inr (take mp f @ PutUInt32 (ucast S0) @ ''free'' @ drop (mp + 8) f @ bytes))"
proof -
  from GetAtomIndex_range [OF mi order(1)] have lt: "nat mi < length atoms" by simp
  have sel: "take (Suc 0) (drop (nat mi) (atoms[nat mi := moov'])) = [moov']"
    using lt by (simp add: take_Suc_conv_app_nth drop_update_cancel hd_drop_conv_nth
                      Cons_nth_drop_Suc [symmetric])
  have nxt: "atoms[nat mi := moov'] ! (nat mi + 1) = atoms ! (nat mi + 1)"
    by simp
  have idx: "\<not> (mi = - 1 \<or> di = - 1)" "\<not> di < mi"
    using order by auto
  have first: "ModifyMoovInPlace modifier f =
           (case through_memory {} [moov'] of
              Inl e \<Rightarrow> Inl e
            | Inr bytes \<Rightarrow> Inr (write_at (f @ bytes) mp (PutUInt32 (ucast S0) @ ''free'')))"
    using nofit idx unfolding F S0 S1 mp
    by (simp add: ModifyMoovInPlace_def parse mi di modified Let_def failed_after_def
          WriteAtomsInPlace_def sel nxt kFreeAtomHeaderSize_def write_at_end
          WriteFreeSpace_def kFreeType_def
          split: sum.splits if_splits)
  show ?thesis
  proof (intro conjI allI impI)
    show "ModifyMoovInPlace modifier f =
           (case through_memory {} [moov'] of
              Inl e \<Rightarrow> Inl e
            | Inr bytes \<Rightarrow> Inr (write_at (f @ bytes) mp (PutUInt32 (ucast S0) @ ''free'')))"
      by (rule first)
  next
    fix bytes
    assume h: "through_memory {} [moov'] = Inr bytes \<and> mp + 8 \<le> length f"
    then have "mp + length (PutUInt32 (ucast S0 :: u32) @ ''free'') \<le> length f"
      by (simp add: length_Put)
    from write_at_inside [OF this, of bytes] h first
    show "ModifyMoovInPlace modifier f =
            Inr (take mp f @ PutUInt32 (ucast S0) @ ''free'' @ drop (mp + 8) f @ bytes)"
      by (simp add: length_Put)
  qed
qed

theorem C6_witness:
  "ModifyMoovInPlace example_modifier example_file =
     Inr (map char_of [0,0,0,8::nat] @ ''free''
          @ map char_of [0,0,0,12::nat] @ ''mdat'' @ map char_of [1,2,3,4::nat]
          @ map char_of [0,0,0,16::nat] @ ''moov'' @ map char_of [0,0,0,8::nat] @ ''free'')"
proof -
  let ?moov = "Atom ''moov'' 8 0 [] False (Container AtomTRAK)"
  let ?mdat = "Atom ''mdat'' 8 4 [] False (AtomDefault (Some (BinaryReader 0 example_file 16)))"
  let ?moov' = "Atom ''moov'' 8 8 [Atom ''free'' 8 0 [] False (AtomDefault None)] False
                  (Container AtomTRAK)"
  have mi: "GetAtomIndex [?moov, ?mdat] kMoovType = 0"
    and di: "GetAtomIndex [?moov, ?mdat] kMdatType = 1"
    by (simp_all add: kMoovType_def kMdatType_def)
  have m: "example_modifier ([?moov, ?mdat] ! nat 0) = Inr ?moov'"
    using example_modified by simp
  have F: "(0 :: u64) = (if atom_type ([?moov, ?mdat] ! (nat 0 + 1)) = kFreeType
                 then size_of ([?moov, ?mdat] ! (nat 0 + 1)) else 0)"
    by (simp add: kFreeType_def)
  have S0: "(8 :: u64) = size_of ([?moov, ?mdat] ! nat 0)"
    and S1: "(16 :: u64) = size_of ?moov'"
    by (simp_all add: size_of_def)
  have n1: "(16 :: u64) - 8 \<noteq> 0" by simp
  have n2: "\<not> (16 :: u64) - 8 + 8 \<le>s 0" by (simp add: word_sle_eq)
  have mp: "(0 :: nat) = unat (GetAtomPosition [?moov, ?mdat] kMoovType)"
    by (simp add: kMoovType_def)
  have len: "0 + 8 \<le> length example_file" by (simp add: example_file_def)
  have "0 \<le> (0 :: int)" "(0 :: int) < 1" by simp_all
  from C6_moov_moved_to_end_of_file [where f = example_file and atoms = "[?moov, ?mdat]"
      and mi = 0 and di = 1 and modifier = example_modifier and moov' = ?moov'
      and ?S0.0 = 8 and ?S1.0 = 16 and F = 0 and mp = 0,
      OF example_file_atoms mi di this m S0 S1 F n1 n2 mp, THEN conjunct2]
    example_through_memory len
  show ?thesis
    by (simp add: example_file_def Put_simps)
qed

section \<open>ModifyMoov: chunk offsets and the promotion to co64\<close>

text \<open>
  A file with mdat first: a 12-byte mdat, then a moov of 60 bytes with one track whose
  stco has the single chunk offset \<open>0xFFFFFFF0\<close>.
\<close>

definition stco_box :: string where
  "stco_box = map char_of [0,0,0,20::nat] @ ''stco''
            @ map char_of [0,0,0,0, 0,0,0,1, 0xFF,0xFF,0xFF,0xF0::nat]"

definition mdat_first_file :: string where
  "mdat_first_file =
       map char_of [0,0,0,12::nat] @ ''mdat'' @ map char_of [1,2,3,4::nat]
     @ map char_of [0,0,0,60::nat] @ ''moov''
     @ map char_of [0,0,0,52::nat] @ ''trak''
     @ map char_of [0,0,0,44::nat] @ ''mdia''
     @ map char_of [0,0,0,36::nat] @ ''minf''
     @ map char_of [0,0,0,28::nat] @ ''stbl'' @ stco_box"

definition moov_rewritten :: string where
  "moov_rewritten =
       map char_of [0,0,0,64::nat] @ ''moov''
     @ map char_of [0,0,0,56::nat] @ ''trak''
     @ map char_of [0,0,0,48::nat] @ ''mdia''
     @ map char_of [0,0,0,40::nat] @ ''minf''
     @ map char_of [0,0,0,32::nat] @ ''stbl''
     @ map char_of [0,0,0,24::nat] @ ''co64''
     @ map char_of [0,0,0,0, 0,0,0,1::nat] @ PutUInt64 (0xFFFFFFF0 + 60)"

lemma ReadAtom_pos:
  assumes "0 < n"
  shows "ReadAtom n sid s initial_pos =
     (case ReadHeader s initial_pos of Inl e \<Rightarrow> Some (Inl e)
      | Inr ((hs, ds, t), p1) \<Rightarrow>
          (let atom_size = hs + ds;
               expected_pos = safe_convert_uint64_t_to_int64_t
                                (safe_add (word_of_nat initial_pos) atom_size)
           in case ReadDataWithoutChildren sid s p1 (CreateAtom hs ds t) of
                Inl e \<Rightarrow> Some (Inl e)
              | Inr (a1, p2) \<Rightarrow>
                  (case ReadChildAtoms (n - 1) sid s p2 0
                          (safe_sub (data_size a1) (GetDataSizeWithoutChildren a1)) a1 of
                     None \<Rightarrow> None
                   | Some (Inl e) \<Rightarrow> Some (Inl e)
                   | Some (Inr (a2, p3)) \<Rightarrow>
                       (if atom_size - word_of_nat p3 + word_of_nat initial_pos = 4 then
                          (case ReadUInt32 s p3 of
                             Inl e \<Rightarrow> Some (Inl FILE_UNEXPECTED_EOF)
                           | Inr (terminator, p4) \<Rightarrow>
                               (if word_of_nat p4 \<noteq> expected_pos then Some (Inl FILE_FORMAT_ERROR)
                                else Some (Inr (set_has_null_terminator True a2, p4))))
                        else if word_of_nat p3 \<noteq> expected_pos then Some (Inl FILE_FORMAT_ERROR)
                        else Some (Inr (a2, p3))))))"
proof -
  from assms obtain m where n: "n = Suc m" by (cases n) auto
  show ?thesis unfolding n diff_Suc_1 by (rule ReadAtom.simps(2))
qed

lemma ReadChildAtoms_pos:
  assumes "0 < n"
  shows "ReadChildAtoms n sid s p sum_sizes children_sz parent =
     (if sum_sizes + 8 \<le> children_sz then
        (case ReadAtom (n - 1) sid s p of
           None \<Rightarrow> None
         | Some (Inl e) \<Rightarrow> Some (Inl e)
         | Some (Inr (child, p1)) \<Rightarrow>
             ReadChildAtoms (n - 1) sid s p1 (sum_sizes + size_of child) children_sz
               (AddChild child parent))
      else Some (Inr (parent, p)))"
proof -
  from assms obtain m where n: "n = Suc m" by (cases n) auto
  show ?thesis unfolding n diff_Suc_1 by (rule ReadChildAtoms.simps(2))
qed

lemma ReadAtomsLoop_pos:
  assumes "0 < n"
  shows "ReadAtomsLoop n sid s p =
     (if p < length s then
        (case ReadAtom (n - 1) sid s p of
           None \<Rightarrow> None
         | Some (Inl e) \<Rightarrow> Some ([], Some e)
         | Some (Inr (a, p1)) \<Rightarrow>
             (case ReadAtomsLoop (n - 1) sid s p1 of
                None \<Rightarrow> None
              | Some (atoms, err) \<Rightarrow> Some (a # atoms, err)))
      else Some ([], None))"
proof -
  from assms obtain m where n: "n = Suc m" by (cases n) auto
  show ?thesis unfolding n diff_Suc_1 by (rule ReadAtomsLoop.simps(2))
qed

lemmas ReadAtom_simps =
  ReadAtom_pos ReadChildAtoms_pos ReadAtomsLoop_pos ReadHeader_def Read_simps Let_def
  safe_add_def safe_sub_def safe_convert_uint64_t_to_int64_t_def Seek_def
  ReadDataWithoutChildren_def CreateAtom_def new_Atom_def set_data_def with_data_def
  visual_sample_types_def

lemmas STCO_simps =
  ReadSTCO_def CheckNumberOfChunks_def read_chunk_offset_def kType32_def kType64_def
  max_element_def

definition mdat_first_atoms :: "atom list" where
  "mdat_first_atoms =
     [Atom ''mdat'' 8 4 [] False (AtomDefault (Some (BinaryReader 0 mdat_first_file 8))),
      Atom ''moov'' 8 52
        [Atom ''trak'' 8 44
          [Atom ''mdia'' 8 36
            [Atom ''minf'' 8 28
              [Atom ''stbl'' 8 20
                [Atom ''stco'' 8 12 [] False
                  (FullAtom 0 0 (AtomSTCO [0xFFFFFFF0] 0 0xFFFFFFF0))]
                False (Container AtomSTBL)]
              False (Container AtomMINF)]
            False (Container AtomMDIA)]
          False (Container AtomTRAK)]
        False (Container AtomTRAK)]"

lemma mdat_first_file_atoms: "ReadAtoms 0 mdat_first_file = (mdat_first_atoms, None)"
  unfolding mdat_first_atoms_def
  by (simp add: ReadAtoms_def ReadAtom_simps STCO_simps mdat_first_file_def stco_box_def
        AddChild_def AddChildAt_def UpdateSize_def ComputeHeaderSize_def children_size_def
        size_of_def NumChildren_def set_children_def)

definition mdat_first_result :: "atom list" where
  "mdat_first_result =
     [Atom ''moov'' 8 56
        [Atom ''trak'' 8 48
          [Atom ''mdia'' 8 40
            [Atom ''minf'' 8 32
              [Atom ''stbl'' 8 24
                [Atom ''co64'' 8 16 [] False
                  (FullAtom 0 0 (AtomSTCO [0xFFFFFFF0] 60 0xFFFFFFF0))]
                False (Container AtomSTBL)]
              False (Container AtomMINF)]
            False (Container AtomMDIA)]
          False (Container AtomTRAK)]
        False (Container AtomTRAK),
      Atom ''mdat'' 8 4 [] False (AtomDefault (Some (BinaryReader 0 mdat_first_file 8)))]"

lemma mdat_first_tree: "ModifyMoov_tree Inr mdat_first_atoms = Inr mdat_first_result"
  unfolding mdat_first_atoms_def mdat_first_result_def
  by (simp add: ModifyMoov_tree_def Let_def kMoovType_def kMdatType_def swap_atoms_def
        size_of_def AdjustTrackOffsets_def AdjustTrackOffsets_trak_def is_container_def
        is_AtomSTCO_def replace_child_def AdjustChunkOffsets_def ReviewAtomType_def
        UpdateSize_def ComputeHeaderSize_def children_size_def set_children_def set_data_def
        set_atom_type_def kType32_def kType64_def word_sless_alt)

lemma mdat_first_written:
  "WriteAtoms {} mdat_first_result = Inr (moov_rewritten @ take 12 mdat_first_file)"
  unfolding mdat_first_result_def moov_rewritten_def
  by (simp add: WriteAtoms_def WriteAtomHeader_def WriteDataWithoutChildren_def PutData_def
        WriteSTCO_def Put_simps Read_simps size_of_def kType32_def mdat_first_file_def
        stco_box_def)

text \<open>
  Claim C3 says that, when mdat ends up \<open>\<Delta>\<close> bytes from where it was, every chunk offset
  is written increased by \<open>\<Delta>\<close>. \<^verbatim>\<open>ModifyMoov\<close> computes the difference of the mdat
  positions before \<^verbatim>\<open>AdjustTrackOffsets\<close>; when the adjustment promotes an stco to co64,
  every entry of the table grows by four bytes and the moov with it, so mdat, which
  follows the moov, moves further than the offsets. On \<open>mdat_first_file\<close> with a modifier
  that changes nothing, mdat moves from position 0 to position 64, the length of the
  rewritten moov, and the chunk offset \<open>0xFFFFFFF0\<close> is written as \<open>0xFFFFFFF0 + 60\<close>.
\<close>

theorem C3_chunk_offset_lags_behind_mdat:
  "ReadAtoms 0 mdat_first_file = (mdat_first_atoms, None)
   \<and> GetAtomPosition mdat_first_atoms kMdatType = 0
   \<and> ModifyMoov Inr mdat_first_file = Inr (moov_rewritten @ take 12 mdat_first_file)
   \<and> length moov_rewritten = 64"
proof (intro conjI)
  show "ReadAtoms 0 mdat_first_file = (mdat_first_atoms, None)"
    by (rule mdat_first_file_atoms)
  show "GetAtomPosition mdat_first_atoms kMdatType = 0"
    by (simp add: mdat_first_atoms_def kMdatType_def)
  show "ModifyMoov Inr mdat_first_file = Inr (moov_rewritten @ take 12 mdat_first_file)"
    by (simp add: ModifyMoov_def mdat_first_file_atoms mdat_first_tree mdat_first_written
          failed_after_def)
  show "length moov_rewritten = 64"
    by (simp add: moov_rewritten_def length_Put)
qed

section \<open>Sensor fusion: vectors and filters\<close>

text \<open>
  The sensor fusion code computes with \<^verbatim>\<open>double\<close> and Eigen vectors. The model computes
  with real numbers: it follows the control flow and the formulas of the source, not
  the rounding of its arithmetic. Division by zero, which gives an infinity or a NaN
  in the source, is 0 here; the cutoff frequencies are taken to be positive.
\<close>

type_synonym Vector3d = "real \<times> real \<times> real"

definition Zero3 :: Vector3d where
  "Zero3 = (0, 0, 0)"

fun vadd :: "Vector3d \<Rightarrow> Vector3d \<Rightarrow> Vector3d" where
  "vadd (a, b, c) (x, y, z) = (a + x, b + y, c + z)"

fun vsub :: "Vector3d \<Rightarrow> Vector3d \<Rightarrow> Vector3d" where
  "vsub (a, b, c) (x, y, z) = (a - x, b - y, c - z)"

fun smul :: "real \<Rightarrow> Vector3d \<Rightarrow> Vector3d" where
  "smul k (x, y, z) = (k * x, k * y, k * z)"

fun norm3 :: "Vector3d \<Rightarrow> real" where
  "norm3 (x, y, z) = sqrt (x * x + y * y + z * z)"

subsection \<open>LowPassFilter (low_pass_filter.h)\<close>

record LowPassFilter =
  lp_cutoff_frequency :: real
  lp_is_initialized :: bool
  lp_n_samples :: int
  lp_n_static :: int
  lp_time_constant :: real
  lp_startup_time_s :: real
  lp_run_time_s :: real
  lp_filtered_data :: Vector3d
  lp_last_data :: Vector3d

definition new_LowPassFilter :: "real \<Rightarrow> LowPassFilter" where
  "new_LowPassFilter cutoff_frequency =
     \<lparr> lp_cutoff_frequency = cutoff_frequency,
       lp_is_initialized = False,
       lp_n_samples = 0,
       lp_n_static = 0,
       lp_time_constant = 1 / (2 * pi * cutoff_frequency),
       lp_startup_time_s = 1 / cutoff_frequency,
       lp_run_time_s = 0,
       lp_filtered_data = Zero3,
       lp_last_data = Zero3 \<rparr>"

definition lp_AddSampleData :: "Vector3d \<Rightarrow> real \<Rightarrow> LowPassFilter \<Rightarrow> LowPassFilter" where
  "lp_AddSampleData sample_data delta_t f =
     (if \<not> lp_is_initialized f then
        f \<lparr> lp_filtered_data := sample_data, lp_is_initialized := True \<rparr>
      else
        (let alpha = delta_t / (lp_time_constant f + delta_t)
         in f \<lparr> lp_run_time_s := lp_run_time_s f + delta_t,
                 lp_filtered_data :=
                   vadd (smul alpha sample_data) (smul (1 - alpha) (lp_filtered_data f)),
                 lp_n_samples := lp_n_samples f + 1,
                 lp_last_data := sample_data \<rparr>))"

definition lp_HasSettled :: "LowPassFilter \<Rightarrow> bool" where
  "lp_HasSettled f = (lp_is_initialized f \<and> lp_run_time_s f > lp_startup_time_s f)"

definition lp_GetFilteredDataNorm :: "LowPassFilter \<Rightarrow> real" where
  "lp_GetFilteredDataNorm f = norm3 (lp_filtered_data f)"

definition lp_Reset :: "LowPassFilter \<Rightarrow> LowPassFilter" where
  "lp_Reset f =
     f \<lparr> lp_is_initialized := False,
         lp_last_data := Zero3,
         lp_filtered_data := Zero3,
         lp_n_samples := 0,
         lp_n_static := 0,
         lp_run_time_s := 0 \<rparr>"

text \<open>\<^verbatim>\<open>SetCutoffFrequency\<close> leaves \<^verbatim>\<open>time_constant_\<close> as the constructor computed it.\<close>

definition lp_SetCutoffFrequency :: "real \<Rightarrow> LowPassFilter \<Rightarrow> LowPassFilter" where
  "lp_SetCutoffFrequency cutoff_frequency f =
     (lp_Reset f) \<lparr> lp_cutoff_frequency := cutoff_frequency,
                    lp_startup_time_s := 1 / cutoff_frequency \<rparr>"

subsection \<open>HighPassFilter (high_pass_filter.h)\<close>

record HighPassFilter =
  hp_cutoff_frequency :: real
  hp_is_initialized :: bool
  hp_time_constant :: real
  hp_filtered_data :: Vector3d
  hp_last_data :: Vector3d

definition new_HighPassFilter :: "real \<Rightarrow> HighPassFilter" where
  "new_HighPassFilter cutoff_frequency =
     \<lparr> hp_cutoff_frequency = cutoff_frequency,
       hp_is_initialized = False,
       hp_time_constant = 1 / (2 * pi * cutoff_frequency),
       hp_filtered_data = Zero3,
       hp_last_data = Zero3 \<rparr>"

text \<open>The first sample sets \<^verbatim>\<open>filtered_data_\<close> and leaves \<^verbatim>\<open>last_data_\<close> zero.\<close>

definition hp_AddSampleData :: "Vector3d \<Rightarrow> real \<Rightarrow> HighPassFilter \<Rightarrow> HighPassFilter" where
  "hp_AddSampleData sample_data delta_t f =
     (if \<not> hp_is_initialized f then
        f \<lparr> hp_filtered_data := sample_data, hp_is_initialized := True \<rparr>
      else
        (let alpha = delta_t / (hp_time_constant f + delta_t)
         in f \<lparr> hp_filtered_data :=
                   smul alpha (vadd (vsub sample_data (hp_last_data f)) (hp_filtered_data f)),
                 hp_last_data := sample_data \<rparr>))"

definition hp_GetFilteredDataNorm :: "HighPassFilter \<Rightarrow> real" where
  "hp_GetFilteredDataNorm f = norm3 (hp_filtered_data f)"

subsection \<open>DelayedLowPassFilter (delayed_low_pass_filter.h)\<close>

text \<open>
  The queue of samples is a list, front first. \<^verbatim>\<open>front()\<close> of an empty queue is
  undefined behaviour: \<open>None\<close>.
\<close>

record DelayedLowPassFilter =
  delay_time_s :: real
  buffer_accumulated_time_s :: real
  delay_buffer :: "(Vector3d \<times> real) list"
  low_pass_filter :: LowPassFilter

definition new_DelayedLowPassFilter :: "real \<Rightarrow> real \<Rightarrow> DelayedLowPassFilter" where
  "new_DelayedLowPassFilter delay low_pass_cutoff_frequency =
     \<lparr> delay_time_s = delay,
       buffer_accumulated_time_s = 0,
       delay_buffer = [],
       low_pass_filter = new_LowPassFilter low_pass_cutoff_frequency \<rparr>"

definition dlp_AddSampleData ::
  "Vector3d \<Rightarrow> real \<Rightarrow> DelayedLowPassFilter \<Rightarrow> DelayedLowPassFilter option" where
  "dlp_AddSampleData v delta_time_s f =
     (if buffer_accumulated_time_s f \<ge> delay_time_s f then
        (case delay_buffer f of
           [] \<Rightarrow> None
         | (sample_value, sample_delta_time_s) # rest \<Rightarrow>
             Some (f \<lparr> low_pass_filter :=
                         lp_AddSampleData sample_value sample_delta_time_s (low_pass_filter f),
                       delay_buffer := rest @ [(v, delta_time_s)],
                       buffer_accumulated_time_s :=
                         buffer_accumulated_time_s f - sample_delta_time_s + delta_time_s \<rparr>))
      else
        Some (f \<lparr> buffer_accumulated_time_s := buffer_accumulated_time_s f + delta_time_s,
                  delay_buffer := delay_buffer f @ [(v, delta_time_s)] \<rparr>))"

text \<open>\<^verbatim>\<open>GetFilteredData\<close>: the value when one is available (the \<^verbatim>\<open>bool\<close> result).\<close>

definition dlp_GetFilteredData :: "DelayedLowPassFilter \<Rightarrow> Vector3d option" where
  "dlp_GetFilteredData f =
     (if buffer_accumulated_time_s f < delay_time_s f \<or> \<not> lp_HasSettled (low_pass_filter f)
      then None else Some (lp_filtered_data (low_pass_filter f)))"

definition dlp_Reset :: "DelayedLowPassFilter \<Rightarrow> DelayedLowPassFilter" where
  "dlp_Reset f =
     f \<lparr> delay_buffer := [],
         buffer_accumulated_time_s := 0,
         low_pass_filter := lp_Reset (low_pass_filter f) \<rparr>"

definition dlp_SetCutoffFrequency :: "real \<Rightarrow> DelayedLowPassFilter \<Rightarrow> DelayedLowPassFilter" where
  "dlp_SetCutoffFrequency cutoff_frequency f =
     (let g = dlp_Reset f
      in g \<lparr> low_pass_filter := lp_SetCutoffFrequency cutoff_frequency (low_pass_filter g) \<rparr>)"

section \<open>StationaryDetector (stationary_detector.h, stationary_detector.cc)\<close>

record StationaryDetectorConfiguration =
  accel_low_pass_cutoff_frequency :: real
  gyro_low_pass_cutoff_frequency :: real
  accel_high_pass_cutoff_frequency :: real
  gyro_high_pass_cutoff_frequency :: real
  gyro_norm_threshold_rad_per_sec :: real
  accel_high_pass_threshold :: real
  gyro_high_pass_threshold :: real
  accel_low_pass_threshold :: real
  gyro_low_pass_threshold :: real
  max_stationary_gyro_bias_correction :: real
  gyro_correct_low_pass_cutoff_frequency :: real
  init_gyro_correct_low_pass_cutoff_frequency_hz :: real
  no_exit_condition_stable_secs :: real
  init_no_exit_condition_stable_secs :: real
  convergence_condition_stable_secs :: real
  gyro_correction_delay_secs :: real
  initialization_period :: real
  init_bias_correction_gain_multiplier :: real
  stationary_bias_correction_gain :: real

text \<open>The default member initialisers of the configuration.\<close>

definition default_configuration :: StationaryDetectorConfiguration where
  "default_configuration =
     \<lparr> accel_low_pass_cutoff_frequency = 1,
       gyro_low_pass_cutoff_frequency = 1,
       accel_high_pass_cutoff_frequency = 1,
       gyro_high_pass_cutoff_frequency = 1,
       gyro_norm_threshold_rad_per_sec = 15 / 100,
       accel_high_pass_threshold = 15 / 100,
       gyro_high_pass_threshold = 2 / 100,
       accel_low_pass_threshold = 25 / 10000,
       gyro_low_pass_threshold = 1 / 1000,
       max_stationary_gyro_bias_correction = 15 / 10000,
       gyro_correct_low_pass_cutoff_frequency = 5 / 100,
       init_gyro_correct_low_pass_cutoff_frequency_hz = 5 / 10,
       no_exit_condition_stable_secs = 10,
       init_no_exit_condition_stable_secs = 1,
       convergence_condition_stable_secs = 1 / 10,
       gyro_correction_delay_secs = 1,
       initialization_period = 7,
       init_bias_correction_gain_multiplier = 10,
       stationary_bias_correction_gain = 0 \<rparr>"

text \<open>\<^verbatim>\<open>ConditionTester\<close>: the counter \<^verbatim>\<open>n_static_\<close> is a double that only counts.\<close>

record ConditionTester =
  n_static :: nat
  static_start_timestamp_s :: real

definition new_ConditionTester :: ConditionTester where
  "new_ConditionTester = \<lparr> n_static = 0, static_start_timestamp_s = 0 \<rparr>"

definition IsStable :: "bool \<Rightarrow> real \<Rightarrow> real \<Rightarrow> ConditionTester \<Rightarrow> bool \<times> ConditionTester" where
  "IsStable condition timestamp_s number_of_secs c =
     (if condition then
        (let c1 = c \<lparr> n_static := n_static c + 1 \<rparr>;
             c2 = (if n_static c1 = 1 then c1 \<lparr> static_start_timestamp_s := timestamp_s \<rparr>
                   else c1)
         in (timestamp_s - static_start_timestamp_s c2 > number_of_secs, c2))
      else (False, new_ConditionTester))"

record StationaryDetector =
  config :: StationaryDetectorConfiguration
  accel_low_pass_filter :: LowPassFilter
  gyro_low_pass_filter :: LowPassFilter
  accel_high_pass_filter :: HighPassFilter
  gyro_high_pass_filter :: HighPassFilter
  gyro_bias_delayed_low_pass_filter :: DelayedLowPassFilter
  is_last_accel_initialized :: bool
  is_last_gyro_initialized :: bool
  is_stationary :: bool
  is_max_correction_threshold_crossed :: bool
  last_gyro_sample :: Vector3d
  last_gyro_timestamp :: real
  first_gyro_timestamp :: real
  last_accel_sample :: Vector3d
  last_accel_timestamp :: real
  has_gyro_bias_correction_converged :: bool
  exit_condition_tester :: ConditionTester
  convergence_condition_tester :: ConditionTester
  bias_correction_gain :: real

definition new_StationaryDetector :: "StationaryDetectorConfiguration \<Rightarrow> StationaryDetector" where
  "new_StationaryDetector cfg =
     \<lparr> config = cfg,
       accel_low_pass_filter = new_LowPassFilter (accel_low_pass_cutoff_frequency cfg),
       gyro_low_pass_filter = new_LowPassFilter (gyro_low_pass_cutoff_frequency cfg),
       accel_high_pass_filter = new_HighPassFilter (accel_high_pass_cutoff_frequency cfg),
       gyro_high_pass_filter = new_HighPassFilter (gyro_high_pass_cutoff_frequency cfg),
       gyro_bias_delayed_low_pass_filter =
         new_DelayedLowPassFilter (gyro_correction_delay_secs cfg)
           (init_gyro_correct_low_pass_cutoff_frequency_hz cfg),
       is_last_accel_initialized = False,
       is_last_gyro_initialized = False,
       is_stationary = False,
       is_max_correction_threshold_crossed = False,
       last_gyro_sample = Zero3,
       last_gyro_timestamp = 0,
       first_gyro_timestamp = 0,
       last_accel_sample = Zero3,
       last_accel_timestamp = 0,
       has_gyro_bias_correction_converged = False,
       exit_condition_tester = new_ConditionTester,
       convergence_condition_tester = new_ConditionTester,
       bias_correction_gain = stationary_bias_correction_gain cfg \<rparr>"

definition IsStationary :: "StationaryDetector \<Rightarrow> bool" where
  "IsStationary d = is_stationary d"

definition IsTimeDeltaBetweenSamplesValid :: "real \<Rightarrow> bool" where
  "IsTimeDeltaBetweenSamplesValid delta_t = (delta_t \<ge> 0)"

definition IsInitializing :: "StationaryDetector \<Rightarrow> bool" where
  "IsInitializing d =
     (last_gyro_timestamp d - first_gyro_timestamp d < initialization_period (config d))"

definition Reset :: "StationaryDetector \<Rightarrow> StationaryDetector" where
  "Reset d =
     (let f = dlp_Reset (gyro_bias_delayed_low_pass_filter d);
          f' = (if \<not> IsInitializing d
                then dlp_SetCutoffFrequency (gyro_correct_low_pass_cutoff_frequency (config d)) f
                else f)
      in d \<lparr> is_stationary := False,
             is_max_correction_threshold_crossed := False,
             has_gyro_bias_correction_converged := False,
             gyro_bias_delayed_low_pass_filter := f',
             convergence_condition_tester := new_ConditionTester,
             exit_condition_tester := new_ConditionTester \<rparr>)"

text \<open>
  The conditions that \<^verbatim>\<open>Update\<close> computes from the filters. \<^verbatim>\<open>last_gyro_sample_\<close> is,
  during the Update that a gyro sample causes, still the sample before it.
\<close>

definition filters_ready :: "StationaryDetector \<Rightarrow> bool" where
  "filters_ready d =
     (lp_HasSettled (gyro_low_pass_filter d) \<and> lp_HasSettled (accel_low_pass_filter d)
      \<and> hp_is_initialized (gyro_high_pass_filter d)
      \<and> hp_is_initialized (accel_high_pass_filter d))"

definition exit_condition :: "StationaryDetector \<Rightarrow> bool" where
  "exit_condition d =
     (\<bar>hp_GetFilteredDataNorm (accel_high_pass_filter d)\<bar> > accel_high_pass_threshold (config d)
      \<or> \<bar>hp_GetFilteredDataNorm (gyro_high_pass_filter d)\<bar> > gyro_high_pass_threshold (config d)
      \<or> norm3 (last_gyro_sample d) > gyro_norm_threshold_rad_per_sec (config d)
      \<or> is_max_correction_threshold_crossed d)"

definition entry_condition :: "StationaryDetector \<Rightarrow> bool" where
  "entry_condition d =
     (\<bar>lp_GetFilteredDataNorm (accel_low_pass_filter d)\<bar> < accel_low_pass_threshold (config d)
      \<and> \<bar>lp_GetFilteredDataNorm (gyro_low_pass_filter d)\<bar> < gyro_low_pass_threshold (config d))"

definition stability_secs :: "StationaryDetector \<Rightarrow> real" where
  "stability_secs d =
     (if IsInitializing d then init_no_exit_condition_stable_secs (config d)
      else no_exit_condition_stable_secs (config d))"

definition Update :: "real \<Rightarrow> StationaryDetector \<Rightarrow> StationaryDetector" where
  "Update timestamp_s d =
     (if \<not> filters_ready d then d
      else
        (case IsStable (\<not> exit_condition d) timestamp_s (stability_secs d)
                (exit_condition_tester d) of
           (no_exit_stable_condition, tester) \<Rightarrow>
             (let d1 = d \<lparr> exit_condition_tester := tester \<rparr>
              in if is_stationary d1 then
                   (if exit_condition d then Reset d1 else d1)
                 else if entry_condition d \<and> no_exit_stable_condition then
                   d1 \<lparr> is_stationary := True \<rparr>
                 else d1)))"

definition AddAccelMeasurement :: "Vector3d \<Rightarrow> real \<Rightarrow> StationaryDetector \<Rightarrow> StationaryDetector" where
  "AddAccelMeasurement accel_sample timestamp_s d =
     (let d1 = (if \<not> is_last_accel_initialized d
                then d \<lparr> last_accel_sample := accel_sample,
                         last_accel_timestamp := timestamp_s,
                         is_last_accel_initialized := True \<rparr>
                else d);
          delta_t = timestamp_s - last_accel_timestamp d1;
          delta_accel_sample = vsub accel_sample (last_accel_sample d1);
          d2 = (if IsTimeDeltaBetweenSamplesValid delta_t
                then d1 \<lparr> accel_low_pass_filter :=
                            lp_AddSampleData delta_accel_sample delta_t (accel_low_pass_filter d1),
                          accel_high_pass_filter :=
                            hp_AddSampleData accel_sample delta_t (accel_high_pass_filter d1) \<rparr>
                else d1)
      in d2 \<lparr> last_accel_timestamp := timestamp_s, last_accel_sample := accel_sample \<rparr>)"

definition AddGyroMeasurement ::
  "Vector3d \<Rightarrow> real \<Rightarrow> StationaryDetector \<Rightarrow> StationaryDetector option" where
  "AddGyroMeasurement gyro_sample timestamp_s d =
     (let d1 = (if \<not> is_last_gyro_initialized d
                then d \<lparr> last_gyro_sample := gyro_sample,
                         last_gyro_timestamp := timestamp_s,
                         first_gyro_timestamp := timestamp_s,
                         is_last_gyro_initialized := True \<rparr>
                else d);
          delta_t = timestamp_s - last_gyro_timestamp d1;
          delta_gyro_sample = vsub gyro_sample (last_gyro_sample d1)
      in if IsTimeDeltaBetweenSamplesValid delta_t then
           (let d2 = d1 \<lparr> gyro_low_pass_filter :=
                             lp_AddSampleData delta_gyro_sample delta_t (gyro_low_pass_filter d1),
                           gyro_high_pass_filter :=
                             hp_AddSampleData gyro_sample delta_t (gyro_high_pass_filter d1) \<rparr>
            in case (if is_stationary d2
                     then dlp_AddSampleData gyro_sample delta_t
                            (gyro_bias_delayed_low_pass_filter d2)
                     else Some (gyro_bias_delayed_low_pass_filter d2)) of
                 None \<Rightarrow> None
               | Some f \<Rightarrow>
                   Some ((Update timestamp_s (d2 \<lparr> gyro_bias_delayed_low_pass_filter := f \<rparr>))
                           \<lparr> last_gyro_timestamp := timestamp_s,
                             last_gyro_sample := gyro_sample \<rparr>))
         else Some (d1 \<lparr> last_gyro_timestamp := timestamp_s, last_gyro_sample := gyro_sample \<rparr>))"

text \<open>
  \<^verbatim>\<open>GetGyroBiasCorrection\<close>: the correction and the detector after the call. The results
  of \<^verbatim>\<open>cwiseMin\<close> and \<^verbatim>\<open>cwiseMax\<close> on the constant vector \<^verbatim>\<open>stationary_correction\<close> are
  new vectors that the source does not use: the vector that is multiplied by the gain
  is the difference itself.
\<close>

definition GetGyroBiasCorrection ::
  "Vector3d \<Rightarrow> real \<Rightarrow> StationaryDetector \<Rightarrow> Vector3d \<times> StationaryDetector" where
  "GetGyroBiasCorrection current_external_bias timestamp_s d =
     (case dlp_GetFilteredData (gyro_bias_delayed_low_pass_filter d) of
        None \<Rightarrow> (Zero3, d)
      | Some stationary_bias \<Rightarrow>
          (if \<not> is_stationary d then (Zero3, d)
           else
             (let stationary_correction = vsub current_external_bias stationary_bias
              in case IsStable
                        (norm3 stationary_correction
                           < max_stationary_gyro_bias_correction (config d))
                        timestamp_s (convergence_condition_stable_secs (config d))
                        (convergence_condition_tester d) of
                   (is_stable, tester) \<Rightarrow>
                     (let d1 = d \<lparr> convergence_condition_tester := tester \<rparr>;
                          d2 = (if is_stable
                                then d1 \<lparr> has_gyro_bias_correction_converged := True \<rparr>
                                else d1)
                      in if \<not> IsInitializing d2 \<and> has_gyro_bias_correction_converged d2
                            \<and> norm3 stationary_correction
                                 > max_stationary_gyro_bias_correction (config d2)
                         then (Zero3, d2 \<lparr> is_max_correction_threshold_crossed := True \<rparr>)
                         else
                           (let gain = (if IsInitializing d2
                                        then init_bias_correction_gain_multiplier (config d2)
                                               * bias_correction_gain d2
                                        else bias_correction_gain d2)
                            in (smul gain stationary_correction, d2))))))"

section \<open>Runs of the stationary detector\<close>

text \<open>
  The calls that change a detector, as events: \<^verbatim>\<open>AddAccelMeasurement\<close>,
  \<^verbatim>\<open>AddGyroMeasurement\<close> and \<^verbatim>\<open>GetGyroBiasCorrection\<close>. A run is a sequence of them.
\<close>

datatype event = Accel Vector3d real | Gyro Vector3d real | Bias Vector3d real

fun step :: "event \<Rightarrow> StationaryDetector \<Rightarrow> StationaryDetector option" where
  "step (Accel v t) d = Some (AddAccelMeasurement v t d)"
| "step (Gyro v t) d = AddGyroMeasurement v t d"
| "step (Bias b t) d = Some (snd (GetGyroBiasCorrection b t d))"

fun run :: "event list \<Rightarrow> StationaryDetector \<Rightarrow> StationaryDetector option" where
  "run [] d = Some d"
| "run (e # es) d = (case step e d of None \<Rightarrow> None | Some d' \<Rightarrow> run es d')"

text \<open>
  \<open>update_input e d\<close> is the detector on which the event \<open>e\<close> calls \<^verbatim>\<open>Update\<close>, with the
  filters ready, if it does: a gyro sample with a valid time difference, after the
  filters have taken the sample. \<open>updates es d\<close> lists, for the run \<open>es\<close> from \<open>d\<close>, the
  time and the exit condition of each such \<^verbatim>\<open>Update\<close>.
\<close>

fun update_input :: "event \<Rightarrow> StationaryDetector \<Rightarrow> StationaryDetector option" where
  "update_input (Gyro gyro_sample timestamp_s) d =
     (let d1 = (if \<not> is_last_gyro_initialized d
                then d \<lparr> last_gyro_sample := gyro_sample,
                         last_gyro_timestamp := timestamp_s,
                         first_gyro_timestamp := timestamp_s,
                         is_last_gyro_initialized := True \<rparr>
                else d);
          delta_t = timestamp_s - last_gyro_timestamp d1;
          delta_gyro_sample = vsub gyro_sample (last_gyro_sample d1)
      in if IsTimeDeltaBetweenSamplesValid delta_t then
           (let d2 = d1 \<lparr> gyro_low_pass_filter :=
                             lp_AddSampleData delta_gyro_sample delta_t (gyro_low_pass_filter d1),
                           gyro_high_pass_filter :=
                             hp_AddSampleData gyro_sample delta_t (gyro_high_pass_filter d1) \<rparr>
            in case (if is_stationary d2
                     then dlp_AddSampleData gyro_sample delta_t
                            (gyro_bias_delayed_low_pass_filter d2)
                     else Some (gyro_bias_delayed_low_pass_filter d2)) of
                 None \<Rightarrow> None
               | Some f \<Rightarrow>
                   (let d3 = d2 \<lparr> gyro_bias_delayed_low_pass_filter := f \<rparr>
                    in if filters_ready d3 then Some d3 else None))
         else None)"
| "update_input (Accel v t) d = None"
| "update_input (Bias b t) d = None"

fun event_time :: "event \<Rightarrow> real" where
  "event_time (Accel v t) = t"
| "event_time (Gyro v t) = t"
| "event_time (Bias b t) = t"

fun updates :: "event list \<Rightarrow> StationaryDetector \<Rightarrow> (real \<times> bool) list" where
  "updates [] d = []"
| "updates (e # es) d =
     (case update_input e d of
        None \<Rightarrow> []
      | Some d2 \<Rightarrow> [(event_time e, exit_condition d2)])
     @ (case step e d of None \<Rightarrow> [] | Some d' \<Rightarrow> updates es d')"

text \<open>The exit condition tester after a sequence of updates.\<close>

fun tester_after :: "ConditionTester \<Rightarrow> (real \<times> bool) list \<Rightarrow> ConditionTester" where
  "tester_after c [] = c"
| "tester_after c ((t, ex) # ups) = tester_after (snd (IsStable (\<not> ex) t 0 c)) ups"

lemma IsStable_state: "snd (IsStable b t secs c) = snd (IsStable b t 0 c)"
  by (simp add: IsStable_def Let_def)

lemma tester_after_append:
  "tester_after c (ups @ ups') = tester_after (tester_after c ups) ups'"
  by (induction ups arbitrary: c) auto

lemma Reset_tester: "exit_condition_tester (Reset d) = new_ConditionTester"
  by (simp add: Reset_def Let_def)

lemma Reset_not_stationary: "\<not> is_stationary (Reset d)"
  by (simp add: Reset_def Let_def)

lemma Update_not_ready:
  "\<not> filters_ready d \<Longrightarrow> Update t d = d"
  by (simp add: Update_def)

lemma Update_tester:
  "filters_ready d \<Longrightarrow>
     exit_condition_tester (Update t d) =
       snd (IsStable (\<not> exit_condition d) t 0 (exit_condition_tester d))"
  by (auto simp: Update_def IsStable_def Let_def Reset_tester split: prod.splits)

lemma Update_enters:
  "\<not> is_stationary d \<Longrightarrow> is_stationary (Update t d) \<Longrightarrow>
     filters_ready d \<and> entry_condition d
     \<and> fst (IsStable (\<not> exit_condition d) t (stability_secs d) (exit_condition_tester d))"
  by (auto simp: Update_def Let_def Reset_not_stationary split: prod.splits if_splits)

lemma step_update:
  assumes "update_input e d = Some d2"
  shows "\<exists>v t. e = Gyro v t \<and> filters_ready d2 \<and> is_stationary d2 = is_stationary d
           \<and> exit_condition_tester d2 = exit_condition_tester d
           \<and> step e d = Some ((Update t d2) \<lparr> last_gyro_timestamp := t, last_gyro_sample := v \<rparr>)"
proof (cases e)
  case (Gyro v t)
  with assms show ?thesis
    by (auto simp: AddGyroMeasurement_def Let_def split: if_splits option.splits)
qed (use assms in auto)

lemma AddAccelMeasurement_keeps:
  "exit_condition_tester (AddAccelMeasurement v t d) = exit_condition_tester d"
  "is_stationary (AddAccelMeasurement v t d) = is_stationary d"
  by (simp_all add: AddAccelMeasurement_def Let_def)

lemma GetGyroBiasCorrection_keeps:
  "exit_condition_tester (snd (GetGyroBiasCorrection b t d)) = exit_condition_tester d"
  "is_stationary (snd (GetGyroBiasCorrection b t d)) = is_stationary d"
  by (simp_all add: GetGyroBiasCorrection_def Let_def split: option.splits prod.splits)

lemma step_no_update:
  assumes "update_input e d = None" and "step e d = Some d'"
  shows "exit_condition_tester d' = exit_condition_tester d \<and> is_stationary d' = is_stationary d"
proof (cases e)
  case (Accel v t)
  with assms show ?thesis by (auto simp: AddAccelMeasurement_keeps)
next
  case (Gyro v t)
  with assms show ?thesis
    by (auto simp: AddGyroMeasurement_def Let_def Update_not_ready split: if_splits option.splits)
next
  case (Bias b t)
  with assms show ?thesis by (auto simp: GetGyroBiasCorrection_keeps)
qed

lemma run_append:
  "run (es @ es') d = (case run es d of None \<Rightarrow> None | Some d' \<Rightarrow> run es' d')"
  by (induction es arbitrary: d) (auto split: option.splits)

lemma updates_append:
  "run es d = Some d' \<Longrightarrow> updates (es @ es') d = updates es d @ updates es' d'"
  by (induction es arbitrary: d) (auto split: option.splits)

lemma run_tester:
  "run es d = Some d' \<Longrightarrow>
     exit_condition_tester d' = tester_after (exit_condition_tester d) (updates es d)"
proof (induction es arbitrary: d)
  case Nil
  then show ?case by simp
next
  case (Cons e es)
  from Cons.prems obtain d1 where s: "step e d = Some d1" and r: "run es d1 = Some d'"
    by (auto split: option.splits)
  show ?case
  proof (cases "update_input e d")
    case None
    from step_no_update [OF None s] Cons.IH [OF r] s None show ?thesis by simp
  next
    case (Some d2)
    from step_update [OF Some] s obtain v t where e: "e = Gyro v t"
      and ready: "filters_ready d2"
      and t2: "exit_condition_tester d2 = exit_condition_tester d"
      and d1: "d1 = (Update t d2) \<lparr> last_gyro_timestamp := t, last_gyro_sample := v \<rparr>"
      by auto
    have "exit_condition_tester d1 =
            snd (IsStable (\<not> exit_condition d2) t 0 (exit_condition_tester d))"
      using Update_tester [OF ready, of t] t2 d1 by simp
    with Cons.IH [OF r] s Some e show ?thesis by simp
  qed
qed

lemma tester_after_run:
  assumes "0 < n_static (tester_after new_ConditionTester ups)"
  shows "\<exists>pre r. ups = pre @ r \<and> r \<noteq> [] \<and> (\<forall>u \<in> set r. \<not> snd u)
           \<and> fst (hd r) = static_start_timestamp_s (tester_after new_ConditionTester ups)"
  using assms
proof (induction ups rule: rev_induct)
  case Nil
  then show ?case by (simp add: new_ConditionTester_def)
next
  case (snoc u ups)
  obtain t ex where u: "u = (t, ex)" by (cases u)
  let ?c = "tester_after new_ConditionTester ups"
  have after: "tester_after new_ConditionTester (ups @ [u]) = snd (IsStable (\<not> ex) t 0 ?c)"
    by (simp add: tester_after_append u)
  show ?case
  proof (cases ex)
    case True
    with snoc.prems after show ?thesis
      by (simp add: IsStable_def new_ConditionTester_def)
  next
    case False
    show ?thesis
    proof (cases "n_static ?c = 0")
      case True
      with False after
      have "static_start_timestamp_s (tester_after new_ConditionTester (ups @ [u])) = t"
        by (simp add: IsStable_def Let_def)
      with False u show ?thesis
        by (intro exI [of _ ups] exI [of _ "[u]"]) simp
    next
      case nz: False
      then have "0 < n_static ?c" by simp
      from snoc.IH [OF this] obtain pre r where r: "ups = pre @ r" "r \<noteq> []"
        "\<forall>u \<in> set r. \<not> snd u" "fst (hd r) = static_start_timestamp_s ?c"
        by blast
      from nz False after
      have "static_start_timestamp_s (tester_after new_ConditionTester (ups @ [u])) =
              static_start_timestamp_s ?c"
        by (simp add: IsStable_def Let_def)
      with r False u show ?thesis
        by (intro exI [of _ pre] exI [of _ "r @ [u]"]) simp
    qed
  qed
qed

lemma IsStable_true:
  assumes "fst (IsStable b t secs c)"
  shows "b \<and> 0 < n_static (snd (IsStable b t 0 c))
         \<and> t - static_start_timestamp_s (snd (IsStable b t 0 c)) > secs"
  using assms by (auto simp: IsStable_def Let_def split: if_splits)

text \<open>
  Claim C7, amended. A detector starts non-stationary. In a run from a new detector,
  when a call makes the detector stationary, the call is a gyro sample whose
  \<^verbatim>\<open>Update\<close> finds the entry condition true, and the updates of the run end with a
  sequence of updates, this one the last, that all found the exit condition false and
  the first of which is more than the dwell before this one. The dwell is the one of
  this update: \<open>init_no_exit_condition_stable_secs\<close> while the detector is initializing,
  \<open>no_exit_condition_stable_secs\<close> after. The entry condition is asked for at this update
  only.
\<close>

theorem C7_stationary_after_exit_free_dwell:
  assumes "run es (new_StationaryDetector cfg) = Some d"
    and "step e d = Some d'"
    and "\<not> IsStationary d"
    and "IsStationary d'"
  shows "\<not> IsStationary (new_StationaryDetector cfg)
         \<and> (\<exists>d2. update_input e d = Some d2 \<and> entry_condition d2
               \<and> (\<exists>pre r. updates (es @ [e]) (new_StationaryDetector cfg) = pre @ r
                      \<and> r \<noteq> [] \<and> (\<forall>u \<in> set r. \<not> snd u)
                      \<and> event_time e - fst (hd r) > stability_secs d2))"
proof
  show "\<not> IsStationary (new_StationaryDetector cfg)"
    by (simp add: IsStationary_def new_StationaryDetector_def)
next
  let ?d0 = "new_StationaryDetector cfg"
  from assms(3,4) have ns: "\<not> is_stationary d" and st: "is_stationary d'"
    by (simp_all add: IsStationary_def)
  show "\<exists>d2. update_input e d = Some d2 \<and> entry_condition d2
               \<and> (\<exists>pre r. updates (es @ [e]) ?d0 = pre @ r
                      \<and> r \<noteq> [] \<and> (\<forall>u \<in> set r. \<not> snd u)
                      \<and> event_time e - fst (hd r) > stability_secs d2)"
  proof (cases "update_input e d")
    case None
    from step_no_update [OF None assms(2)] ns st show ?thesis by simp
  next
    case (Some d2)
    from step_update [OF Some] assms(2) obtain v t where e: "e = Gyro v t"
      and s2: "is_stationary d2 = is_stationary d"
      and t2: "exit_condition_tester d2 = exit_condition_tester d"
      and d': "d' = (Update t d2) \<lparr> last_gyro_timestamp := t, last_gyro_sample := v \<rparr>"
      by auto
    from d' st have "is_stationary (Update t d2)" by simp
    with Update_enters [of d2 t] s2 ns have entry: "entry_condition d2"
      and stable: "fst (IsStable (\<not> exit_condition d2) t (stability_secs d2)
                          (exit_condition_tester d2))"
      by simp_all
    let ?c = "tester_after new_ConditionTester (updates es ?d0)"
    have c: "exit_condition_tester d2 = ?c"
      using run_tester [OF assms(1)] t2 by (simp add: new_StationaryDetector_def)
    let ?c2 = "snd (IsStable (\<not> exit_condition d2) t 0 ?c)"
    from IsStable_true [OF stable] c have nex: "\<not> exit_condition d2"
      and pos: "0 < n_static ?c2"
      and dwell: "t - static_start_timestamp_s ?c2 > stability_secs d2"
      by auto
    have "updates (es @ [e]) ?d0 = updates es ?d0 @ [(event_time e, exit_condition d2)]"
      using updates_append [OF assms(1), of "[e]"] Some assms(2) by simp
    then have ups: "updates (es @ [e]) ?d0 = updates es ?d0 @ [(t, exit_condition d2)]"
      by (simp add: e)
    have after: "tester_after new_ConditionTester (updates (es @ [e]) ?d0) = ?c2"
      by (simp add: ups tester_after_append)
    from tester_after_run [of "updates (es @ [e]) ?d0"] pos after
    obtain pre r where r: "updates (es @ [e]) ?d0 = pre @ r" "r \<noteq> []"
      "\<forall>u \<in> set r. \<not> snd u" "fst (hd r) = static_start_timestamp_s ?c2"
      by auto
    from dwell r(4) e have "event_time e - fst (hd r) > stability_secs d2"
      by simp
    with r(1,2,3) have "\<exists>pre r. updates (es @ [e]) ?d0 = pre @ r
                      \<and> r \<noteq> [] \<and> (\<forall>u \<in> set r. \<not> snd u)
                      \<and> event_time e - fst (hd r) > stability_secs d2"
      by blast
    with Some entry show ?thesis by blast
  qed
qed

section \<open>A run that enters the stationary state\<close>

text \<open>
  The default configuration with the cutoff frequencies \<open>1 / (2 * pi)\<close>, which make the
  time constants of the filters 1 s, and the gain 1 of the tests.
\<close>

definition slow_configuration :: StationaryDetectorConfiguration where
  "slow_configuration =
     default_configuration
       \<lparr> accel_low_pass_cutoff_frequency := 1 / (2 * pi),
         gyro_low_pass_cutoff_frequency := 1 / (2 * pi),
         accel_high_pass_cutoff_frequency := 1 / (2 * pi),
         gyro_high_pass_cutoff_frequency := 1 / (2 * pi),
         gyro_correct_low_pass_cutoff_frequency := 1 / (2 * pi),
         init_gyro_correct_low_pass_cutoff_frequency_hz := 1 / (2 * pi),
         stationary_bias_correction_gain := 1 \<rparr>"

text \<open>
  Samples every 4 s. The accelerometer reads gravity throughout, from time 0. The
  gyroscope starts at time 80; its rate grows by 0.002 rad/s from sample to sample
  until time 96 and falls by 0.0005 at time 100.
\<close>

definition gravity :: Vector3d where
  "gravity = (0, 0, 98 / 10)"

definition warm_up :: "event list" where
  "warm_up = map (\<lambda>k. Accel gravity (4 * real k)) [0 ..< 20]"

definition samples_until_96 :: "event list" where
  "samples_until_96 =
     warm_up @
     [Accel gravity 80, Gyro (0, 0, 0) 80,
      Accel gravity 84, Gyro (2 / 1000, 0, 0) 84,
      Accel gravity 88, Gyro (4 / 1000, 0, 0) 88,
      Accel gravity 92, Gyro (6 / 1000, 0, 0) 92,
      Accel gravity 96, Gyro (8 / 1000, 0, 0) 96]"

definition samples_until_100 :: "event list" where
  "samples_until_100 = samples_until_96 @ [Accel gravity 100, Gyro (75 / 10000, 0, 0) 100]"

lemma norm3_axis: "norm3 (x, 0, 0) = \<bar>x\<bar>" "norm3 (0, 0, z) = \<bar>z\<bar>"
  by simp_all

lemma two_pi_bounds:
  "r \<le> 4 \<Longrightarrow> \<not> 2 * pi < r" "8 \<le> r \<Longrightarrow> 2 * pi < r"
  "r \<le> 4 \<Longrightarrow> \<not> pi * 2 < r" "8 \<le> r \<Longrightarrow> pi * 2 < r"
  using pi_ge_two pi_less_4 by auto

lemmas detector_simps =
  new_StationaryDetector_def slow_configuration_def default_configuration_def
  new_LowPassFilter_def new_HighPassFilter_def new_DelayedLowPassFilter_def
  new_ConditionTester_def AddAccelMeasurement_def AddGyroMeasurement_def Update_def
  IsStable_def filters_ready_def exit_condition_def entry_condition_def stability_secs_def
  IsInitializing_def IsTimeDeltaBetweenSamplesValid_def lp_AddSampleData_def
  hp_AddSampleData_def lp_HasSettled_def lp_GetFilteredDataNorm_def
  hp_GetFilteredDataNorm_def dlp_AddSampleData_def Zero3_def Let_def
  norm3_axis two_pi_bounds gravity_def warm_up_def samples_until_96_def samples_until_100_def
  upt_rec [of _ "numeral n" for n] IsStationary_def

text \<open>
  Claim C7 says that the detector becomes stationary only at an update before which the
  entry condition has held for the dwell, 10 s here: the gyroscope started at time 80,
  so initialization is over at the updates after time 88. In this run the detector is
  not stationary after the sample of time 96, whose update found the entry condition
  false (the norm of the low-passed gyroscope differences is 0.0019968, not below
  0.001), and it is stationary after the next sample, 4 s later. What has lasted for
  more than the dwell is the absence of the exit condition, since the update of time 88.
\<close>

theorem C7_counterexample:
  "map_option IsStationary (run samples_until_96 (new_StationaryDetector slow_configuration))
     = Some False
   \<and> map_option entry_condition
         (run samples_until_96 (new_StationaryDetector slow_configuration)) = Some False
   \<and> map_option IsStationary
         (run samples_until_100 (new_StationaryDetector slow_configuration)) = Some True
   \<and> no_exit_condition_stable_secs slow_configuration = 10"
  by (simp add: detector_simps del: norm3.simps)

theorem C7_witness:
  "\<not> IsStationary (new_StationaryDetector slow_configuration)
   \<and> (\<exists>pre r. updates samples_until_100 (new_StationaryDetector slow_configuration) = pre @ r
         \<and> r \<noteq> [] \<and> (\<forall>u \<in> set r. \<not> snd u) \<and> 100 - fst (hd r) > 10)"
proof -
  let ?es = "samples_until_96 @ [Accel gravity 100]"
  let ?e = "Gyro (75 / 10000, 0, 0) 100"
  let ?d0 = "new_StationaryDetector slow_configuration"
  have "\<exists>d d'. run ?es ?d0 = Some d \<and> step ?e d = Some d'
          \<and> \<not> IsStationary d \<and> IsStationary d'
          \<and> (\<forall>d2. update_input ?e d = Some d2 \<longrightarrow> stability_secs d2 = 10)"
    by (simp add: detector_simps del: norm3.simps)
  then obtain d d' where h: "run ?es ?d0 = Some d" "step ?e d = Some d'"
    "\<not> IsStationary d" "IsStationary d'"
    and secs: "\<forall>d2. update_input ?e d = Some d2 \<longrightarrow> stability_secs d2 = 10"
    by blast
  have es: "?es @ [?e] = samples_until_100"
    by (simp add: samples_until_100_def)
  from C7_stationary_after_exit_free_dwell [OF h]
  obtain d2 pre r where start: "\<not> IsStationary ?d0"
    and d2: "update_input ?e d = Some d2"
    and r: "updates (?es @ [?e]) ?d0 = pre @ r" "r \<noteq> []" "\<forall>u \<in> set r. \<not> snd u"
    and dwell: "event_time ?e - fst (hd r) > stability_secs d2"
    by blast
  from secs d2 have "stability_secs d2 = 10" by blast
  with dwell have "100 - fst (hd r) > 10" by simp
  with r start show ?thesis unfolding es by blast
qed

section \<open>GetGyroBiasCorrection\<close>

text \<open>
  The run continues with the gyroscope at rest: the delayed low-pass filter fills and
  settles, and two calls of \<^verbatim>\<open>GetGyroBiasCorrection\<close> with the bias the filter holds make
  the correction converge.
\<close>

definition samples_until_117 :: "event list" where
  "samples_until_117 =
     samples_until_100 @
     [Accel gravity 104, Gyro (75 / 10000, 0, 0) 104,
      Accel gravity 108, Gyro (75 / 10000, 0, 0) 108,
      Accel gravity 112, Gyro (75 / 10000, 0, 0) 112,
      Accel gravity 116, Gyro (75 / 10000, 0, 0) 116,
      Bias (75 / 10000, 0, 0) 116,
      Bias (75 / 10000, 0, 0) 117]"

text \<open>
  What claim C2 states, as a function of the detector and the external bias: zero unless
  the detector is stationary and the delayed low-pass filter has a bias; otherwise the
  gain times the difference, each component clamped to the maximal correction once
  past initialization.
\<close>

definition clamp_component :: "real \<Rightarrow> real \<Rightarrow> real" where
  "clamp_component m x = max (- m) (min m x)"

fun clamp3 :: "real \<Rightarrow> Vector3d \<Rightarrow> Vector3d" where
  "clamp3 m (x, y, z) = (clamp_component m x, clamp_component m y, clamp_component m z)"

definition claimed_correction :: "Vector3d \<Rightarrow> StationaryDetector \<Rightarrow> Vector3d" where
  "claimed_correction ext_bias d =
     (case dlp_GetFilteredData (gyro_bias_delayed_low_pass_filter d) of
        None \<Rightarrow> Zero3
      | Some stationary_bias \<Rightarrow>
          (if \<not> is_stationary d then Zero3
           else if IsInitializing d
           then smul (bias_correction_gain d) (vsub ext_bias stationary_bias)
           else clamp3 (max_stationary_gyro_bias_correction (config d))
                  (smul (bias_correction_gain d) (vsub ext_bias stationary_bias))))"

text \<open>The correction that a call returns after a run, and the one claimed.\<close>

definition correction_after ::
  "event list \<Rightarrow> StationaryDetector \<Rightarrow> Vector3d \<Rightarrow> real \<Rightarrow> Vector3d option" where
  "correction_after es d0 ext_bias t =
     (case run es d0 of None \<Rightarrow> None
      | Some d \<Rightarrow> Some (fst (GetGyroBiasCorrection ext_bias t d)))"

definition claimed_after ::
  "event list \<Rightarrow> StationaryDetector \<Rightarrow> Vector3d \<Rightarrow> Vector3d option" where
  "claimed_after es d0 ext_bias =
     (case run es d0 of None \<Rightarrow> None | Some d \<Rightarrow> Some (claimed_correction ext_bias d))"

lemmas correction_simps =
  detector_simps samples_until_117_def GetGyroBiasCorrection_def dlp_GetFilteredData_def
  correction_after_def claimed_after_def claimed_correction_def clamp_component_def

text \<open>
  Claim C2 on the run above, past initialization and after convergence, with an
  external bias 1 rad/s from the stationary bias: the claimed correction is the
  maximal correction 0.0015 (gain 1), the source returns zero, because the correction
  has left the bound after it had converged.
\<close>

theorem C2_counterexample:
  "correction_after samples_until_117 (new_StationaryDetector slow_configuration)
     (10075 / 10000, 0, 0) 118 = Some (0, 0, 0)
   \<and> claimed_after samples_until_117 (new_StationaryDetector slow_configuration)
       (10075 / 10000, 0, 0) = Some (15 / 10000, 0, 0)"
  by (simp add: correction_simps del: norm3.simps)

lemma component_le_norm3:
  "\<bar>x\<bar> \<le> norm3 (x, y, z)" "\<bar>y\<bar> \<le> norm3 (x, y, z)" "\<bar>z\<bar> \<le> norm3 (x, y, z)"
proof -
  have "x * x \<le> x * x + y * y + z * z" "y * y \<le> x * x + y * y + z * z"
    "z * z \<le> x * x + y * y + z * z"
    by (simp_all add: add_nonneg_nonneg)
  then have "sqrt (x * x) \<le> norm3 (x, y, z)" "sqrt (y * y) \<le> norm3 (x, y, z)"
    "sqrt (z * z) \<le> norm3 (x, y, z)"
    by (simp_all only: norm3.simps real_sqrt_le_iff)
  then show "\<bar>x\<bar> \<le> norm3 (x, y, z)" "\<bar>y\<bar> \<le> norm3 (x, y, z)" "\<bar>z\<bar> \<le> norm3 (x, y, z)"
    by simp_all
qed

lemma clamp3_within: "norm3 c \<le> m \<Longrightarrow> clamp3 m c = c"
proof -
  assume h: "norm3 c \<le> m"
  obtain x y z where c: "c = (x, y, z)" by (cases c) auto
  from h component_le_norm3 [where x = x and y = y and z = z] c have "\<bar>x\<bar> \<le> m" "\<bar>y\<bar> \<le> m" "\<bar>z\<bar> \<le> m"
    by simp_all
  then show ?thesis
    by (auto simp: c clamp_component_def)
qed

lemma IsInitializing_convergence:
  "IsInitializing (d \<lparr> convergence_condition_tester := c \<rparr>) = IsInitializing d"
  "IsInitializing (d \<lparr> has_gyro_bias_correction_converged := b \<rparr>) = IsInitializing d"
  by (simp_all add: IsInitializing_def)

text \<open>
  Claim C2, amended. The correction is zero when the detector is not stationary or the
  delayed low-pass filter has no bias. Otherwise, with \<open>c\<close> the external bias minus the
  stationary bias and \<open>m\<close> the maximal correction: past initialization, when the
  correction has converged (before the call or in it) and the norm of \<open>c\<close> is above \<open>m\<close>,
  the correction is zero and the detector records that the threshold was crossed;
  during initialization it is \<open>c\<close> times the gain times the initialization multiplier;
  past initialization, when the norm of \<open>c\<close> is at most \<open>m\<close>, it is the gain times \<open>c\<close>,
  and clamping the components of \<open>c\<close> to \<open>m\<close> changes nothing. (Nothing is said of an
  unconverged correction above \<open>m\<close> past initialization.)
\<close>

theorem C2_gyro_bias_correction:
  "(\<not> is_stationary d \<or> dlp_GetFilteredData (gyro_bias_delayed_low_pass_filter d) = None
      \<longrightarrow> fst (GetGyroBiasCorrection ext_bias t d) = Zero3)
   \<and> (is_stationary d
        \<and> dlp_GetFilteredData (gyro_bias_delayed_low_pass_filter d) = Some stationary_bias
        \<and> c = vsub ext_bias stationary_bias
        \<and> m = max_stationary_gyro_bias_correction (config d)
        \<and> converged =
             (has_gyro_bias_correction_converged d
              \<or> fst (IsStable (norm3 c < m) t (convergence_condition_stable_secs (config d))
                       (convergence_condition_tester d)))
      \<longrightarrow> (\<not> IsInitializing d \<and> converged \<and> norm3 c > m
             \<longrightarrow> fst (GetGyroBiasCorrection ext_bias t d) = Zero3
                 \<and> is_max_correction_threshold_crossed
                       (snd (GetGyroBiasCorrection ext_bias t d)))
          \<and> (IsInitializing d
             \<longrightarrow> fst (GetGyroBiasCorrection ext_bias t d) =
                   smul (init_bias_correction_gain_multiplier (config d)
                           * bias_correction_gain d) c)
          \<and> (\<not> IsInitializing d \<and> norm3 c \<le> m
             \<longrightarrow> fst (GetGyroBiasCorrection ext_bias t d) = smul (bias_correction_gain d) c
                 \<and> clamp3 m c = c))"
proof (intro conjI impI)
  assume "\<not> is_stationary d
          \<or> dlp_GetFilteredData (gyro_bias_delayed_low_pass_filter d) = None"
  then show "fst (GetGyroBiasCorrection ext_bias t d) = Zero3"
    by (auto simp: GetGyroBiasCorrection_def split: option.splits)
next
  assume h: "is_stationary d
        \<and> dlp_GetFilteredData (gyro_bias_delayed_low_pass_filter d) = Some stationary_bias
        \<and> c = vsub ext_bias stationary_bias
        \<and> m = max_stationary_gyro_bias_correction (config d)
        \<and> converged =
             (has_gyro_bias_correction_converged d
              \<or> fst (IsStable (norm3 c < m) t (convergence_condition_stable_secs (config d))
                       (convergence_condition_tester d)))"
    and b: "\<not> IsInitializing d \<and> converged \<and> norm3 c > m"
  then show "fst (GetGyroBiasCorrection ext_bias t d) = Zero3"
    and "is_max_correction_threshold_crossed (snd (GetGyroBiasCorrection ext_bias t d))"
    by (auto simp: GetGyroBiasCorrection_def Let_def IsInitializing_convergence
             split: prod.splits)
next
  assume h: "is_stationary d
        \<and> dlp_GetFilteredData (gyro_bias_delayed_low_pass_filter d) = Some stationary_bias
        \<and> c = vsub ext_bias stationary_bias
        \<and> m = max_stationary_gyro_bias_correction (config d)
        \<and> converged =
             (has_gyro_bias_correction_converged d
              \<or> fst (IsStable (norm3 c < m) t (convergence_condition_stable_secs (config d))
                       (convergence_condition_tester d)))"
    and b: "IsInitializing d"
  then show "fst (GetGyroBiasCorrection ext_bias t d) =
               smul (init_bias_correction_gain_multiplier (config d)
                       * bias_correction_gain d) c"
    by (auto simp: GetGyroBiasCorrection_def Let_def IsInitializing_convergence
             split: prod.splits)
next
  assume h: "is_stationary d
        \<and> dlp_GetFilteredData (gyro_bias_delayed_low_pass_filter d) = Some stationary_bias
        \<and> c = vsub ext_bias stationary_bias
        \<and> m = max_stationary_gyro_bias_correction (config d)
        \<and> converged =
             (has_gyro_bias_correction_converged d
              \<or> fst (IsStable (norm3 c < m) t (convergence_condition_stable_secs (config d))
                       (convergence_condition_tester d)))"
    and b: "\<not> IsInitializing d \<and> norm3 c \<le> m"
  then show "fst (GetGyroBiasCorrection ext_bias t d) = smul (bias_correction_gain d) c"
    by (auto simp: GetGyroBiasCorrection_def Let_def IsInitializing_convergence
             split: prod.splits)
  from b show "clamp3 m c = c"
    by (simp add: clamp3_within)
qed

theorem C2_witness:
  "fst (GetGyroBiasCorrection (1, 0, 0) 0 (new_StationaryDetector slow_configuration)) = Zero3
   \<and> correction_after samples_until_117 (new_StationaryDetector slow_configuration)
         (10075 / 10000, 0, 0) 118 = Some Zero3
   \<and> correction_after samples_until_117 (new_StationaryDetector slow_configuration)
         (85 / 10000, 0, 0) 118 = Some (1 / 1000, 0, 0)
   \<and> (\<exists>d. run samples_until_117 (new_StationaryDetector slow_configuration) = Some d
          \<and> fst (GetGyroBiasCorrection (85 / 10000, 0, 0) 118
                   (d \<lparr> first_gyro_timestamp := 115 \<rparr>)) = (1 / 100, 0, 0))"
proof -
  let ?d0 = "new_StationaryDetector slow_configuration"
  let ?sb = "(75 / 10000, 0, 0) :: Vector3d"
  let ?far = "(10075 / 10000, 0, 0) :: Vector3d"
  let ?near = "(85 / 10000, 0, 0) :: Vector3d"
  let ?m = "15 / 10000 :: real"
  have "\<not> is_stationary ?d0"
    by (simp add: new_StationaryDetector_def)
  with C2_gyro_bias_correction [of ?d0 "(1, 0, 0)" 0]
  have first: "fst (GetGyroBiasCorrection (1, 0, 0) 0 ?d0) = Zero3"
    by blast
  have "\<exists>d. run samples_until_117 ?d0 = Some d \<and> is_stationary d
          \<and> dlp_GetFilteredData (gyro_bias_delayed_low_pass_filter d) = Some ?sb
          \<and> max_stationary_gyro_bias_correction (config d) = ?m
          \<and> \<not> IsInitializing d \<and> has_gyro_bias_correction_converged d
          \<and> bias_correction_gain d = 1
          \<and> init_bias_correction_gain_multiplier (config d) = 10
          \<and> last_gyro_timestamp d = 116 \<and> initialization_period (config d) = 7"
    by (simp add: correction_simps del: norm3.simps)
  then obtain d where d: "run samples_until_117 ?d0 = Some d" "is_stationary d"
    "dlp_GetFilteredData (gyro_bias_delayed_low_pass_filter d) = Some ?sb"
    "max_stationary_gyro_bias_correction (config d) = ?m"
    "\<not> IsInitializing d" "has_gyro_bias_correction_converged d"
    "bias_correction_gain d = 1" "init_bias_correction_gain_multiplier (config d) = 10"
    "last_gyro_timestamp d = 116" "initialization_period (config d) = 7"
    by blast
  have far: "vsub ?far ?sb = (1, 0, 0)" and near: "vsub ?near ?sb = (1 / 1000, 0, 0)"
    by simp_all
  from C2_gyro_bias_correction [of d ?far 118 ?sb "(1, 0, 0)" ?m True] d far
  have second: "fst (GetGyroBiasCorrection ?far 118 d) = Zero3"
    by (simp add: norm3_axis del: norm3.simps)
  from C2_gyro_bias_correction [of d ?near 118 ?sb "(1 / 1000, 0, 0)" ?m True] d near
  have third: "fst (GetGyroBiasCorrection ?near 118 d) = (1 / 1000, 0, 0)"
    by (simp add: norm3_axis del: norm3.simps)
  let ?d' = "d \<lparr> first_gyro_timestamp := 115 \<rparr>"
  have init: "IsInitializing ?d'"
    using d by (simp add: IsInitializing_def)
  have d': "is_stationary ?d'"
    "dlp_GetFilteredData (gyro_bias_delayed_low_pass_filter ?d') = Some ?sb"
    "max_stationary_gyro_bias_correction (config ?d') = ?m"
    "has_gyro_bias_correction_converged ?d'"
    "bias_correction_gain ?d' = 1" "init_bias_correction_gain_multiplier (config ?d') = 10"
    using d by simp_all
  from C2_gyro_bias_correction [of ?d' ?near 118 ?sb "(1 / 1000, 0, 0)" ?m True] d' near init
  have fourth: "fst (GetGyroBiasCorrection ?near 118 ?d') = (1 / 100, 0, 0)"
    by (simp add: norm3_axis del: norm3.simps)
  from first second third fourth d(1) show ?thesis
    by (auto simp: correction_after_def)
qed

section \<open>Quaternions of the orientation filter\<close>

text \<open>
  A quaternion is an Eigen 4-vector \<open>(x, y, z, w)\<close>, the scalar part last (JPL). The pair
  of gyroscope measurements of the integrator, a 6-vector, is the pair of its two
  3-vector blocks.
\<close>

type_synonym Vector4d = "real \<times> real \<times> real \<times> real"

fun add4 :: "Vector4d \<Rightarrow> Vector4d \<Rightarrow> Vector4d" where
  "add4 (a, b, c, d) (x, y, z, w) = (a + x, b + y, c + z, d + w)"

fun smul4 :: "real \<Rightarrow> Vector4d \<Rightarrow> Vector4d" where
  "smul4 k (x, y, z, w) = (k * x, k * y, k * z, k * w)"

fun neg4 :: "Vector4d \<Rightarrow> Vector4d" where
  "neg4 (x, y, z, w) = (- x, - y, - z, - w)"

fun squaredNorm4 :: "Vector4d \<Rightarrow> real" where
  "squaredNorm4 (x, y, z, w) = x * x + y * y + z * z + w * w"

definition norm4 :: "Vector4d \<Rightarrow> real" where
  "norm4 v = sqrt (squaredNorm4 v)"

fun scalar_part :: "Vector4d \<Rightarrow> real" where
  "scalar_part (x, y, z, w) = w"

text \<open>
  Modelled from the spec: Eigen is not part of the repository. \<^verbatim>\<open>normalize()\<close> divides
  the vector by its norm when the squared norm is positive and leaves it unchanged
  otherwise (Eigen 3.3); "Normalize the quaternion", the source says at its call.
\<close>

definition normalize4 :: "Vector4d \<Rightarrow> Vector4d" where
  "normalize4 v = (if squaredNorm4 v > 0 then smul4 (1 / sqrt (squaredNorm4 v)) v else v)"

subsection \<open>geometry_toolbox_mahony.h\<close>

text \<open>\<^verbatim>\<open>Omega(w) * q\<close>, the product of the 4x4 matrix with a quaternion.\<close>

fun Omega_times :: "Vector3d \<Rightarrow> Vector4d \<Rightarrow> Vector4d" where
  "Omega_times (w0, w1, w2) (q0, q1, q2, q3) =
     (w2 * q1 - w1 * q2 + w0 * q3,
      - w2 * q0 + w0 * q2 + w1 * q3,
      w1 * q0 - w0 * q1 + w2 * q3,
      - w0 * q0 - w1 * q1 - w2 * q2)"

text \<open>
  \<^verbatim>\<open>QuaternionMultiplication\<close>: the matrix L of \<open>q1\<close> times \<open>q2\<close>, divided by its norm
  (a division by zero when the product is zero), and negated when its scalar part is
  negative.
\<close>

fun L_times :: "Vector4d \<Rightarrow> Vector4d \<Rightarrow> Vector4d" where
  "L_times (a0, a1, a2, a3) (b0, b1, b2, b3) =
     (a3 * b0 + a2 * b1 - a1 * b2 + a0 * b3,
      - a2 * b0 + a3 * b1 + a0 * b2 + a1 * b3,
      a1 * b0 - a0 * b1 + a3 * b2 + a2 * b3,
      - a0 * b0 - a1 * b1 - a2 * b2 + a3 * b3)"

definition QuaternionMultiplication :: "Vector4d \<Rightarrow> Vector4d \<Rightarrow> Vector4d" where
  "QuaternionMultiplication q1 q2 =
     (let result = L_times q1 q2;
          result = smul4 (1 / norm4 result) result
      in if scalar_part result < 0 then neg4 result else result)"

subsection \<open>QuaternionIntegrator (quaternion_integrator.cc)\<close>

definition StateTimeDerivative ::
  "real \<Rightarrow> real \<Rightarrow> Vector4d \<Rightarrow> Vector3d \<times> Vector3d \<Rightarrow> Vector4d" where
  "StateTimeDerivative t step_size state gyro_measurements =
     (case gyro_measurements of
        (g_previous, g_current) \<Rightarrow>
          smul4 step_size
            (smul4 (1 / 2)
               (Omega_times
                  (vadd g_previous (smul (1 / step_size) (smul t (vsub g_current g_previous))))
                  state)))"

definition EulerStateTransition ::
  "Vector4d \<Rightarrow> Vector3d \<times> Vector3d \<Rightarrow> real \<Rightarrow> Vector4d" where
  "EulerStateTransition previous_state gyro_measurements step_size =
     add4 previous_state (StateTimeDerivative 0 step_size previous_state gyro_measurements)"

definition Integrate :: "Vector4d \<Rightarrow> Vector3d \<times> Vector3d \<Rightarrow> real \<Rightarrow> Vector4d" where
  "Integrate state gyro_measurements delta_t =
     (let next_state = normalize4 (EulerStateTransition state gyro_measurements delta_t)
      in if scalar_part next_state < 0 then neg4 next_state else next_state)"

subsection \<open>OrientationFilter (orientation_filter.h)\<close>

text \<open>
  The members of the filter that \<^verbatim>\<open>SetOrientation\<close>, \<^verbatim>\<open>SetGyroBias\<close> and the getters
  use: the 7-vector \<^verbatim>\<open>state_\<close> as its quaternion and its bias, and two members of the
  initialization. The constructor starts with the identity rotation.
\<close>

record OrientationFilter =
  state_quaternion :: Vector4d
  state_gyro_bias :: Vector3d
  is_orientation_initialized :: bool
  first_accel_timestamp_s :: real

definition new_OrientationFilter :: OrientationFilter where
  "new_OrientationFilter =
     \<lparr> state_quaternion = (0, 0, 0, 1),
       state_gyro_bias = Zero3,
       is_orientation_initialized = False,
       first_accel_timestamp_s = 0 \<rparr>"

definition GetOrientation :: "OrientationFilter \<Rightarrow> Vector4d" where
  "GetOrientation f = state_quaternion f"

definition SetOrientation :: "Vector4d \<Rightarrow> OrientationFilter \<Rightarrow> OrientationFilter" where
  "SetOrientation orientation f =
     f \<lparr> state_quaternion := orientation,
         is_orientation_initialized := True,
         first_accel_timestamp_s := 0 \<rparr>"

section \<open>The quaternion of the filter state\<close>

lemma squaredNorm4_nonneg: "0 \<le> squaredNorm4 v"
  by (cases v) simp

lemma squaredNorm4_zero: "squaredNorm4 v = 0 \<longleftrightarrow> v = (0, 0, 0, 0)"
proof (cases v)
  case (fields x y z w)
  have "x * x + y * y + z * z + w * w = 0 \<longleftrightarrow> x = 0 \<and> y = 0 \<and> z = 0 \<and> w = 0"
    by (smt (verit) mult_eq_0_iff zero_le_square)
  with fields show ?thesis by simp
qed

lemma squaredNorm4_smul4: "squaredNorm4 (smul4 k v) = k * k * squaredNorm4 v"
  by (cases v) (simp add: algebra_simps)

lemma squaredNorm4_neg4: "squaredNorm4 (neg4 v) = squaredNorm4 v"
  by (cases v) simp

lemma scalar_part_neg4: "scalar_part (neg4 v) = - scalar_part v"
  by (cases v) simp

lemma norm4_normalized:
  assumes "0 < squaredNorm4 v"
  shows "norm4 (smul4 (1 / sqrt (squaredNorm4 v)) v) = 1"
proof -
  let ?s = "squaredNorm4 v"
  have "squaredNorm4 (smul4 (1 / sqrt ?s) v) = (1 / sqrt ?s) * (1 / sqrt ?s) * ?s"
    by (rule squaredNorm4_smul4)
  also have "\<dots> = 1"
    using assms by (simp add: field_simps)
  finally show ?thesis by (simp add: norm4_def)
qed

lemma squaredNorm4_EulerStateTransition:
  "squaredNorm4 (EulerStateTransition q (g_previous, g_current) dt) =
     squaredNorm4 q * (1 + (dt / 2) * (dt / 2) * (norm3 g_previous * norm3 g_previous))"
proof -
  obtain a b c d where q: "q = (a, b, c, d)" by (cases q) auto
  obtain x y z where g: "g_previous = (x, y, z)" by (cases g_previous) auto
  obtain x' y' z' where g': "g_current = (x', y', z')" by (cases g_current) auto
  have n: "norm3 g_previous * norm3 g_previous = x * x + y * y + z * z"
    by (simp add: g add_nonneg_nonneg)
  show ?thesis
    unfolding n
    by (simp add: q g g' EulerStateTransition_def StateTimeDerivative_def field_simps)
qed

lemma squaredNorm4_L_times:
  "squaredNorm4 (L_times q1 q2) = squaredNorm4 q1 * squaredNorm4 q2"
proof -
  obtain a0 a1 a2 a3 where q1: "q1 = (a0, a1, a2, a3)" by (cases q1) auto
  obtain b0 b1 b2 b3 where q2: "q2 = (b0, b1, b2, b3)" by (cases q2) auto
  show ?thesis
    by (simp add: q1 q2 algebra_simps)
qed

lemma unit_and_canonical:
  assumes "norm4 v = 1"
  shows "norm4 (if scalar_part v < 0 then neg4 v else v) = 1"
    and "0 \<le> scalar_part (if scalar_part v < 0 then neg4 v else v)"
  using assms by (simp_all add: norm4_def squaredNorm4_neg4 scalar_part_neg4)

lemma Integrate_unit:
  assumes "state \<noteq> (0, 0, 0, 0)"
  shows "norm4 (Integrate state g delta_t) = 1 \<and> 0 \<le> scalar_part (Integrate state g delta_t)"
proof -
  obtain g_previous g_current where g: "g = (g_previous, g_current)" by (cases g)
  let ?v = "EulerStateTransition state g delta_t"
  have "0 < squaredNorm4 state"
    using assms squaredNorm4_nonneg [of state] squaredNorm4_zero [of state] by simp
  moreover have "0 < 1 + (delta_t / 2) * (delta_t / 2) * (norm3 g_previous * norm3 g_previous)"
    by (smt (verit) mult_nonneg_nonneg zero_le_square)
  ultimately have pos: "0 < squaredNorm4 ?v"
    by (simp add: g squaredNorm4_EulerStateTransition)
  then have "norm4 (normalize4 ?v) = 1"
    by (simp add: normalize4_def norm4_normalized)
  from unit_and_canonical [OF this] show ?thesis
    by (simp add: Integrate_def Let_def)
qed

lemma QuaternionMultiplication_unit:
  assumes "q1 \<noteq> (0, 0, 0, 0)" and "q2 \<noteq> (0, 0, 0, 0)"
  shows "norm4 (QuaternionMultiplication q1 q2) = 1
         \<and> 0 \<le> scalar_part (QuaternionMultiplication q1 q2)"
proof -
  let ?v = "L_times q1 q2"
  have "0 < squaredNorm4 q1" "0 < squaredNorm4 q2"
    using assms squaredNorm4_nonneg [of q1] squaredNorm4_zero [of q1]
      squaredNorm4_nonneg [of q2] squaredNorm4_zero [of q2] by simp_all
  then have pos: "0 < squaredNorm4 ?v"
    by (simp add: squaredNorm4_L_times)
  then have "norm4 (smul4 (1 / norm4 ?v) ?v) = 1"
    unfolding norm4_def [of ?v] by (rule norm4_normalized)
  from unit_and_canonical [OF this] show ?thesis
    by (simp add: QuaternionMultiplication_def Let_def)
qed

text \<open>
  \<^verbatim>\<open>RotationMatrixToQuaternion\<close> (geometry_toolbox_mahony.h), on a matrix given by its
  rows. \<^verbatim>\<open>OrientationFromAccelAndMag\<close> and \<^verbatim>\<open>Recenter\<close> store its result as the quaternion
  of the state.
\<close>

type_synonym Matrix3d = "Vector3d \<times> Vector3d \<times> Vector3d"

definition RotationMatrixToQuaternion :: "Matrix3d \<Rightarrow> Vector4d" where
  "RotationMatrixToQuaternion mat =
     (case mat of ((m00, m01, m02), (m10, m11, m12), (m20, m21, m22)) \<Rightarrow>
      let ww = 1 + m00 + m11 + m22;
          xx = 1 + m00 - m11 - m22;
          yy = 1 - m00 + m11 - m22;
          zz = 1 - m00 - m11 + m22;
          mx = max ww (max xx (max yy zz))
      in if ww = mx then
           (let w4 = sqrt (ww * 4)
            in (- (m21 - m12) / w4, - (m02 - m20) / w4, - (m10 - m01) / w4, w4 / 4))
         else if xx = mx then
           (let x4 = sqrt (xx * 4)
            in (- x4 / 4, - (m01 + m10) / x4, - (m02 + m20) / x4, (m21 - m12) / x4))
         else if yy = mx then
           (let y4 = sqrt (yy * 4)
            in (- (m01 + m10) / y4, - y4 / 4, - (m12 + m21) / y4, (m02 - m20) / y4))
         else
           (let z4 = sqrt (zz * 4)
            in (- (m02 + m20) / z4, - (m12 + m21) / z4, - z4 / 4, (m10 - m01) / z4)))"

text \<open>
  The scalar part of its result can be negative. The rotation matrix below is the one
  that \<^verbatim>\<open>OrientationFromAccelAndMag\<close> builds, without the magnetometer, from the
  accelerometer sample \<open>(-8, 6, 0)\<close>: the columns \<open>L_x\<close>, \<open>L_y\<close> and \<open>L_z = (-0.8, 0.6, 0)\<close>.
\<close>

definition upside_down_landscape :: Matrix3d where
  "upside_down_landscape =
     ((0, - 6 / 10, - 8 / 10),
      (0, - 8 / 10, 6 / 10),
      (- 1, 0, 0))"

lemma RotationMatrixToQuaternion_negative_scalar_part:
  "scalar_part (RotationMatrixToQuaternion upside_down_landscape) < 0"
  by (simp add: RotationMatrixToQuaternion_def upside_down_landscape_def Let_def
        divide_neg_pos)

text \<open>
  Claim C4 has \<open>\<parallel>q\<parallel> = 1\<close> and \<open>q.w \<ge> 0\<close> after every public operation that updates the state,
  \<^verbatim>\<open>SetOrientation\<close> among them. \<^verbatim>\<open>SetOrientation\<close> stores the quaternion it is given: after
  \<^verbatim>\<open>SetOrientation\<close> of \<open>(0, 0, 0, 2)\<close> the norm of the quaternion of the state is 2.
\<close>

theorem C4_counterexample:
  "GetOrientation (SetOrientation (0, 0, 0, 2) new_OrientationFilter) = (0, 0, 0, 2)
   \<and> norm4 (GetOrientation (SetOrientation (0, 0, 0, 2) new_OrientationFilter)) = 2"
  by (simp add: GetOrientation_def SetOrientation_def norm4_def)

text \<open>
  Claim C4, amended. After \<^verbatim>\<open>SetOrientation\<close> the quaternion of the state is the argument,
  whatever it is. The quaternion that \<^verbatim>\<open>QuaternionIntegrator::Integrate\<close> returns, which
  every propagation of the filter stores, has norm 1 and a scalar part that is not
  negative, for every state that is not zero, every pair of gyroscope measurements and
  every time step that is not zero; so has the product that \<^verbatim>\<open>QuaternionMultiplication\<close>
  returns, with which \<^verbatim>\<open>AddAccelMeasurement\<close> realigns the state with gravity, for factors
  that are not zero.
\<close>

theorem C4_orientation_quaternion:
  "GetOrientation (SetOrientation q f) = q
   \<and> (state \<noteq> (0, 0, 0, 0) \<and> delta_t \<noteq> 0
        \<longrightarrow> norm4 (Integrate state g delta_t) = 1
            \<and> 0 \<le> scalar_part (Integrate state g delta_t))
   \<and> (q1 \<noteq> (0, 0, 0, 0) \<and> q2 \<noteq> (0, 0, 0, 0)
        \<longrightarrow> norm4 (QuaternionMultiplication q1 q2) = 1
            \<and> 0 \<le> scalar_part (QuaternionMultiplication q1 q2))"
  using Integrate_unit [of state g delta_t] QuaternionMultiplication_unit [of q1 q2]
  by (simp add: GetOrientation_def SetOrientation_def)

theorem C4_witness:
  "GetOrientation (SetOrientation (0, 0, 0, 1) new_OrientationFilter) = (0, 0, 0, 1)
   \<and> norm4 (Integrate (0, 0, 0, 1) ((0, 0, 1), (0, 0, 1)) (1 / 100)) = 1
   \<and> 0 \<le> scalar_part (Integrate (0, 0, 0, 1) ((0, 0, 1), (0, 0, 1)) (1 / 100))
   \<and> norm4 (QuaternionMultiplication (0, 0, 1, 0) (0, 0, 0, 2)) = 1
   \<and> 0 \<le> scalar_part (QuaternionMultiplication (0, 0, 1, 0) (0, 0, 0, 2))"
  using C4_orientation_quaternion [of "(0, 0, 0, 1)" new_OrientationFilter "(0, 0, 0, 1)"
      "1 / 100" "((0, 0, 1), (0, 0, 1))" "(0, 0, 1, 0)" "(0, 0, 0, 2)"]
  by simp

end
